theory Spec2Isabelle
  imports Main "HOL-Library.Tree"
begin

section \<open>Texts and character classes\<close>

text \<open>
  A Python \<open>str\<close> is modelled as the list of its code points, which are integers
  (\<open>ord\<close>); offsets into a text are list indices. \<open>cps\<close> gives the text of a
  string literal of the source. The tables below are those of the Unicode database 14.0.0
  (the one of CPython 3.11), which \<open>str\<close> and \<open>re\<close> consult.
\<close>

type_synonym str = "int list"

definition cps :: "string \<Rightarrow> str" where
  "cps s = map of_char s"

definition NL :: int where
  "NL = 10"

definition QUOTE :: int where
  "QUOTE = 39"

definition BACKSLASH :: int where
  "BACKSLASH = 92"

definition FULL_STOP :: int where
  "FULL_STOP = 46"

text \<open>\<open>\s\<close> and \<open>str.isspace\<close>: the white space code points.\<close>

definition WHITESPACE :: "int list" where
  "WHITESPACE = [9, 10, 11, 12, 13, 28, 29, 30, 31, 32, 133, 160, 5760,
     8192, 8193, 8194, 8195, 8196, 8197, 8198, 8199, 8200, 8201, 8202,
     8232, 8233, 8239, 8287, 12288]"

definition is_space :: "int \<Rightarrow> bool" where
  "is_space c = (c \<in> set WHITESPACE)"

text \<open>\<open>\w\<close>: the alphanumeric code points (\<open>str.isalnum\<close>) and the underscore, as
  ranges, each with its first and its last code point, in a search tree.\<close>

definition WORD_RANGES :: "(int \<times> int) tree" where
  "WORD_RANGES =
     Node
      (Node
       (Node
        (Node
         (Node
          (Node
           (Node
            (Node
             (Node
              (Node Leaf (48, 57) Leaf)
              (65, 90)
              (Leaf))
             (95, 95)
             (Node
              (Node Leaf (97, 122) Leaf)
              (170, 170)
              (Leaf)))
            (178, 179)
            (Node
             (Node
              (Node Leaf (181, 181) Leaf)
              (185, 186)
              (Leaf))
             (188, 190)
             (Node
              (Node Leaf (192, 214) Leaf)
              (216, 246)
              (Leaf))))
           (248, 705)
           (Node
            (Node
             (Node
              (Node Leaf (710, 721) Leaf)
              (736, 740)
              (Leaf))
             (748, 748)
             (Node
              (Node Leaf (750, 750) Leaf)
              (880, 884)
              (Leaf)))
            (886, 887)
            (Node
             (Node
              (Node Leaf (890, 893) Leaf)
              (895, 895)
              (Leaf))
             (902, 902)
             (Node Leaf (904, 906) Leaf))))
          (908, 908)
          (Node
           (Node
            (Node
             (Node
              (Node Leaf (910, 929) Leaf)
              (931, 1013)
              (Leaf))
             (1015, 1153)
             (Node
              (Node Leaf (1162, 1327) Leaf)
              (1329, 1366)
              (Leaf)))
            (1369, 1369)
            (Node
             (Node
              (Node Leaf (1376, 1416) Leaf)
              (1488, 1514)
              (Leaf))
             (1519, 1522)
             (Node
              (Node Leaf (1568, 1610) Leaf)
              (1632, 1641)
              (Leaf))))
           (1646, 1647)
           (Node
            (Node
             (Node
              (Node Leaf (1649, 1747) Leaf)
              (1749, 1749)
              (Leaf))
             (1765, 1766)
             (Node
              (Node Leaf (1774, 1788) Leaf)
              (1791, 1791)
              (Leaf)))
            (1808, 1808)
            (Node
             (Node
              (Node Leaf (1810, 1839) Leaf)
              (1869, 1957)
              (Leaf))
             (1969, 1969)
             (Node Leaf (1984, 2026) Leaf)))))
         (2036, 2037)
         (Node
          (Node
           (Node
            (Node
             (Node
              (Node Leaf (2042, 2042) Leaf)
              (2048, 2069)
              (Leaf))
             (2074, 2074)
             (Node
              (Node Leaf (2084, 2084) Leaf)
              (2088, 2088)
              (Leaf)))
            (2112, 2136)
            (Node
             (Node
              (Node Leaf (2144, 2154) Leaf)
              (2160, 2183)
              (Leaf))
             (2185, 2190)
             (Node
              (Node Leaf (2208, 2249) Leaf)
              (2308, 2361)
              (Leaf))))
           (2365, 2365)
           (Node
            (Node
             (Node
              (Node Leaf (2384, 2384) Leaf)
              (2392, 2401)
              (Leaf))
             (2406, 2415)
             (Node
              (Node Leaf (2417, 2432) Leaf)
              (2437, 2444)
              (Leaf)))
            (2447, 2448)
            (Node
             (Node
              (Node Leaf (2451, 2472) Leaf)
              (2474, 2480)
              (Leaf))
             (2482, 2482)
             (Node Leaf (2486, 2489) Leaf))))
          (2493, 2493)
          (Node
           (Node
            (Node
             (Node
              (Node Leaf (2510, 2510) Leaf)
              (2524, 2525)
              (Leaf))
             (2527, 2529)
             (Node
              (Node Leaf (2534, 2545) Leaf)
              (2548, 2553)
              (Leaf)))
            (2556, 2556)
            (Node
             (Node
              (Node Leaf (2565, 2570) Leaf)
              (2575, 2576)
              (Leaf))
             (2579, 2600)
             (Node
              (Node Leaf (2602, 2608) Leaf)
              (2610, 2611)
              (Leaf))))
           (2613, 2614)
           (Node
            (Node
             (Node
              (Node Leaf (2616, 2617) Leaf)
              (2649, 2652)
              (Leaf))
             (2654, 2654)
             (Node
              (Node Leaf (2662, 2671) Leaf)
              (2674, 2676)
              (Leaf)))
            (2693, 2701)
            (Node
             (Node
              (Node Leaf (2703, 2705) Leaf)
              (2707, 2728)
              (Leaf))
             (2730, 2736)
             (Node Leaf (2738, 2739) Leaf))))))
        (2741, 2745)
        (Node
         (Node
          (Node
           (Node
            (Node
             (Node
              (Node Leaf (2749, 2749) Leaf)
              (2768, 2768)
              (Leaf))
             (2784, 2785)
             (Node
              (Node Leaf (2790, 2799) Leaf)
              (2809, 2809)
              (Leaf)))
            (2821, 2828)
            (Node
             (Node
              (Node Leaf (2831, 2832) Leaf)
              (2835, 2856)
              (Leaf))
             (2858, 2864)
             (Node
              (Node Leaf (2866, 2867) Leaf)
              (2869, 2873)
              (Leaf))))
           (2877, 2877)
           (Node
            (Node
             (Node
              (Node Leaf (2908, 2909) Leaf)
              (2911, 2913)
              (Leaf))
             (2918, 2927)
             (Node
              (Node Leaf (2929, 2935) Leaf)
              (2947, 2947)
              (Leaf)))
            (2949, 2954)
            (Node
             (Node
              (Node Leaf (2958, 2960) Leaf)
              (2962, 2965)
              (Leaf))
             (2969, 2970)
             (Node Leaf (2972, 2972) Leaf))))
          (2974, 2975)
          (Node
           (Node
            (Node
             (Node
              (Node Leaf (2979, 2980) Leaf)
              (2984, 2986)
              (Leaf))
             (2990, 3001)
             (Node
              (Node Leaf (3024, 3024) Leaf)
              (3046, 3058)
              (Leaf)))
            (3077, 3084)
            (Node
             (Node
              (Node Leaf (3086, 3088) Leaf)
              (3090, 3112)
              (Leaf))
             (3114, 3129)
             (Node
              (Node Leaf (3133, 3133) Leaf)
              (3160, 3162)
              (Leaf))))
           (3165, 3165)
           (Node
            (Node
             (Node
              (Node Leaf (3168, 3169) Leaf)
              (3174, 3183)
              (Leaf))
             (3192, 3198)
             (Node
              (Node Leaf (3200, 3200) Leaf)
              (3205, 3212)
              (Leaf)))
            (3214, 3216)
            (Node
             (Node
              (Node Leaf (3218, 3240) Leaf)
              (3242, 3251)
              (Leaf))
             (3253, 3257)
             (Node Leaf (3261, 3261) Leaf)))))
         (3293, 3294)
         (Node
          (Node
           (Node
            (Node
             (Node
              (Node Leaf (3296, 3297) Leaf)
              (3302, 3311)
              (Leaf))
             (3313, 3314)
             (Node
              (Node Leaf (3332, 3340) Leaf)
              (3342, 3344)
              (Leaf)))
            (3346, 3386)
            (Node
             (Node
              (Node Leaf (3389, 3389) Leaf)
              (3406, 3406)
              (Leaf))
             (3412, 3414)
             (Node
              (Node Leaf (3416, 3425) Leaf)
              (3430, 3448)
              (Leaf))))
           (3450, 3455)
           (Node
            (Node
             (Node
              (Node Leaf (3461, 3478) Leaf)
              (3482, 3505)
              (Leaf))
             (3507, 3515)
             (Node
              (Node Leaf (3517, 3517) Leaf)
              (3520, 3526)
              (Leaf)))
            (3558, 3567)
            (Node
             (Node
              (Node Leaf (3585, 3632) Leaf)
              (3634, 3635)
              (Leaf))
             (3648, 3654)
             (Node Leaf (3664, 3673) Leaf))))
          (3713, 3714)
          (Node
           (Node
            (Node
             (Node
              (Node Leaf (3716, 3716) Leaf)
              (3718, 3722)
              (Leaf))
             (3724, 3747)
             (Node
              (Node Leaf (3749, 3749) Leaf)
              (3751, 3760)
              (Leaf)))
            (3762, 3763)
            (Node
             (Node
              (Node Leaf (3773, 3773) Leaf)
              (3776, 3780)
              (Leaf))
             (3782, 3782)
             (Node
              (Node Leaf (3792, 3801) Leaf)
              (3804, 3807)
              (Leaf))))
           (3840, 3840)
           (Node
            (Node
             (Node
              (Node Leaf (3872, 3891) Leaf)
              (3904, 3911)
              (Leaf))
             (3913, 3948)
             (Node
              (Node Leaf (3976, 3980) Leaf)
              (4096, 4138)
              (Leaf)))
            (4159, 4169)
            (Node
             (Node
              (Node Leaf (4176, 4181) Leaf)
              (4186, 4189)
              (Leaf))
             (4193, 4193)
             (Node Leaf (4197, 4198) Leaf)))))))
       (4206, 4208)
       (Node
        (Node
         (Node
          (Node
           (Node
            (Node
             (Node
              (Node Leaf (4213, 4225) Leaf)
              (4238, 4238)
              (Leaf))
             (4240, 4249)
             (Node
              (Node Leaf (4256, 4293) Leaf)
              (4295, 4295)
              (Leaf)))
            (4301, 4301)
            (Node
             (Node
              (Node Leaf (4304, 4346) Leaf)
              (4348, 4680)
              (Leaf))
             (4682, 4685)
             (Node
              (Node Leaf (4688, 4694) Leaf)
              (4696, 4696)
              (Leaf))))
           (4698, 4701)
           (Node
            (Node
             (Node
              (Node Leaf (4704, 4744) Leaf)
              (4746, 4749)
              (Leaf))
             (4752, 4784)
             (Node
              (Node Leaf (4786, 4789) Leaf)
              (4792, 4798)
              (Leaf)))
            (4800, 4800)
            (Node
             (Node
              (Node Leaf (4802, 4805) Leaf)
              (4808, 4822)
              (Leaf))
             (4824, 4880)
             (Node Leaf (4882, 4885) Leaf))))
          (4888, 4954)
          (Node
           (Node
            (Node
             (Node
              (Node Leaf (4969, 4988) Leaf)
              (4992, 5007)
              (Leaf))
             (5024, 5109)
             (Node
              (Node Leaf (5112, 5117) Leaf)
              (5121, 5740)
              (Leaf)))
            (5743, 5759)
            (Node
             (Node
              (Node Leaf (5761, 5786) Leaf)
              (5792, 5866)
              (Leaf))
             (5870, 5880)
             (Node
              (Node Leaf (5888, 5905) Leaf)
              (5919, 5937)
              (Leaf))))
           (5952, 5969)
           (Node
            (Node
             (Node
              (Node Leaf (5984, 5996) Leaf)
              (5998, 6000)
              (Leaf))
             (6016, 6067)
             (Node
              (Node Leaf (6103, 6103) Leaf)
              (6108, 6108)
              (Leaf)))
            (6112, 6121)
            (Node
             (Node
              (Node Leaf (6128, 6137) Leaf)
              (6160, 6169)
              (Leaf))
             (6176, 6264)
             (Node Leaf (6272, 6276) Leaf)))))
         (6279, 6312)
         (Node
          (Node
           (Node
            (Node
             (Node
              (Node Leaf (6314, 6314) Leaf)
              (6320, 6389)
              (Leaf))
             (6400, 6430)
             (Node
              (Node Leaf (6470, 6509) Leaf)
              (6512, 6516)
              (Leaf)))
            (6528, 6571)
            (Node
             (Node
              (Node Leaf (6576, 6601) Leaf)
              (6608, 6618)
              (Leaf))
             (6656, 6678)
             (Node
              (Node Leaf (6688, 6740) Leaf)
              (6784, 6793)
              (Leaf))))
           (6800, 6809)
           (Node
            (Node
             (Node
              (Node Leaf (6823, 6823) Leaf)
              (6917, 6963)
              (Leaf))
             (6981, 6988)
             (Node
              (Node Leaf (6992, 7001) Leaf)
              (7043, 7072)
              (Leaf)))
            (7086, 7141)
            (Node
             (Node
              (Node Leaf (7168, 7203) Leaf)
              (7232, 7241)
              (Leaf))
             (7245, 7293)
             (Node Leaf (7296, 7304) Leaf))))
          (7312, 7354)
          (Node
           (Node
            (Node
             (Node
              (Node Leaf (7357, 7359) Leaf)
              (7401, 7404)
              (Leaf))
             (7406, 7411)
             (Node
              (Node Leaf (7413, 7414) Leaf)
              (7418, 7418)
              (Leaf)))
            (7424, 7615)
            (Node
             (Node
              (Node Leaf (7680, 7957) Leaf)
              (7960, 7965)
              (Leaf))
             (7968, 8005)
             (Node
              (Node Leaf (8008, 8013) Leaf)
              (8016, 8023)
              (Leaf))))
           (8025, 8025)
           (Node
            (Node
             (Node
              (Node Leaf (8027, 8027) Leaf)
              (8029, 8029)
              (Leaf))
             (8031, 8061)
             (Node
              (Node Leaf (8064, 8116) Leaf)
              (8118, 8124)
              (Leaf)))
            (8126, 8126)
            (Node
             (Node
              (Node Leaf (8130, 8132) Leaf)
              (8134, 8140)
              (Leaf))
             (8144, 8147)
             (Node Leaf (8150, 8155) Leaf))))))
        (8160, 8172)
        (Node
         (Node
          (Node
           (Node
            (Node
             (Node
              (Node Leaf (8178, 8180) Leaf)
              (8182, 8188)
              (Leaf))
             (8304, 8305)
             (Node
              (Node Leaf (8308, 8313) Leaf)
              (8319, 8329)
              (Leaf)))
            (8336, 8348)
            (Node
             (Node
              (Node Leaf (8450, 8450) Leaf)
              (8455, 8455)
              (Leaf))
             (8458, 8467)
             (Node
              (Node Leaf (8469, 8469) Leaf)
              (8473, 8477)
              (Leaf))))
           (8484, 8484)
           (Node
            (Node
             (Node
              (Node Leaf (8486, 8486) Leaf)
              (8488, 8488)
              (Leaf))
             (8490, 8493)
             (Node
              (Node Leaf (8495, 8505) Leaf)
              (8508, 8511)
              (Leaf)))
            (8517, 8521)
            (Node
             (Node
              (Node Leaf (8526, 8526) Leaf)
              (8528, 8585)
              (Leaf))
             (9312, 9371)
             (Node Leaf (9450, 9471) Leaf))))
          (10102, 10131)
          (Node
           (Node
            (Node
             (Node
              (Node Leaf (11264, 11492) Leaf)
              (11499, 11502)
              (Leaf))
             (11506, 11507)
             (Node
              (Node Leaf (11517, 11517) Leaf)
              (11520, 11557)
              (Leaf)))
            (11559, 11559)
            (Node
             (Node
              (Node Leaf (11565, 11565) Leaf)
              (11568, 11623)
              (Leaf))
             (11631, 11631)
             (Node
              (Node Leaf (11648, 11670) Leaf)
              (11680, 11686)
              (Leaf))))
           (11688, 11694)
           (Node
            (Node
             (Node
              (Node Leaf (11696, 11702) Leaf)
              (11704, 11710)
              (Leaf))
             (11712, 11718)
             (Node
              (Node Leaf (11720, 11726) Leaf)
              (11728, 11734)
              (Leaf)))
            (11736, 11742)
            (Node
             (Node
              (Node Leaf (11823, 11823) Leaf)
              (12293, 12295)
              (Leaf))
             (12321, 12329)
             (Node Leaf (12337, 12341) Leaf)))))
         (12344, 12348)
         (Node
          (Node
           (Node
            (Node
             (Node
              (Node Leaf (12353, 12438) Leaf)
              (12445, 12447)
              (Leaf))
             (12449, 12538)
             (Node
              (Node Leaf (12540, 12543) Leaf)
              (12549, 12591)
              (Leaf)))
            (12593, 12686)
            (Node
             (Node
              (Node Leaf (12690, 12693) Leaf)
              (12704, 12735)
              (Leaf))
             (12784, 12799)
             (Node
              (Node Leaf (12832, 12841) Leaf)
              (12872, 12879)
              (Leaf))))
           (12881, 12895)
           (Node
            (Node
             (Node
              (Node Leaf (12928, 12937) Leaf)
              (12977, 12991)
              (Leaf))
             (13312, 19903)
             (Node
              (Node Leaf (19968, 42124) Leaf)
              (42192, 42237)
              (Leaf)))
            (42240, 42508)
            (Node
             (Node
              (Node Leaf (42512, 42539) Leaf)
              (42560, 42606)
              (Leaf))
             (42623, 42653)
             (Node Leaf (42656, 42735) Leaf))))
          (42775, 42783)
          (Node
           (Node
            (Node
             (Node
              (Node Leaf (42786, 42888) Leaf)
              (42891, 42954)
              (Leaf))
             (42960, 42961)
             (Node
              (Node Leaf (42963, 42963) Leaf)
              (42965, 42969)
              (Leaf)))
            (42994, 43009)
            (Node
             (Node
              (Node Leaf (43011, 43013) Leaf)
              (43015, 43018)
              (Leaf))
             (43020, 43042)
             (Node
              (Node Leaf (43056, 43061) Leaf)
              (43072, 43123)
              (Leaf))))
           (43138, 43187)
           (Node
            (Node
             (Node
              (Node Leaf (43216, 43225) Leaf)
              (43250, 43255)
              (Leaf))
             (43259, 43259)
             (Node
              (Node Leaf (43261, 43262) Leaf)
              (43264, 43301)
              (Leaf)))
            (43312, 43334)
            (Node
             (Node
              (Node Leaf (43360, 43388) Leaf)
              (43396, 43442)
              (Leaf))
             (43471, 43481)
             (Node Leaf (43488, 43492) Leaf))))))))
      (43494, 43518)
      (Node
       (Node
        (Node
         (Node
          (Node
           (Node
            (Node
             (Node
              (Node Leaf (43520, 43560) Leaf)
              (43584, 43586)
              (Leaf))
             (43588, 43595)
             (Node
              (Node Leaf (43600, 43609) Leaf)
              (43616, 43638)
              (Leaf)))
            (43642, 43642)
            (Node
             (Node
              (Node Leaf (43646, 43695) Leaf)
              (43697, 43697)
              (Leaf))
             (43701, 43702)
             (Node
              (Node Leaf (43705, 43709) Leaf)
              (43712, 43712)
              (Leaf))))
           (43714, 43714)
           (Node
            (Node
             (Node
              (Node Leaf (43739, 43741) Leaf)
              (43744, 43754)
              (Leaf))
             (43762, 43764)
             (Node
              (Node Leaf (43777, 43782) Leaf)
              (43785, 43790)
              (Leaf)))
            (43793, 43798)
            (Node
             (Node
              (Node Leaf (43808, 43814) Leaf)
              (43816, 43822)
              (Leaf))
             (43824, 43866)
             (Node Leaf (43868, 43881) Leaf))))
          (43888, 44002)
          (Node
           (Node
            (Node
             (Node
              (Node Leaf (44016, 44025) Leaf)
              (44032, 55203)
              (Leaf))
             (55216, 55238)
             (Node
              (Node Leaf (55243, 55291) Leaf)
              (63744, 64109)
              (Leaf)))
            (64112, 64217)
            (Node
             (Node
              (Node Leaf (64256, 64262) Leaf)
              (64275, 64279)
              (Leaf))
             (64285, 64285)
             (Node
              (Node Leaf (64287, 64296) Leaf)
              (64298, 64310)
              (Leaf))))
           (64312, 64316)
           (Node
            (Node
             (Node
              (Node Leaf (64318, 64318) Leaf)
              (64320, 64321)
              (Leaf))
             (64323, 64324)
             (Node
              (Node Leaf (64326, 64433) Leaf)
              (64467, 64829)
              (Leaf)))
            (64848, 64911)
            (Node
             (Node
              (Node Leaf (64914, 64967) Leaf)
              (65008, 65019)
              (Leaf))
             (65136, 65140)
             (Node Leaf (65142, 65276) Leaf)))))
         (65296, 65305)
         (Node
          (Node
           (Node
            (Node
             (Node
              (Node Leaf (65313, 65338) Leaf)
              (65345, 65370)
              (Leaf))
             (65382, 65470)
             (Node
              (Node Leaf (65474, 65479) Leaf)
              (65482, 65487)
              (Leaf)))
            (65490, 65495)
            (Node
             (Node
              (Node Leaf (65498, 65500) Leaf)
              (65536, 65547)
              (Leaf))
             (65549, 65574)
             (Node
              (Node Leaf (65576, 65594) Leaf)
              (65596, 65597)
              (Leaf))))
           (65599, 65613)
           (Node
            (Node
             (Node
              (Node Leaf (65616, 65629) Leaf)
              (65664, 65786)
              (Leaf))
             (65799, 65843)
             (Node
              (Node Leaf (65856, 65912) Leaf)
              (65930, 65931)
              (Leaf)))
            (66176, 66204)
            (Node
             (Node
              (Node Leaf (66208, 66256) Leaf)
              (66273, 66299)
              (Leaf))
             (66304, 66339)
             (Node Leaf (66349, 66378) Leaf))))
          (66384, 66421)
          (Node
           (Node
            (Node
             (Node
              (Node Leaf (66432, 66461) Leaf)
              (66464, 66499)
              (Leaf))
             (66504, 66511)
             (Node
              (Node Leaf (66513, 66517) Leaf)
              (66560, 66717)
              (Leaf)))
            (66720, 66729)
            (Node
             (Node
              (Node Leaf (66736, 66771) Leaf)
              (66776, 66811)
              (Leaf))
             (66816, 66855)
             (Node
              (Node Leaf (66864, 66915) Leaf)
              (66928, 66938)
              (Leaf))))
           (66940, 66954)
           (Node
            (Node
             (Node
              (Node Leaf (66956, 66962) Leaf)
              (66964, 66965)
              (Leaf))
             (66967, 66977)
             (Node
              (Node Leaf (66979, 66993) Leaf)
              (66995, 67001)
              (Leaf)))
            (67003, 67004)
            (Node
             (Node
              (Node Leaf (67072, 67382) Leaf)
              (67392, 67413)
              (Leaf))
             (67424, 67431)
             (Node Leaf (67456, 67461) Leaf))))))
        (67463, 67504)
        (Node
         (Node
          (Node
           (Node
            (Node
             (Node
              (Node Leaf (67506, 67514) Leaf)
              (67584, 67589)
              (Leaf))
             (67592, 67592)
             (Node
              (Node Leaf (67594, 67637) Leaf)
              (67639, 67640)
              (Leaf)))
            (67644, 67644)
            (Node
             (Node
              (Node Leaf (67647, 67669) Leaf)
              (67672, 67702)
              (Leaf))
             (67705, 67742)
             (Node
              (Node Leaf (67751, 67759) Leaf)
              (67808, 67826)
              (Leaf))))
           (67828, 67829)
           (Node
            (Node
             (Node
              (Node Leaf (67835, 67867) Leaf)
              (67872, 67897)
              (Leaf))
             (67968, 68023)
             (Node
              (Node Leaf (68028, 68047) Leaf)
              (68050, 68096)
              (Leaf)))
            (68112, 68115)
            (Node
             (Node
              (Node Leaf (68117, 68119) Leaf)
              (68121, 68149)
              (Leaf))
             (68160, 68168)
             (Node Leaf (68192, 68222) Leaf))))
          (68224, 68255)
          (Node
           (Node
            (Node
             (Node
              (Node Leaf (68288, 68295) Leaf)
              (68297, 68324)
              (Leaf))
             (68331, 68335)
             (Node
              (Node Leaf (68352, 68405) Leaf)
              (68416, 68437)
              (Leaf)))
            (68440, 68466)
            (Node
             (Node
              (Node Leaf (68472, 68497) Leaf)
              (68521, 68527)
              (Leaf))
             (68608, 68680)
             (Node
              (Node Leaf (68736, 68786) Leaf)
              (68800, 68850)
              (Leaf))))
           (68858, 68899)
           (Node
            (Node
             (Node
              (Node Leaf (68912, 68921) Leaf)
              (69216, 69246)
              (Leaf))
             (69248, 69289)
             (Node
              (Node Leaf (69296, 69297) Leaf)
              (69376, 69415)
              (Leaf)))
            (69424, 69445)
            (Node
             (Node
              (Node Leaf (69457, 69460) Leaf)
              (69488, 69505)
              (Leaf))
             (69552, 69579)
             (Node Leaf (69600, 69622) Leaf)))))
         (69635, 69687)
         (Node
          (Node
           (Node
            (Node
             (Node
              (Node Leaf (69714, 69743) Leaf)
              (69745, 69746)
              (Leaf))
             (69749, 69749)
             (Node
              (Node Leaf (69763, 69807) Leaf)
              (69840, 69864)
              (Leaf)))
            (69872, 69881)
            (Node
             (Node
              (Node Leaf (69891, 69926) Leaf)
              (69942, 69951)
              (Leaf))
             (69956, 69956)
             (Node
              (Node Leaf (69959, 69959) Leaf)
              (69968, 70002)
              (Leaf))))
           (70006, 70006)
           (Node
            (Node
             (Node
              (Node Leaf (70019, 70066) Leaf)
              (70081, 70084)
              (Leaf))
             (70096, 70106)
             (Node
              (Node Leaf (70108, 70108) Leaf)
              (70113, 70132)
              (Leaf)))
            (70144, 70161)
            (Node
             (Node
              (Node Leaf (70163, 70187) Leaf)
              (70272, 70278)
              (Leaf))
             (70280, 70280)
             (Node Leaf (70282, 70285) Leaf))))
          (70287, 70301)
          (Node
           (Node
            (Node
             (Node
              (Node Leaf (70303, 70312) Leaf)
              (70320, 70366)
              (Leaf))
             (70384, 70393)
             (Node
              (Node Leaf (70405, 70412) Leaf)
              (70415, 70416)
              (Leaf)))
            (70419, 70440)
            (Node
             (Node
              (Node Leaf (70442, 70448) Leaf)
              (70450, 70451)
              (Leaf))
             (70453, 70457)
             (Node
              (Node Leaf (70461, 70461) Leaf)
              (70480, 70480)
              (Leaf))))
           (70493, 70497)
           (Node
            (Node
             (Node
              (Node Leaf (70656, 70708) Leaf)
              (70727, 70730)
              (Leaf))
             (70736, 70745)
             (Node
              (Node Leaf (70751, 70753) Leaf)
              (70784, 70831)
              (Leaf)))
            (70852, 70853)
            (Node
             (Node
              (Node Leaf (70855, 70855) Leaf)
              (70864, 70873)
              (Leaf))
             (71040, 71086)
             (Node Leaf (71128, 71131) Leaf)))))))
       (71168, 71215)
       (Node
        (Node
         (Node
          (Node
           (Node
            (Node
             (Node
              (Node Leaf (71236, 71236) Leaf)
              (71248, 71257)
              (Leaf))
             (71296, 71338)
             (Node
              (Node Leaf (71352, 71352) Leaf)
              (71360, 71369)
              (Leaf)))
            (71424, 71450)
            (Node
             (Node
              (Node Leaf (71472, 71483) Leaf)
              (71488, 71494)
              (Leaf))
             (71680, 71723)
             (Node
              (Node Leaf (71840, 71922) Leaf)
              (71935, 71942)
              (Leaf))))
           (71945, 71945)
           (Node
            (Node
             (Node
              (Node Leaf (71948, 71955) Leaf)
              (71957, 71958)
              (Leaf))
             (71960, 71983)
             (Node
              (Node Leaf (71999, 71999) Leaf)
              (72001, 72001)
              (Leaf)))
            (72016, 72025)
            (Node
             (Node
              (Node Leaf (72096, 72103) Leaf)
              (72106, 72144)
              (Leaf))
             (72161, 72161)
             (Node Leaf (72163, 72163) Leaf))))
          (72192, 72192)
          (Node
           (Node
            (Node
             (Node
              (Node Leaf (72203, 72242) Leaf)
              (72250, 72250)
              (Leaf))
             (72272, 72272)
             (Node
              (Node Leaf (72284, 72329) Leaf)
              (72349, 72349)
              (Leaf)))
            (72368, 72440)
            (Node
             (Node
              (Node Leaf (72704, 72712) Leaf)
              (72714, 72750)
              (Leaf))
             (72768, 72768)
             (Node
              (Node Leaf (72784, 72812) Leaf)
              (72818, 72847)
              (Leaf))))
           (72960, 72966)
           (Node
            (Node
             (Node
              (Node Leaf (72968, 72969) Leaf)
              (72971, 73008)
              (Leaf))
             (73030, 73030)
             (Node
              (Node Leaf (73040, 73049) Leaf)
              (73056, 73061)
              (Leaf)))
            (73063, 73064)
            (Node
             (Node
              (Node Leaf (73066, 73097) Leaf)
              (73112, 73112)
              (Leaf))
             (73120, 73129)
             (Node Leaf (73440, 73458) Leaf)))))
         (73648, 73648)
         (Node
          (Node
           (Node
            (Node
             (Node
              (Node Leaf (73664, 73684) Leaf)
              (73728, 74649)
              (Leaf))
             (74752, 74862)
             (Node
              (Node Leaf (74880, 75075) Leaf)
              (77712, 77808)
              (Leaf)))
            (77824, 78894)
            (Node
             (Node
              (Node Leaf (82944, 83526) Leaf)
              (92160, 92728)
              (Leaf))
             (92736, 92766)
             (Node
              (Node Leaf (92768, 92777) Leaf)
              (92784, 92862)
              (Leaf))))
           (92864, 92873)
           (Node
            (Node
             (Node
              (Node Leaf (92880, 92909) Leaf)
              (92928, 92975)
              (Leaf))
             (92992, 92995)
             (Node
              (Node Leaf (93008, 93017) Leaf)
              (93019, 93025)
              (Leaf)))
            (93027, 93047)
            (Node
             (Node
              (Node Leaf (93053, 93071) Leaf)
              (93760, 93846)
              (Leaf))
             (93952, 94026)
             (Node Leaf (94032, 94032) Leaf))))
          (94099, 94111)
          (Node
           (Node
            (Node
             (Node
              (Node Leaf (94176, 94177) Leaf)
              (94179, 94179)
              (Leaf))
             (94208, 100343)
             (Node
              (Node Leaf (100352, 101589) Leaf)
              (101632, 101640)
              (Leaf)))
            (110576, 110579)
            (Node
             (Node
              (Node Leaf (110581, 110587) Leaf)
              (110589, 110590)
              (Leaf))
             (110592, 110882)
             (Node
              (Node Leaf (110928, 110930) Leaf)
              (110948, 110951)
              (Leaf))))
           (110960, 111355)
           (Node
            (Node
             (Node
              (Node Leaf (113664, 113770) Leaf)
              (113776, 113788)
              (Leaf))
             (113792, 113800)
             (Node
              (Node Leaf (113808, 113817) Leaf)
              (119520, 119539)
              (Leaf)))
            (119648, 119672)
            (Node
             (Node
              (Node Leaf (119808, 119892) Leaf)
              (119894, 119964)
              (Leaf))
             (119966, 119967)
             (Node Leaf (119970, 119970) Leaf))))))
        (119973, 119974)
        (Node
         (Node
          (Node
           (Node
            (Node
             (Node
              (Node Leaf (119977, 119980) Leaf)
              (119982, 119993)
              (Leaf))
             (119995, 119995)
             (Node
              (Node Leaf (119997, 120003) Leaf)
              (120005, 120069)
              (Leaf)))
            (120071, 120074)
            (Node
             (Node
              (Node Leaf (120077, 120084) Leaf)
              (120086, 120092)
              (Leaf))
             (120094, 120121)
             (Node
              (Node Leaf (120123, 120126) Leaf)
              (120128, 120132)
              (Leaf))))
           (120134, 120134)
           (Node
            (Node
             (Node
              (Node Leaf (120138, 120144) Leaf)
              (120146, 120485)
              (Leaf))
             (120488, 120512)
             (Node
              (Node Leaf (120514, 120538) Leaf)
              (120540, 120570)
              (Leaf)))
            (120572, 120596)
            (Node
             (Node
              (Node Leaf (120598, 120628) Leaf)
              (120630, 120654)
              (Leaf))
             (120656, 120686)
             (Node Leaf (120688, 120712) Leaf))))
          (120714, 120744)
          (Node
           (Node
            (Node
             (Node
              (Node Leaf (120746, 120770) Leaf)
              (120772, 120779)
              (Leaf))
             (120782, 120831)
             (Node
              (Node Leaf (122624, 122654) Leaf)
              (123136, 123180)
              (Leaf)))
            (123191, 123197)
            (Node
             (Node
              (Node Leaf (123200, 123209) Leaf)
              (123214, 123214)
              (Leaf))
             (123536, 123565)
             (Node
              (Node Leaf (123584, 123627) Leaf)
              (123632, 123641)
              (Leaf))))
           (124896, 124902)
           (Node
            (Node
             (Node
              (Node Leaf (124904, 124907) Leaf)
              (124909, 124910)
              (Leaf))
             (124912, 124926)
             (Node
              (Node Leaf (124928, 125124) Leaf)
              (125127, 125135)
              (Leaf)))
            (125184, 125251)
            (Node
             (Node
              (Node Leaf (125259, 125259) Leaf)
              (125264, 125273)
              (Leaf))
             (126065, 126123)
             (Node Leaf (126125, 126127) Leaf)))))
         (126129, 126132)
         (Node
          (Node
           (Node
            (Node
             (Node
              (Node Leaf (126209, 126253) Leaf)
              (126255, 126269)
              (Leaf))
             (126464, 126467)
             (Node
              (Node Leaf (126469, 126495) Leaf)
              (126497, 126498)
              (Leaf)))
            (126500, 126500)
            (Node
             (Node
              (Node Leaf (126503, 126503) Leaf)
              (126505, 126514)
              (Leaf))
             (126516, 126519)
             (Node
              (Node Leaf (126521, 126521) Leaf)
              (126523, 126523)
              (Leaf))))
           (126530, 126530)
           (Node
            (Node
             (Node
              (Node Leaf (126535, 126535) Leaf)
              (126537, 126537)
              (Leaf))
             (126539, 126539)
             (Node
              (Node Leaf (126541, 126543) Leaf)
              (126545, 126546)
              (Leaf)))
            (126548, 126548)
            (Node
             (Node
              (Node Leaf (126551, 126551) Leaf)
              (126553, 126553)
              (Leaf))
             (126555, 126555)
             (Node Leaf (126557, 126557) Leaf))))
          (126559, 126559)
          (Node
           (Node
            (Node
             (Node
              (Node Leaf (126561, 126562) Leaf)
              (126564, 126564)
              (Leaf))
             (126567, 126570)
             (Node
              (Node Leaf (126572, 126578) Leaf)
              (126580, 126583)
              (Leaf)))
            (126585, 126588)
            (Node
             (Node
              (Node Leaf (126590, 126590) Leaf)
              (126592, 126601)
              (Leaf))
             (126603, 126619)
             (Node Leaf (126625, 126627) Leaf)))
           (126629, 126633)
           (Node
            (Node
             (Node
              (Node Leaf (126635, 126651) Leaf)
              (127232, 127244)
              (Leaf))
             (130032, 130041)
             (Node
              (Node Leaf (131072, 173791) Leaf)
              (173824, 177976)
              (Leaf)))
            (177984, 178205)
            (Node
             (Node
              (Node Leaf (178208, 183969) Leaf)
              (183984, 191456)
              (Leaf))
             (194560, 195101)
             (Node Leaf (196608, 201546) Leaf))))))))"

fun in_ranges :: "int \<Rightarrow> (int \<times> int) tree \<Rightarrow> bool" where
  "in_ranges c Leaf = False"
| "in_ranges c (Node l (lo, hi) r) =
     (if c < lo then in_ranges c l else if c \<le> hi then True else in_ranges c r)"

definition is_word :: "int \<Rightarrow> bool" where
  "is_word c = in_ranges c WORD_RANGES"

text \<open>
  The code points that a literal \<open>p\<close> of a pattern accepts under \<open>re.IGNORECASE\<close>:
  the code point itself; for a letter, its other case; and the code points that the
  engine folds onto it: U+0130 and U+0131 for \<open>i\<close>, U+017F for \<open>s\<close>, U+212A for
  \<open>k\<close>, U+212B for U+00E5, U+039C and U+03BC for U+00B5, U+1E9E for U+00DF, U+0178
  for U+00FF.
\<close>

definition accepts :: "char \<Rightarrow> int list" where
  "accepts p =
     (let n = (of_char p :: int);
          lo = (if (65 \<le> n \<and> n \<le> 90) \<or> (192 \<le> n \<and> n \<le> 222 \<and> n \<noteq> 215) then n + 32 else n)
      in if (97 \<le> lo \<and> lo \<le> 122) \<or> (224 \<le> lo \<and> lo \<le> 254 \<and> lo \<noteq> 247) then
           [lo - 32, lo] @
             (if lo = 105 then [304, 305] else if lo = 115 then [383]
              else if lo = 107 then [8490] else if lo = 229 then [8491] else [])
         else if n = 181 then [181, 924, 956]
         else if n = 223 then [223, 7838]
         else if n = 255 then [255, 376]
         else [n])"

text \<open>\<open>str.upper\<close>: the code points whose upper case is not themselves, each with
  its upper case (one code point or several), in a search tree.\<close>

definition UPPER_TABLE :: "(int \<times> int list) tree" where
  "UPPER_TABLE =
     Node
      (Node
       (Node
        (Node
         (Node
          (Node
           (Node
            (Node
             (Node
              (Node
               (Node Leaf (97, [65]) Leaf)
               (98, [66])
               (Leaf))
              (99, [67])
              (Node
               (Node Leaf (100, [68]) Leaf)
               (101, [69])
               (Leaf)))
             (102, [70])
             (Node
              (Node
               (Node Leaf (103, [71]) Leaf)
               (104, [72])
               (Leaf))
              (105, [73])
              (Node
               (Node Leaf (106, [74]) Leaf)
               (107, [75])
               (Leaf))))
            (108, [76])
            (Node
             (Node
              (Node
               (Node Leaf (109, [77]) Leaf)
               (110, [78])
               (Leaf))
              (111, [79])
              (Node
               (Node Leaf (112, [80]) Leaf)
               (113, [81])
               (Leaf)))
             (114, [82])
             (Node
              (Node
               (Node Leaf (115, [83]) Leaf)
               (116, [84])
               (Leaf))
              (117, [85])
              (Node
               (Node Leaf (118, [86]) Leaf)
               (119, [87])
               (Leaf)))))
           (120, [88])
           (Node
            (Node
             (Node
              (Node
               (Node Leaf (121, [89]) Leaf)
               (122, [90])
               (Leaf))
              (181, [924])
              (Node
               (Node Leaf (223, [83, 83]) Leaf)
               (224, [192])
               (Leaf)))
             (225, [193])
             (Node
              (Node
               (Node Leaf (226, [194]) Leaf)
               (227, [195])
               (Leaf))
              (228, [196])
              (Node
               (Node Leaf (229, [197]) Leaf)
               (230, [198])
               (Leaf))))
            (231, [199])
            (Node
             (Node
              (Node
               (Node Leaf (232, [200]) Leaf)
               (233, [201])
               (Leaf))
              (234, [202])
              (Node
               (Node Leaf (235, [203]) Leaf)
               (236, [204])
               (Leaf)))
             (237, [205])
             (Node
              (Node
               (Node Leaf (238, [206]) Leaf)
               (239, [207])
               (Leaf))
              (240, [208])
              (Node
               (Node Leaf (241, [209]) Leaf)
               (242, [210])
               (Leaf))))))
          (243, [211])
          (Node
           (Node
            (Node
             (Node
              (Node
               (Node Leaf (244, [212]) Leaf)
               (245, [213])
               (Leaf))
              (246, [214])
              (Node
               (Node Leaf (248, [216]) Leaf)
               (249, [217])
               (Leaf)))
             (250, [218])
             (Node
              (Node
               (Node Leaf (251, [219]) Leaf)
               (252, [220])
               (Leaf))
              (253, [221])
              (Node
               (Node Leaf (254, [222]) Leaf)
               (255, [376])
               (Leaf))))
            (257, [256])
            (Node
             (Node
              (Node
               (Node Leaf (259, [258]) Leaf)
               (261, [260])
               (Leaf))
              (263, [262])
              (Node
               (Node Leaf (265, [264]) Leaf)
               (267, [266])
               (Leaf)))
             (269, [268])
             (Node
              (Node
               (Node Leaf (271, [270]) Leaf)
               (273, [272])
               (Leaf))
              (275, [274])
              (Node
               (Node Leaf (277, [276]) Leaf)
               (279, [278])
               (Leaf)))))
           (281, [280])
           (Node
            (Node
             (Node
              (Node
               (Node Leaf (283, [282]) Leaf)
               (285, [284])
               (Leaf))
              (287, [286])
              (Node
               (Node Leaf (289, [288]) Leaf)
               (291, [290])
               (Leaf)))
             (293, [292])
             (Node
              (Node
               (Node Leaf (295, [294]) Leaf)
               (297, [296])
               (Leaf))
              (299, [298])
              (Node
               (Node Leaf (301, [300]) Leaf)
               (303, [302])
               (Leaf))))
            (305, [73])
            (Node
             (Node
              (Node
               (Node Leaf (307, [306]) Leaf)
               (309, [308])
               (Leaf))
              (311, [310])
              (Node
               (Node Leaf (314, [313]) Leaf)
               (316, [315])
               (Leaf)))
             (318, [317])
             (Node
              (Node
               (Node Leaf (320, [319]) Leaf)
               (322, [321])
               (Leaf))
              (324, [323])
              (Node
               (Node Leaf (326, [325]) Leaf)
               (328, [327])
               (Leaf)))))))
         (329, [700, 78])
         (Node
          (Node
           (Node
            (Node
             (Node
              (Node
               (Node Leaf (331, [330]) Leaf)
               (333, [332])
               (Leaf))
              (335, [334])
              (Node
               (Node Leaf (337, [336]) Leaf)
               (339, [338])
               (Leaf)))
             (341, [340])
             (Node
              (Node
               (Node Leaf (343, [342]) Leaf)
               (345, [344])
               (Leaf))
              (347, [346])
              (Node
               (Node Leaf (349, [348]) Leaf)
               (351, [350])
               (Leaf))))
            (353, [352])
            (Node
             (Node
              (Node
               (Node Leaf (355, [354]) Leaf)
               (357, [356])
               (Leaf))
              (359, [358])
              (Node
               (Node Leaf (361, [360]) Leaf)
               (363, [362])
               (Leaf)))
             (365, [364])
             (Node
              (Node
               (Node Leaf (367, [366]) Leaf)
               (369, [368])
               (Leaf))
              (371, [370])
              (Node
               (Node Leaf (373, [372]) Leaf)
               (375, [374])
               (Leaf)))))
           (378, [377])
           (Node
            (Node
             (Node
              (Node
               (Node Leaf (380, [379]) Leaf)
               (382, [381])
               (Leaf))
              (383, [83])
              (Node
               (Node Leaf (384, [579]) Leaf)
               (387, [386])
               (Leaf)))
             (389, [388])
             (Node
              (Node
               (Node Leaf (392, [391]) Leaf)
               (396, [395])
               (Leaf))
              (402, [401])
              (Node
               (Node Leaf (405, [502]) Leaf)
               (409, [408])
               (Leaf))))
            (410, [573])
            (Node
             (Node
              (Node
               (Node Leaf (414, [544]) Leaf)
               (417, [416])
               (Leaf))
              (419, [418])
              (Node
               (Node Leaf (421, [420]) Leaf)
               (424, [423])
               (Leaf)))
             (429, [428])
             (Node
              (Node
               (Node Leaf (432, [431]) Leaf)
               (436, [435])
               (Leaf))
              (438, [437])
              (Node
               (Node Leaf (441, [440]) Leaf)
               (445, [444])
               (Leaf))))))
          (447, [503])
          (Node
           (Node
            (Node
             (Node
              (Node
               (Node Leaf (453, [452]) Leaf)
               (454, [452])
               (Leaf))
              (456, [455])
              (Node
               (Node Leaf (457, [455]) Leaf)
               (459, [458])
               (Leaf)))
             (460, [458])
             (Node
              (Node
               (Node Leaf (462, [461]) Leaf)
               (464, [463])
               (Leaf))
              (466, [465])
              (Node
               (Node Leaf (468, [467]) Leaf)
               (470, [469])
               (Leaf))))
            (472, [471])
            (Node
             (Node
              (Node
               (Node Leaf (474, [473]) Leaf)
               (476, [475])
               (Leaf))
              (477, [398])
              (Node
               (Node Leaf (479, [478]) Leaf)
               (481, [480])
               (Leaf)))
             (483, [482])
             (Node
              (Node
               (Node Leaf (485, [484]) Leaf)
               (487, [486])
               (Leaf))
              (489, [488])
              (Node
               (Node Leaf (491, [490]) Leaf)
               (493, [492])
               (Leaf)))))
           (495, [494])
           (Node
            (Node
             (Node
              (Node
               (Node Leaf (496, [74, 780]) Leaf)
               (498, [497])
               (Leaf))
              (499, [497])
              (Node
               (Node Leaf (501, [500]) Leaf)
               (505, [504])
               (Leaf)))
             (507, [506])
             (Node
              (Node
               (Node Leaf (509, [508]) Leaf)
               (511, [510])
               (Leaf))
              (513, [512])
              (Node
               (Node Leaf (515, [514]) Leaf)
               (517, [516])
               (Leaf))))
            (519, [518])
            (Node
             (Node
              (Node
               (Node Leaf (521, [520]) Leaf)
               (523, [522])
               (Leaf))
              (525, [524])
              (Node
               (Node Leaf (527, [526]) Leaf)
               (529, [528])
               (Leaf)))
             (531, [530])
             (Node
              (Node
               (Node Leaf (533, [532]) Leaf)
               (535, [534])
               (Leaf))
              (537, [536])
              (Node Leaf (539, [538]) Leaf)))))))
        (541, [540])
        (Node
         (Node
          (Node
           (Node
            (Node
             (Node
              (Node
               (Node Leaf (543, [542]) Leaf)
               (547, [546])
               (Leaf))
              (549, [548])
              (Node
               (Node Leaf (551, [550]) Leaf)
               (553, [552])
               (Leaf)))
             (555, [554])
             (Node
              (Node
               (Node Leaf (557, [556]) Leaf)
               (559, [558])
               (Leaf))
              (561, [560])
              (Node
               (Node Leaf (563, [562]) Leaf)
               (572, [571])
               (Leaf))))
            (575, [11390])
            (Node
             (Node
              (Node
               (Node Leaf (576, [11391]) Leaf)
               (578, [577])
               (Leaf))
              (583, [582])
              (Node
               (Node Leaf (585, [584]) Leaf)
               (587, [586])
               (Leaf)))
             (589, [588])
             (Node
              (Node
               (Node Leaf (591, [590]) Leaf)
               (592, [11375])
               (Leaf))
              (593, [11373])
              (Node
               (Node Leaf (594, [11376]) Leaf)
               (595, [385])
               (Leaf)))))
           (596, [390])
           (Node
            (Node
             (Node
              (Node
               (Node Leaf (598, [393]) Leaf)
               (599, [394])
               (Leaf))
              (601, [399])
              (Node
               (Node Leaf (603, [400]) Leaf)
               (604, [42923])
               (Leaf)))
             (608, [403])
             (Node
              (Node
               (Node Leaf (609, [42924]) Leaf)
               (611, [404])
               (Leaf))
              (613, [42893])
              (Node
               (Node Leaf (614, [42922]) Leaf)
               (616, [407])
               (Leaf))))
            (617, [406])
            (Node
             (Node
              (Node
               (Node Leaf (618, [42926]) Leaf)
               (619, [11362])
               (Leaf))
              (620, [42925])
              (Node
               (Node Leaf (623, [412]) Leaf)
               (625, [11374])
               (Leaf)))
             (626, [413])
             (Node
              (Node
               (Node Leaf (629, [415]) Leaf)
               (637, [11364])
               (Leaf))
              (640, [422])
              (Node
               (Node Leaf (642, [42949]) Leaf)
               (643, [425])
               (Leaf))))))
          (647, [42929])
          (Node
           (Node
            (Node
             (Node
              (Node
               (Node Leaf (648, [430]) Leaf)
               (649, [580])
               (Leaf))
              (650, [433])
              (Node
               (Node Leaf (651, [434]) Leaf)
               (652, [581])
               (Leaf)))
             (658, [439])
             (Node
              (Node
               (Node Leaf (669, [42930]) Leaf)
               (670, [42928])
               (Leaf))
              (837, [921])
              (Node
               (Node Leaf (881, [880]) Leaf)
               (883, [882])
               (Leaf))))
            (887, [886])
            (Node
             (Node
              (Node
               (Node Leaf (891, [1021]) Leaf)
               (892, [1022])
               (Leaf))
              (893, [1023])
              (Node
               (Node Leaf (912, [921, 776, 769]) Leaf)
               (940, [902])
               (Leaf)))
             (941, [904])
             (Node
              (Node
               (Node Leaf (942, [905]) Leaf)
               (943, [906])
               (Leaf))
              (944, [933, 776, 769])
              (Node
               (Node Leaf (945, [913]) Leaf)
               (946, [914])
               (Leaf)))))
           (947, [915])
           (Node
            (Node
             (Node
              (Node
               (Node Leaf (948, [916]) Leaf)
               (949, [917])
               (Leaf))
              (950, [918])
              (Node
               (Node Leaf (951, [919]) Leaf)
               (952, [920])
               (Leaf)))
             (953, [921])
             (Node
              (Node
               (Node Leaf (954, [922]) Leaf)
               (955, [923])
               (Leaf))
              (956, [924])
              (Node
               (Node Leaf (957, [925]) Leaf)
               (958, [926])
               (Leaf))))
            (959, [927])
            (Node
             (Node
              (Node
               (Node Leaf (960, [928]) Leaf)
               (961, [929])
               (Leaf))
              (962, [931])
              (Node
               (Node Leaf (963, [931]) Leaf)
               (964, [932])
               (Leaf)))
             (965, [933])
             (Node
              (Node
               (Node Leaf (966, [934]) Leaf)
               (967, [935])
               (Leaf))
              (968, [936])
              (Node
               (Node Leaf (969, [937]) Leaf)
               (970, [938])
               (Leaf)))))))
         (971, [939])
         (Node
          (Node
           (Node
            (Node
             (Node
              (Node
               (Node Leaf (972, [908]) Leaf)
               (973, [910])
               (Leaf))
              (974, [911])
              (Node
               (Node Leaf (976, [914]) Leaf)
               (977, [920])
               (Leaf)))
             (981, [934])
             (Node
              (Node
               (Node Leaf (982, [928]) Leaf)
               (983, [975])
               (Leaf))
              (985, [984])
              (Node
               (Node Leaf (987, [986]) Leaf)
               (989, [988])
               (Leaf))))
            (991, [990])
            (Node
             (Node
              (Node
               (Node Leaf (993, [992]) Leaf)
               (995, [994])
               (Leaf))
              (997, [996])
              (Node
               (Node Leaf (999, [998]) Leaf)
               (1001, [1000])
               (Leaf)))
             (1003, [1002])
             (Node
              (Node
               (Node Leaf (1005, [1004]) Leaf)
               (1007, [1006])
               (Leaf))
              (1008, [922])
              (Node
               (Node Leaf (1009, [929]) Leaf)
               (1010, [1017])
               (Leaf)))))
           (1011, [895])
           (Node
            (Node
             (Node
              (Node
               (Node Leaf (1013, [917]) Leaf)
               (1016, [1015])
               (Leaf))
              (1019, [1018])
              (Node
               (Node Leaf (1072, [1040]) Leaf)
               (1073, [1041])
               (Leaf)))
             (1074, [1042])
             (Node
              (Node
               (Node Leaf (1075, [1043]) Leaf)
               (1076, [1044])
               (Leaf))
              (1077, [1045])
              (Node
               (Node Leaf (1078, [1046]) Leaf)
               (1079, [1047])
               (Leaf))))
            (1080, [1048])
            (Node
             (Node
              (Node
               (Node Leaf (1081, [1049]) Leaf)
               (1082, [1050])
               (Leaf))
              (1083, [1051])
              (Node
               (Node Leaf (1084, [1052]) Leaf)
               (1085, [1053])
               (Leaf)))
             (1086, [1054])
             (Node
              (Node
               (Node Leaf (1087, [1055]) Leaf)
               (1088, [1056])
               (Leaf))
              (1089, [1057])
              (Node
               (Node Leaf (1090, [1058]) Leaf)
               (1091, [1059])
               (Leaf))))))
          (1092, [1060])
          (Node
           (Node
            (Node
             (Node
              (Node
               (Node Leaf (1093, [1061]) Leaf)
               (1094, [1062])
               (Leaf))
              (1095, [1063])
              (Node
               (Node Leaf (1096, [1064]) Leaf)
               (1097, [1065])
               (Leaf)))
             (1098, [1066])
             (Node
              (Node
               (Node Leaf (1099, [1067]) Leaf)
               (1100, [1068])
               (Leaf))
              (1101, [1069])
              (Node
               (Node Leaf (1102, [1070]) Leaf)
               (1103, [1071])
               (Leaf))))
            (1104, [1024])
            (Node
             (Node
              (Node
               (Node Leaf (1105, [1025]) Leaf)
               (1106, [1026])
               (Leaf))
              (1107, [1027])
              (Node
               (Node Leaf (1108, [1028]) Leaf)
               (1109, [1029])
               (Leaf)))
             (1110, [1030])
             (Node
              (Node
               (Node Leaf (1111, [1031]) Leaf)
               (1112, [1032])
               (Leaf))
              (1113, [1033])
              (Node
               (Node Leaf (1114, [1034]) Leaf)
               (1115, [1035])
               (Leaf)))))
           (1116, [1036])
           (Node
            (Node
             (Node
              (Node
               (Node Leaf (1117, [1037]) Leaf)
               (1118, [1038])
               (Leaf))
              (1119, [1039])
              (Node
               (Node Leaf (1121, [1120]) Leaf)
               (1123, [1122])
               (Leaf)))
             (1125, [1124])
             (Node
              (Node
               (Node Leaf (1127, [1126]) Leaf)
               (1129, [1128])
               (Leaf))
              (1131, [1130])
              (Node
               (Node Leaf (1133, [1132]) Leaf)
               (1135, [1134])
               (Leaf))))
            (1137, [1136])
            (Node
             (Node
              (Node
               (Node Leaf (1139, [1138]) Leaf)
               (1141, [1140])
               (Leaf))
              (1143, [1142])
              (Node
               (Node Leaf (1145, [1144]) Leaf)
               (1147, [1146])
               (Leaf)))
             (1149, [1148])
             (Node
              (Node
               (Node Leaf (1151, [1150]) Leaf)
               (1153, [1152])
               (Leaf))
              (1163, [1162])
              (Node Leaf (1165, [1164]) Leaf))))))))
       (1167, [1166])
       (Node
        (Node
         (Node
          (Node
           (Node
            (Node
             (Node
              (Node
               (Node Leaf (1169, [1168]) Leaf)
               (1171, [1170])
               (Leaf))
              (1173, [1172])
              (Node
               (Node Leaf (1175, [1174]) Leaf)
               (1177, [1176])
               (Leaf)))
             (1179, [1178])
             (Node
              (Node
               (Node Leaf (1181, [1180]) Leaf)
               (1183, [1182])
               (Leaf))
              (1185, [1184])
              (Node
               (Node Leaf (1187, [1186]) Leaf)
               (1189, [1188])
               (Leaf))))
            (1191, [1190])
            (Node
             (Node
              (Node
               (Node Leaf (1193, [1192]) Leaf)
               (1195, [1194])
               (Leaf))
              (1197, [1196])
              (Node
               (Node Leaf (1199, [1198]) Leaf)
               (1201, [1200])
               (Leaf)))
             (1203, [1202])
             (Node
              (Node
               (Node Leaf (1205, [1204]) Leaf)
               (1207, [1206])
               (Leaf))
              (1209, [1208])
              (Node
               (Node Leaf (1211, [1210]) Leaf)
               (1213, [1212])
               (Leaf)))))
           (1215, [1214])
           (Node
            (Node
             (Node
              (Node
               (Node Leaf (1218, [1217]) Leaf)
               (1220, [1219])
               (Leaf))
              (1222, [1221])
              (Node
               (Node Leaf (1224, [1223]) Leaf)
               (1226, [1225])
               (Leaf)))
             (1228, [1227])
             (Node
              (Node
               (Node Leaf (1230, [1229]) Leaf)
               (1231, [1216])
               (Leaf))
              (1233, [1232])
              (Node
               (Node Leaf (1235, [1234]) Leaf)
               (1237, [1236])
               (Leaf))))
            (1239, [1238])
            (Node
             (Node
              (Node
               (Node Leaf (1241, [1240]) Leaf)
               (1243, [1242])
               (Leaf))
              (1245, [1244])
              (Node
               (Node Leaf (1247, [1246]) Leaf)
               (1249, [1248])
               (Leaf)))
             (1251, [1250])
             (Node
              (Node
               (Node Leaf (1253, [1252]) Leaf)
               (1255, [1254])
               (Leaf))
              (1257, [1256])
              (Node
               (Node Leaf (1259, [1258]) Leaf)
               (1261, [1260])
               (Leaf))))))
          (1263, [1262])
          (Node
           (Node
            (Node
             (Node
              (Node
               (Node Leaf (1265, [1264]) Leaf)
               (1267, [1266])
               (Leaf))
              (1269, [1268])
              (Node
               (Node Leaf (1271, [1270]) Leaf)
               (1273, [1272])
               (Leaf)))
             (1275, [1274])
             (Node
              (Node
               (Node Leaf (1277, [1276]) Leaf)
               (1279, [1278])
               (Leaf))
              (1281, [1280])
              (Node
               (Node Leaf (1283, [1282]) Leaf)
               (1285, [1284])
               (Leaf))))
            (1287, [1286])
            (Node
             (Node
              (Node
               (Node Leaf (1289, [1288]) Leaf)
               (1291, [1290])
               (Leaf))
              (1293, [1292])
              (Node
               (Node Leaf (1295, [1294]) Leaf)
               (1297, [1296])
               (Leaf)))
             (1299, [1298])
             (Node
              (Node
               (Node Leaf (1301, [1300]) Leaf)
               (1303, [1302])
               (Leaf))
              (1305, [1304])
              (Node
               (Node Leaf (1307, [1306]) Leaf)
               (1309, [1308])
               (Leaf)))))
           (1311, [1310])
           (Node
            (Node
             (Node
              (Node
               (Node Leaf (1313, [1312]) Leaf)
               (1315, [1314])
               (Leaf))
              (1317, [1316])
              (Node
               (Node Leaf (1319, [1318]) Leaf)
               (1321, [1320])
               (Leaf)))
             (1323, [1322])
             (Node
              (Node
               (Node Leaf (1325, [1324]) Leaf)
               (1327, [1326])
               (Leaf))
              (1377, [1329])
              (Node
               (Node Leaf (1378, [1330]) Leaf)
               (1379, [1331])
               (Leaf))))
            (1380, [1332])
            (Node
             (Node
              (Node
               (Node Leaf (1381, [1333]) Leaf)
               (1382, [1334])
               (Leaf))
              (1383, [1335])
              (Node
               (Node Leaf (1384, [1336]) Leaf)
               (1385, [1337])
               (Leaf)))
             (1386, [1338])
             (Node
              (Node
               (Node Leaf (1387, [1339]) Leaf)
               (1388, [1340])
               (Leaf))
              (1389, [1341])
              (Node
               (Node Leaf (1390, [1342]) Leaf)
               (1391, [1343])
               (Leaf)))))))
         (1392, [1344])
         (Node
          (Node
           (Node
            (Node
             (Node
              (Node
               (Node Leaf (1393, [1345]) Leaf)
               (1394, [1346])
               (Leaf))
              (1395, [1347])
              (Node
               (Node Leaf (1396, [1348]) Leaf)
               (1397, [1349])
               (Leaf)))
             (1398, [1350])
             (Node
              (Node
               (Node Leaf (1399, [1351]) Leaf)
               (1400, [1352])
               (Leaf))
              (1401, [1353])
              (Node
               (Node Leaf (1402, [1354]) Leaf)
               (1403, [1355])
               (Leaf))))
            (1404, [1356])
            (Node
             (Node
              (Node
               (Node Leaf (1405, [1357]) Leaf)
               (1406, [1358])
               (Leaf))
              (1407, [1359])
              (Node
               (Node Leaf (1408, [1360]) Leaf)
               (1409, [1361])
               (Leaf)))
             (1410, [1362])
             (Node
              (Node
               (Node Leaf (1411, [1363]) Leaf)
               (1412, [1364])
               (Leaf))
              (1413, [1365])
              (Node
               (Node Leaf (1414, [1366]) Leaf)
               (1415, [1333, 1362])
               (Leaf)))))
           (4304, [7312])
           (Node
            (Node
             (Node
              (Node
               (Node Leaf (4305, [7313]) Leaf)
               (4306, [7314])
               (Leaf))
              (4307, [7315])
              (Node
               (Node Leaf (4308, [7316]) Leaf)
               (4309, [7317])
               (Leaf)))
             (4310, [7318])
             (Node
              (Node
               (Node Leaf (4311, [7319]) Leaf)
               (4312, [7320])
               (Leaf))
              (4313, [7321])
              (Node
               (Node Leaf (4314, [7322]) Leaf)
               (4315, [7323])
               (Leaf))))
            (4316, [7324])
            (Node
             (Node
              (Node
               (Node Leaf (4317, [7325]) Leaf)
               (4318, [7326])
               (Leaf))
              (4319, [7327])
              (Node
               (Node Leaf (4320, [7328]) Leaf)
               (4321, [7329])
               (Leaf)))
             (4322, [7330])
             (Node
              (Node
               (Node Leaf (4323, [7331]) Leaf)
               (4324, [7332])
               (Leaf))
              (4325, [7333])
              (Node
               (Node Leaf (4326, [7334]) Leaf)
               (4327, [7335])
               (Leaf))))))
          (4328, [7336])
          (Node
           (Node
            (Node
             (Node
              (Node
               (Node Leaf (4329, [7337]) Leaf)
               (4330, [7338])
               (Leaf))
              (4331, [7339])
              (Node
               (Node Leaf (4332, [7340]) Leaf)
               (4333, [7341])
               (Leaf)))
             (4334, [7342])
             (Node
              (Node
               (Node Leaf (4335, [7343]) Leaf)
               (4336, [7344])
               (Leaf))
              (4337, [7345])
              (Node
               (Node Leaf (4338, [7346]) Leaf)
               (4339, [7347])
               (Leaf))))
            (4340, [7348])
            (Node
             (Node
              (Node
               (Node Leaf (4341, [7349]) Leaf)
               (4342, [7350])
               (Leaf))
              (4343, [7351])
              (Node
               (Node Leaf (4344, [7352]) Leaf)
               (4345, [7353])
               (Leaf)))
             (4346, [7354])
             (Node
              (Node
               (Node Leaf (4349, [7357]) Leaf)
               (4350, [7358])
               (Leaf))
              (4351, [7359])
              (Node
               (Node Leaf (5112, [5104]) Leaf)
               (5113, [5105])
               (Leaf)))))
           (5114, [5106])
           (Node
            (Node
             (Node
              (Node
               (Node Leaf (5115, [5107]) Leaf)
               (5116, [5108])
               (Leaf))
              (5117, [5109])
              (Node
               (Node Leaf (7296, [1042]) Leaf)
               (7297, [1044])
               (Leaf)))
             (7298, [1054])
             (Node
              (Node
               (Node Leaf (7299, [1057]) Leaf)
               (7300, [1058])
               (Leaf))
              (7301, [1058])
              (Node
               (Node Leaf (7302, [1066]) Leaf)
               (7303, [1122])
               (Leaf))))
            (7304, [42570])
            (Node
             (Node
              (Node
               (Node Leaf (7545, [42877]) Leaf)
               (7549, [11363])
               (Leaf))
              (7566, [42950])
              (Node
               (Node Leaf (7681, [7680]) Leaf)
               (7683, [7682])
               (Leaf)))
             (7685, [7684])
             (Node
              (Node
               (Node Leaf (7687, [7686]) Leaf)
               (7689, [7688])
               (Leaf))
              (7691, [7690])
              (Node Leaf (7693, [7692]) Leaf)))))))
        (7695, [7694])
        (Node
         (Node
          (Node
           (Node
            (Node
             (Node
              (Node
               (Node Leaf (7697, [7696]) Leaf)
               (7699, [7698])
               (Leaf))
              (7701, [7700])
              (Node
               (Node Leaf (7703, [7702]) Leaf)
               (7705, [7704])
               (Leaf)))
             (7707, [7706])
             (Node
              (Node
               (Node Leaf (7709, [7708]) Leaf)
               (7711, [7710])
               (Leaf))
              (7713, [7712])
              (Node
               (Node Leaf (7715, [7714]) Leaf)
               (7717, [7716])
               (Leaf))))
            (7719, [7718])
            (Node
             (Node
              (Node
               (Node Leaf (7721, [7720]) Leaf)
               (7723, [7722])
               (Leaf))
              (7725, [7724])
              (Node
               (Node Leaf (7727, [7726]) Leaf)
               (7729, [7728])
               (Leaf)))
             (7731, [7730])
             (Node
              (Node
               (Node Leaf (7733, [7732]) Leaf)
               (7735, [7734])
               (Leaf))
              (7737, [7736])
              (Node
               (Node Leaf (7739, [7738]) Leaf)
               (7741, [7740])
               (Leaf)))))
           (7743, [7742])
           (Node
            (Node
             (Node
              (Node
               (Node Leaf (7745, [7744]) Leaf)
               (7747, [7746])
               (Leaf))
              (7749, [7748])
              (Node
               (Node Leaf (7751, [7750]) Leaf)
               (7753, [7752])
               (Leaf)))
             (7755, [7754])
             (Node
              (Node
               (Node Leaf (7757, [7756]) Leaf)
               (7759, [7758])
               (Leaf))
              (7761, [7760])
              (Node
               (Node Leaf (7763, [7762]) Leaf)
               (7765, [7764])
               (Leaf))))
            (7767, [7766])
            (Node
             (Node
              (Node
               (Node Leaf (7769, [7768]) Leaf)
               (7771, [7770])
               (Leaf))
              (7773, [7772])
              (Node
               (Node Leaf (7775, [7774]) Leaf)
               (7777, [7776])
               (Leaf)))
             (7779, [7778])
             (Node
              (Node
               (Node Leaf (7781, [7780]) Leaf)
               (7783, [7782])
               (Leaf))
              (7785, [7784])
              (Node
               (Node Leaf (7787, [7786]) Leaf)
               (7789, [7788])
               (Leaf))))))
          (7791, [7790])
          (Node
           (Node
            (Node
             (Node
              (Node
               (Node Leaf (7793, [7792]) Leaf)
               (7795, [7794])
               (Leaf))
              (7797, [7796])
              (Node
               (Node Leaf (7799, [7798]) Leaf)
               (7801, [7800])
               (Leaf)))
             (7803, [7802])
             (Node
              (Node
               (Node Leaf (7805, [7804]) Leaf)
               (7807, [7806])
               (Leaf))
              (7809, [7808])
              (Node
               (Node Leaf (7811, [7810]) Leaf)
               (7813, [7812])
               (Leaf))))
            (7815, [7814])
            (Node
             (Node
              (Node
               (Node Leaf (7817, [7816]) Leaf)
               (7819, [7818])
               (Leaf))
              (7821, [7820])
              (Node
               (Node Leaf (7823, [7822]) Leaf)
               (7825, [7824])
               (Leaf)))
             (7827, [7826])
             (Node
              (Node
               (Node Leaf (7829, [7828]) Leaf)
               (7830, [72, 817])
               (Leaf))
              (7831, [84, 776])
              (Node
               (Node Leaf (7832, [87, 778]) Leaf)
               (7833, [89, 778])
               (Leaf)))))
           (7834, [65, 702])
           (Node
            (Node
             (Node
              (Node
               (Node Leaf (7835, [7776]) Leaf)
               (7841, [7840])
               (Leaf))
              (7843, [7842])
              (Node
               (Node Leaf (7845, [7844]) Leaf)
               (7847, [7846])
               (Leaf)))
             (7849, [7848])
             (Node
              (Node
               (Node Leaf (7851, [7850]) Leaf)
               (7853, [7852])
               (Leaf))
              (7855, [7854])
              (Node
               (Node Leaf (7857, [7856]) Leaf)
               (7859, [7858])
               (Leaf))))
            (7861, [7860])
            (Node
             (Node
              (Node
               (Node Leaf (7863, [7862]) Leaf)
               (7865, [7864])
               (Leaf))
              (7867, [7866])
              (Node
               (Node Leaf (7869, [7868]) Leaf)
               (7871, [7870])
               (Leaf)))
             (7873, [7872])
             (Node
              (Node
               (Node Leaf (7875, [7874]) Leaf)
               (7877, [7876])
               (Leaf))
              (7879, [7878])
              (Node Leaf (7881, [7880]) Leaf))))))
         (7883, [7882])
         (Node
          (Node
           (Node
            (Node
             (Node
              (Node
               (Node Leaf (7885, [7884]) Leaf)
               (7887, [7886])
               (Leaf))
              (7889, [7888])
              (Node
               (Node Leaf (7891, [7890]) Leaf)
               (7893, [7892])
               (Leaf)))
             (7895, [7894])
             (Node
              (Node
               (Node Leaf (7897, [7896]) Leaf)
               (7899, [7898])
               (Leaf))
              (7901, [7900])
              (Node
               (Node Leaf (7903, [7902]) Leaf)
               (7905, [7904])
               (Leaf))))
            (7907, [7906])
            (Node
             (Node
              (Node
               (Node Leaf (7909, [7908]) Leaf)
               (7911, [7910])
               (Leaf))
              (7913, [7912])
              (Node
               (Node Leaf (7915, [7914]) Leaf)
               (7917, [7916])
               (Leaf)))
             (7919, [7918])
             (Node
              (Node
               (Node Leaf (7921, [7920]) Leaf)
               (7923, [7922])
               (Leaf))
              (7925, [7924])
              (Node
               (Node Leaf (7927, [7926]) Leaf)
               (7929, [7928])
               (Leaf)))))
           (7931, [7930])
           (Node
            (Node
             (Node
              (Node
               (Node Leaf (7933, [7932]) Leaf)
               (7935, [7934])
               (Leaf))
              (7936, [7944])
              (Node
               (Node Leaf (7937, [7945]) Leaf)
               (7938, [7946])
               (Leaf)))
             (7939, [7947])
             (Node
              (Node
               (Node Leaf (7940, [7948]) Leaf)
               (7941, [7949])
               (Leaf))
              (7942, [7950])
              (Node
               (Node Leaf (7943, [7951]) Leaf)
               (7952, [7960])
               (Leaf))))
            (7953, [7961])
            (Node
             (Node
              (Node
               (Node Leaf (7954, [7962]) Leaf)
               (7955, [7963])
               (Leaf))
              (7956, [7964])
              (Node
               (Node Leaf (7957, [7965]) Leaf)
               (7968, [7976])
               (Leaf)))
             (7969, [7977])
             (Node
              (Node
               (Node Leaf (7970, [7978]) Leaf)
               (7971, [7979])
               (Leaf))
              (7972, [7980])
              (Node
               (Node Leaf (7973, [7981]) Leaf)
               (7974, [7982])
               (Leaf))))))
          (7975, [7983])
          (Node
           (Node
            (Node
             (Node
              (Node
               (Node Leaf (7984, [7992]) Leaf)
               (7985, [7993])
               (Leaf))
              (7986, [7994])
              (Node
               (Node Leaf (7987, [7995]) Leaf)
               (7988, [7996])
               (Leaf)))
             (7989, [7997])
             (Node
              (Node
               (Node Leaf (7990, [7998]) Leaf)
               (7991, [7999])
               (Leaf))
              (8000, [8008])
              (Node
               (Node Leaf (8001, [8009]) Leaf)
               (8002, [8010])
               (Leaf))))
            (8003, [8011])
            (Node
             (Node
              (Node
               (Node Leaf (8004, [8012]) Leaf)
               (8005, [8013])
               (Leaf))
              (8016, [933, 787])
              (Node
               (Node Leaf (8017, [8025]) Leaf)
               (8018, [933, 787, 768])
               (Leaf)))
             (8019, [8027])
             (Node
              (Node
               (Node Leaf (8020, [933, 787, 769]) Leaf)
               (8021, [8029])
               (Leaf))
              (8022, [933, 787, 834])
              (Node
               (Node Leaf (8023, [8031]) Leaf)
               (8032, [8040])
               (Leaf)))))
           (8033, [8041])
           (Node
            (Node
             (Node
              (Node
               (Node Leaf (8034, [8042]) Leaf)
               (8035, [8043])
               (Leaf))
              (8036, [8044])
              (Node
               (Node Leaf (8037, [8045]) Leaf)
               (8038, [8046])
               (Leaf)))
             (8039, [8047])
             (Node
              (Node
               (Node Leaf (8048, [8122]) Leaf)
               (8049, [8123])
               (Leaf))
              (8050, [8136])
              (Node
               (Node Leaf (8051, [8137]) Leaf)
               (8052, [8138])
               (Leaf))))
            (8053, [8139])
            (Node
             (Node
              (Node
               (Node Leaf (8054, [8154]) Leaf)
               (8055, [8155])
               (Leaf))
              (8056, [8184])
              (Node
               (Node Leaf (8057, [8185]) Leaf)
               (8058, [8170])
               (Leaf)))
             (8059, [8171])
             (Node
              (Node
               (Node Leaf (8060, [8186]) Leaf)
               (8061, [8187])
               (Leaf))
              (8064, [7944, 921])
              (Node Leaf (8065, [7945, 921]) Leaf)))))))))
      (8066, [7946, 921])
      (Node
       (Node
        (Node
         (Node
          (Node
           (Node
            (Node
             (Node
              (Node
               (Node Leaf (8067, [7947, 921]) Leaf)
               (8068, [7948, 921])
               (Leaf))
              (8069, [7949, 921])
              (Node
               (Node Leaf (8070, [7950, 921]) Leaf)
               (8071, [7951, 921])
               (Leaf)))
             (8072, [7944, 921])
             (Node
              (Node
               (Node Leaf (8073, [7945, 921]) Leaf)
               (8074, [7946, 921])
               (Leaf))
              (8075, [7947, 921])
              (Node
               (Node Leaf (8076, [7948, 921]) Leaf)
               (8077, [7949, 921])
               (Leaf))))
            (8078, [7950, 921])
            (Node
             (Node
              (Node
               (Node Leaf (8079, [7951, 921]) Leaf)
               (8080, [7976, 921])
               (Leaf))
              (8081, [7977, 921])
              (Node
               (Node Leaf (8082, [7978, 921]) Leaf)
               (8083, [7979, 921])
               (Leaf)))
             (8084, [7980, 921])
             (Node
              (Node
               (Node Leaf (8085, [7981, 921]) Leaf)
               (8086, [7982, 921])
               (Leaf))
              (8087, [7983, 921])
              (Node
               (Node Leaf (8088, [7976, 921]) Leaf)
               (8089, [7977, 921])
               (Leaf)))))
           (8090, [7978, 921])
           (Node
            (Node
             (Node
              (Node
               (Node Leaf (8091, [7979, 921]) Leaf)
               (8092, [7980, 921])
               (Leaf))
              (8093, [7981, 921])
              (Node
               (Node Leaf (8094, [7982, 921]) Leaf)
               (8095, [7983, 921])
               (Leaf)))
             (8096, [8040, 921])
             (Node
              (Node
               (Node Leaf (8097, [8041, 921]) Leaf)
               (8098, [8042, 921])
               (Leaf))
              (8099, [8043, 921])
              (Node
               (Node Leaf (8100, [8044, 921]) Leaf)
               (8101, [8045, 921])
               (Leaf))))
            (8102, [8046, 921])
            (Node
             (Node
              (Node
               (Node Leaf (8103, [8047, 921]) Leaf)
               (8104, [8040, 921])
               (Leaf))
              (8105, [8041, 921])
              (Node
               (Node Leaf (8106, [8042, 921]) Leaf)
               (8107, [8043, 921])
               (Leaf)))
             (8108, [8044, 921])
             (Node
              (Node
               (Node Leaf (8109, [8045, 921]) Leaf)
               (8110, [8046, 921])
               (Leaf))
              (8111, [8047, 921])
              (Node
               (Node Leaf (8112, [8120]) Leaf)
               (8113, [8121])
               (Leaf))))))
          (8114, [8122, 921])
          (Node
           (Node
            (Node
             (Node
              (Node
               (Node Leaf (8115, [913, 921]) Leaf)
               (8116, [902, 921])
               (Leaf))
              (8118, [913, 834])
              (Node
               (Node Leaf (8119, [913, 834, 921]) Leaf)
               (8124, [913, 921])
               (Leaf)))
             (8126, [921])
             (Node
              (Node
               (Node Leaf (8130, [8138, 921]) Leaf)
               (8131, [919, 921])
               (Leaf))
              (8132, [905, 921])
              (Node
               (Node Leaf (8134, [919, 834]) Leaf)
               (8135, [919, 834, 921])
               (Leaf))))
            (8140, [919, 921])
            (Node
             (Node
              (Node
               (Node Leaf (8144, [8152]) Leaf)
               (8145, [8153])
               (Leaf))
              (8146, [921, 776, 768])
              (Node
               (Node Leaf (8147, [921, 776, 769]) Leaf)
               (8150, [921, 834])
               (Leaf)))
             (8151, [921, 776, 834])
             (Node
              (Node
               (Node Leaf (8160, [8168]) Leaf)
               (8161, [8169])
               (Leaf))
              (8162, [933, 776, 768])
              (Node
               (Node Leaf (8163, [933, 776, 769]) Leaf)
               (8164, [929, 787])
               (Leaf)))))
           (8165, [8172])
           (Node
            (Node
             (Node
              (Node
               (Node Leaf (8166, [933, 834]) Leaf)
               (8167, [933, 776, 834])
               (Leaf))
              (8178, [8186, 921])
              (Node
               (Node Leaf (8179, [937, 921]) Leaf)
               (8180, [911, 921])
               (Leaf)))
             (8182, [937, 834])
             (Node
              (Node
               (Node Leaf (8183, [937, 834, 921]) Leaf)
               (8188, [937, 921])
               (Leaf))
              (8526, [8498])
              (Node
               (Node Leaf (8560, [8544]) Leaf)
               (8561, [8545])
               (Leaf))))
            (8562, [8546])
            (Node
             (Node
              (Node
               (Node Leaf (8563, [8547]) Leaf)
               (8564, [8548])
               (Leaf))
              (8565, [8549])
              (Node
               (Node Leaf (8566, [8550]) Leaf)
               (8567, [8551])
               (Leaf)))
             (8568, [8552])
             (Node
              (Node
               (Node Leaf (8569, [8553]) Leaf)
               (8570, [8554])
               (Leaf))
              (8571, [8555])
              (Node
               (Node Leaf (8572, [8556]) Leaf)
               (8573, [8557])
               (Leaf)))))))
         (8574, [8558])
         (Node
          (Node
           (Node
            (Node
             (Node
              (Node
               (Node Leaf (8575, [8559]) Leaf)
               (8580, [8579])
               (Leaf))
              (9424, [9398])
              (Node
               (Node Leaf (9425, [9399]) Leaf)
               (9426, [9400])
               (Leaf)))
             (9427, [9401])
             (Node
              (Node
               (Node Leaf (9428, [9402]) Leaf)
               (9429, [9403])
               (Leaf))
              (9430, [9404])
              (Node
               (Node Leaf (9431, [9405]) Leaf)
               (9432, [9406])
               (Leaf))))
            (9433, [9407])
            (Node
             (Node
              (Node
               (Node Leaf (9434, [9408]) Leaf)
               (9435, [9409])
               (Leaf))
              (9436, [9410])
              (Node
               (Node Leaf (9437, [9411]) Leaf)
               (9438, [9412])
               (Leaf)))
             (9439, [9413])
             (Node
              (Node
               (Node Leaf (9440, [9414]) Leaf)
               (9441, [9415])
               (Leaf))
              (9442, [9416])
              (Node
               (Node Leaf (9443, [9417]) Leaf)
               (9444, [9418])
               (Leaf)))))
           (9445, [9419])
           (Node
            (Node
             (Node
              (Node
               (Node Leaf (9446, [9420]) Leaf)
               (9447, [9421])
               (Leaf))
              (9448, [9422])
              (Node
               (Node Leaf (9449, [9423]) Leaf)
               (11312, [11264])
               (Leaf)))
             (11313, [11265])
             (Node
              (Node
               (Node Leaf (11314, [11266]) Leaf)
               (11315, [11267])
               (Leaf))
              (11316, [11268])
              (Node
               (Node Leaf (11317, [11269]) Leaf)
               (11318, [11270])
               (Leaf))))
            (11319, [11271])
            (Node
             (Node
              (Node
               (Node Leaf (11320, [11272]) Leaf)
               (11321, [11273])
               (Leaf))
              (11322, [11274])
              (Node
               (Node Leaf (11323, [11275]) Leaf)
               (11324, [11276])
               (Leaf)))
             (11325, [11277])
             (Node
              (Node
               (Node Leaf (11326, [11278]) Leaf)
               (11327, [11279])
               (Leaf))
              (11328, [11280])
              (Node
               (Node Leaf (11329, [11281]) Leaf)
               (11330, [11282])
               (Leaf))))))
          (11331, [11283])
          (Node
           (Node
            (Node
             (Node
              (Node
               (Node Leaf (11332, [11284]) Leaf)
               (11333, [11285])
               (Leaf))
              (11334, [11286])
              (Node
               (Node Leaf (11335, [11287]) Leaf)
               (11336, [11288])
               (Leaf)))
             (11337, [11289])
             (Node
              (Node
               (Node Leaf (11338, [11290]) Leaf)
               (11339, [11291])
               (Leaf))
              (11340, [11292])
              (Node
               (Node Leaf (11341, [11293]) Leaf)
               (11342, [11294])
               (Leaf))))
            (11343, [11295])
            (Node
             (Node
              (Node
               (Node Leaf (11344, [11296]) Leaf)
               (11345, [11297])
               (Leaf))
              (11346, [11298])
              (Node
               (Node Leaf (11347, [11299]) Leaf)
               (11348, [11300])
               (Leaf)))
             (11349, [11301])
             (Node
              (Node
               (Node Leaf (11350, [11302]) Leaf)
               (11351, [11303])
               (Leaf))
              (11352, [11304])
              (Node
               (Node Leaf (11353, [11305]) Leaf)
               (11354, [11306])
               (Leaf)))))
           (11355, [11307])
           (Node
            (Node
             (Node
              (Node
               (Node Leaf (11356, [11308]) Leaf)
               (11357, [11309])
               (Leaf))
              (11358, [11310])
              (Node
               (Node Leaf (11359, [11311]) Leaf)
               (11361, [11360])
               (Leaf)))
             (11365, [570])
             (Node
              (Node
               (Node Leaf (11366, [574]) Leaf)
               (11368, [11367])
               (Leaf))
              (11370, [11369])
              (Node
               (Node Leaf (11372, [11371]) Leaf)
               (11379, [11378])
               (Leaf))))
            (11382, [11381])
            (Node
             (Node
              (Node
               (Node Leaf (11393, [11392]) Leaf)
               (11395, [11394])
               (Leaf))
              (11397, [11396])
              (Node
               (Node Leaf (11399, [11398]) Leaf)
               (11401, [11400])
               (Leaf)))
             (11403, [11402])
             (Node
              (Node
               (Node Leaf (11405, [11404]) Leaf)
               (11407, [11406])
               (Leaf))
              (11409, [11408])
              (Node Leaf (11411, [11410]) Leaf)))))))
        (11413, [11412])
        (Node
         (Node
          (Node
           (Node
            (Node
             (Node
              (Node
               (Node Leaf (11415, [11414]) Leaf)
               (11417, [11416])
               (Leaf))
              (11419, [11418])
              (Node
               (Node Leaf (11421, [11420]) Leaf)
               (11423, [11422])
               (Leaf)))
             (11425, [11424])
             (Node
              (Node
               (Node Leaf (11427, [11426]) Leaf)
               (11429, [11428])
               (Leaf))
              (11431, [11430])
              (Node
               (Node Leaf (11433, [11432]) Leaf)
               (11435, [11434])
               (Leaf))))
            (11437, [11436])
            (Node
             (Node
              (Node
               (Node Leaf (11439, [11438]) Leaf)
               (11441, [11440])
               (Leaf))
              (11443, [11442])
              (Node
               (Node Leaf (11445, [11444]) Leaf)
               (11447, [11446])
               (Leaf)))
             (11449, [11448])
             (Node
              (Node
               (Node Leaf (11451, [11450]) Leaf)
               (11453, [11452])
               (Leaf))
              (11455, [11454])
              (Node
               (Node Leaf (11457, [11456]) Leaf)
               (11459, [11458])
               (Leaf)))))
           (11461, [11460])
           (Node
            (Node
             (Node
              (Node
               (Node Leaf (11463, [11462]) Leaf)
               (11465, [11464])
               (Leaf))
              (11467, [11466])
              (Node
               (Node Leaf (11469, [11468]) Leaf)
               (11471, [11470])
               (Leaf)))
             (11473, [11472])
             (Node
              (Node
               (Node Leaf (11475, [11474]) Leaf)
               (11477, [11476])
               (Leaf))
              (11479, [11478])
              (Node
               (Node Leaf (11481, [11480]) Leaf)
               (11483, [11482])
               (Leaf))))
            (11485, [11484])
            (Node
             (Node
              (Node
               (Node Leaf (11487, [11486]) Leaf)
               (11489, [11488])
               (Leaf))
              (11491, [11490])
              (Node
               (Node Leaf (11500, [11499]) Leaf)
               (11502, [11501])
               (Leaf)))
             (11507, [11506])
             (Node
              (Node
               (Node Leaf (11520, [4256]) Leaf)
               (11521, [4257])
               (Leaf))
              (11522, [4258])
              (Node
               (Node Leaf (11523, [4259]) Leaf)
               (11524, [4260])
               (Leaf))))))
          (11525, [4261])
          (Node
           (Node
            (Node
             (Node
              (Node
               (Node Leaf (11526, [4262]) Leaf)
               (11527, [4263])
               (Leaf))
              (11528, [4264])
              (Node
               (Node Leaf (11529, [4265]) Leaf)
               (11530, [4266])
               (Leaf)))
             (11531, [4267])
             (Node
              (Node
               (Node Leaf (11532, [4268]) Leaf)
               (11533, [4269])
               (Leaf))
              (11534, [4270])
              (Node
               (Node Leaf (11535, [4271]) Leaf)
               (11536, [4272])
               (Leaf))))
            (11537, [4273])
            (Node
             (Node
              (Node
               (Node Leaf (11538, [4274]) Leaf)
               (11539, [4275])
               (Leaf))
              (11540, [4276])
              (Node
               (Node Leaf (11541, [4277]) Leaf)
               (11542, [4278])
               (Leaf)))
             (11543, [4279])
             (Node
              (Node
               (Node Leaf (11544, [4280]) Leaf)
               (11545, [4281])
               (Leaf))
              (11546, [4282])
              (Node
               (Node Leaf (11547, [4283]) Leaf)
               (11548, [4284])
               (Leaf)))))
           (11549, [4285])
           (Node
            (Node
             (Node
              (Node
               (Node Leaf (11550, [4286]) Leaf)
               (11551, [4287])
               (Leaf))
              (11552, [4288])
              (Node
               (Node Leaf (11553, [4289]) Leaf)
               (11554, [4290])
               (Leaf)))
             (11555, [4291])
             (Node
              (Node
               (Node Leaf (11556, [4292]) Leaf)
               (11557, [4293])
               (Leaf))
              (11559, [4295])
              (Node
               (Node Leaf (11565, [4301]) Leaf)
               (42561, [42560])
               (Leaf))))
            (42563, [42562])
            (Node
             (Node
              (Node
               (Node Leaf (42565, [42564]) Leaf)
               (42567, [42566])
               (Leaf))
              (42569, [42568])
              (Node
               (Node Leaf (42571, [42570]) Leaf)
               (42573, [42572])
               (Leaf)))
             (42575, [42574])
             (Node
              (Node
               (Node Leaf (42577, [42576]) Leaf)
               (42579, [42578])
               (Leaf))
              (42581, [42580])
              (Node
               (Node Leaf (42583, [42582]) Leaf)
               (42585, [42584])
               (Leaf)))))))
         (42587, [42586])
         (Node
          (Node
           (Node
            (Node
             (Node
              (Node
               (Node Leaf (42589, [42588]) Leaf)
               (42591, [42590])
               (Leaf))
              (42593, [42592])
              (Node
               (Node Leaf (42595, [42594]) Leaf)
               (42597, [42596])
               (Leaf)))
             (42599, [42598])
             (Node
              (Node
               (Node Leaf (42601, [42600]) Leaf)
               (42603, [42602])
               (Leaf))
              (42605, [42604])
              (Node
               (Node Leaf (42625, [42624]) Leaf)
               (42627, [42626])
               (Leaf))))
            (42629, [42628])
            (Node
             (Node
              (Node
               (Node Leaf (42631, [42630]) Leaf)
               (42633, [42632])
               (Leaf))
              (42635, [42634])
              (Node
               (Node Leaf (42637, [42636]) Leaf)
               (42639, [42638])
               (Leaf)))
             (42641, [42640])
             (Node
              (Node
               (Node Leaf (42643, [42642]) Leaf)
               (42645, [42644])
               (Leaf))
              (42647, [42646])
              (Node
               (Node Leaf (42649, [42648]) Leaf)
               (42651, [42650])
               (Leaf)))))
           (42787, [42786])
           (Node
            (Node
             (Node
              (Node
               (Node Leaf (42789, [42788]) Leaf)
               (42791, [42790])
               (Leaf))
              (42793, [42792])
              (Node
               (Node Leaf (42795, [42794]) Leaf)
               (42797, [42796])
               (Leaf)))
             (42799, [42798])
             (Node
              (Node
               (Node Leaf (42803, [42802]) Leaf)
               (42805, [42804])
               (Leaf))
              (42807, [42806])
              (Node
               (Node Leaf (42809, [42808]) Leaf)
               (42811, [42810])
               (Leaf))))
            (42813, [42812])
            (Node
             (Node
              (Node
               (Node Leaf (42815, [42814]) Leaf)
               (42817, [42816])
               (Leaf))
              (42819, [42818])
              (Node
               (Node Leaf (42821, [42820]) Leaf)
               (42823, [42822])
               (Leaf)))
             (42825, [42824])
             (Node
              (Node
               (Node Leaf (42827, [42826]) Leaf)
               (42829, [42828])
               (Leaf))
              (42831, [42830])
              (Node
               (Node Leaf (42833, [42832]) Leaf)
               (42835, [42834])
               (Leaf))))))
          (42837, [42836])
          (Node
           (Node
            (Node
             (Node
              (Node
               (Node Leaf (42839, [42838]) Leaf)
               (42841, [42840])
               (Leaf))
              (42843, [42842])
              (Node
               (Node Leaf (42845, [42844]) Leaf)
               (42847, [42846])
               (Leaf)))
             (42849, [42848])
             (Node
              (Node
               (Node Leaf (42851, [42850]) Leaf)
               (42853, [42852])
               (Leaf))
              (42855, [42854])
              (Node
               (Node Leaf (42857, [42856]) Leaf)
               (42859, [42858])
               (Leaf))))
            (42861, [42860])
            (Node
             (Node
              (Node
               (Node Leaf (42863, [42862]) Leaf)
               (42874, [42873])
               (Leaf))
              (42876, [42875])
              (Node
               (Node Leaf (42879, [42878]) Leaf)
               (42881, [42880])
               (Leaf)))
             (42883, [42882])
             (Node
              (Node
               (Node Leaf (42885, [42884]) Leaf)
               (42887, [42886])
               (Leaf))
              (42892, [42891])
              (Node
               (Node Leaf (42897, [42896]) Leaf)
               (42899, [42898])
               (Leaf)))))
           (42900, [42948])
           (Node
            (Node
             (Node
              (Node
               (Node Leaf (42903, [42902]) Leaf)
               (42905, [42904])
               (Leaf))
              (42907, [42906])
              (Node
               (Node Leaf (42909, [42908]) Leaf)
               (42911, [42910])
               (Leaf)))
             (42913, [42912])
             (Node
              (Node
               (Node Leaf (42915, [42914]) Leaf)
               (42917, [42916])
               (Leaf))
              (42919, [42918])
              (Node
               (Node Leaf (42921, [42920]) Leaf)
               (42933, [42932])
               (Leaf))))
            (42935, [42934])
            (Node
             (Node
              (Node
               (Node Leaf (42937, [42936]) Leaf)
               (42939, [42938])
               (Leaf))
              (42941, [42940])
              (Node
               (Node Leaf (42943, [42942]) Leaf)
               (42945, [42944])
               (Leaf)))
             (42947, [42946])
             (Node
              (Node
               (Node Leaf (42952, [42951]) Leaf)
               (42954, [42953])
               (Leaf))
              (42961, [42960])
              (Node Leaf (42967, [42966]) Leaf))))))))
       (42969, [42968])
       (Node
        (Node
         (Node
          (Node
           (Node
            (Node
             (Node
              (Node
               (Node Leaf (42998, [42997]) Leaf)
               (43859, [42931])
               (Leaf))
              (43888, [5024])
              (Node
               (Node Leaf (43889, [5025]) Leaf)
               (43890, [5026])
               (Leaf)))
             (43891, [5027])
             (Node
              (Node
               (Node Leaf (43892, [5028]) Leaf)
               (43893, [5029])
               (Leaf))
              (43894, [5030])
              (Node
               (Node Leaf (43895, [5031]) Leaf)
               (43896, [5032])
               (Leaf))))
            (43897, [5033])
            (Node
             (Node
              (Node
               (Node Leaf (43898, [5034]) Leaf)
               (43899, [5035])
               (Leaf))
              (43900, [5036])
              (Node
               (Node Leaf (43901, [5037]) Leaf)
               (43902, [5038])
               (Leaf)))
             (43903, [5039])
             (Node
              (Node
               (Node Leaf (43904, [5040]) Leaf)
               (43905, [5041])
               (Leaf))
              (43906, [5042])
              (Node
               (Node Leaf (43907, [5043]) Leaf)
               (43908, [5044])
               (Leaf)))))
           (43909, [5045])
           (Node
            (Node
             (Node
              (Node
               (Node Leaf (43910, [5046]) Leaf)
               (43911, [5047])
               (Leaf))
              (43912, [5048])
              (Node
               (Node Leaf (43913, [5049]) Leaf)
               (43914, [5050])
               (Leaf)))
             (43915, [5051])
             (Node
              (Node
               (Node Leaf (43916, [5052]) Leaf)
               (43917, [5053])
               (Leaf))
              (43918, [5054])
              (Node
               (Node Leaf (43919, [5055]) Leaf)
               (43920, [5056])
               (Leaf))))
            (43921, [5057])
            (Node
             (Node
              (Node
               (Node Leaf (43922, [5058]) Leaf)
               (43923, [5059])
               (Leaf))
              (43924, [5060])
              (Node
               (Node Leaf (43925, [5061]) Leaf)
               (43926, [5062])
               (Leaf)))
             (43927, [5063])
             (Node
              (Node
               (Node Leaf (43928, [5064]) Leaf)
               (43929, [5065])
               (Leaf))
              (43930, [5066])
              (Node
               (Node Leaf (43931, [5067]) Leaf)
               (43932, [5068])
               (Leaf))))))
          (43933, [5069])
          (Node
           (Node
            (Node
             (Node
              (Node
               (Node Leaf (43934, [5070]) Leaf)
               (43935, [5071])
               (Leaf))
              (43936, [5072])
              (Node
               (Node Leaf (43937, [5073]) Leaf)
               (43938, [5074])
               (Leaf)))
             (43939, [5075])
             (Node
              (Node
               (Node Leaf (43940, [5076]) Leaf)
               (43941, [5077])
               (Leaf))
              (43942, [5078])
              (Node
               (Node Leaf (43943, [5079]) Leaf)
               (43944, [5080])
               (Leaf))))
            (43945, [5081])
            (Node
             (Node
              (Node
               (Node Leaf (43946, [5082]) Leaf)
               (43947, [5083])
               (Leaf))
              (43948, [5084])
              (Node
               (Node Leaf (43949, [5085]) Leaf)
               (43950, [5086])
               (Leaf)))
             (43951, [5087])
             (Node
              (Node
               (Node Leaf (43952, [5088]) Leaf)
               (43953, [5089])
               (Leaf))
              (43954, [5090])
              (Node
               (Node Leaf (43955, [5091]) Leaf)
               (43956, [5092])
               (Leaf)))))
           (43957, [5093])
           (Node
            (Node
             (Node
              (Node
               (Node Leaf (43958, [5094]) Leaf)
               (43959, [5095])
               (Leaf))
              (43960, [5096])
              (Node
               (Node Leaf (43961, [5097]) Leaf)
               (43962, [5098])
               (Leaf)))
             (43963, [5099])
             (Node
              (Node
               (Node Leaf (43964, [5100]) Leaf)
               (43965, [5101])
               (Leaf))
              (43966, [5102])
              (Node
               (Node Leaf (43967, [5103]) Leaf)
               (64256, [70, 70])
               (Leaf))))
            (64257, [70, 73])
            (Node
             (Node
              (Node
               (Node Leaf (64258, [70, 76]) Leaf)
               (64259, [70, 70, 73])
               (Leaf))
              (64260, [70, 70, 76])
              (Node
               (Node Leaf (64261, [83, 84]) Leaf)
               (64262, [83, 84])
               (Leaf)))
             (64275, [1348, 1350])
             (Node
              (Node
               (Node Leaf (64276, [1348, 1333]) Leaf)
               (64277, [1348, 1339])
               (Leaf))
              (64278, [1358, 1350])
              (Node
               (Node Leaf (64279, [1348, 1341]) Leaf)
               (65345, [65313])
               (Leaf)))))))
         (65346, [65314])
         (Node
          (Node
           (Node
            (Node
             (Node
              (Node
               (Node Leaf (65347, [65315]) Leaf)
               (65348, [65316])
               (Leaf))
              (65349, [65317])
              (Node
               (Node Leaf (65350, [65318]) Leaf)
               (65351, [65319])
               (Leaf)))
             (65352, [65320])
             (Node
              (Node
               (Node Leaf (65353, [65321]) Leaf)
               (65354, [65322])
               (Leaf))
              (65355, [65323])
              (Node
               (Node Leaf (65356, [65324]) Leaf)
               (65357, [65325])
               (Leaf))))
            (65358, [65326])
            (Node
             (Node
              (Node
               (Node Leaf (65359, [65327]) Leaf)
               (65360, [65328])
               (Leaf))
              (65361, [65329])
              (Node
               (Node Leaf (65362, [65330]) Leaf)
               (65363, [65331])
               (Leaf)))
             (65364, [65332])
             (Node
              (Node
               (Node Leaf (65365, [65333]) Leaf)
               (65366, [65334])
               (Leaf))
              (65367, [65335])
              (Node
               (Node Leaf (65368, [65336]) Leaf)
               (65369, [65337])
               (Leaf)))))
           (65370, [65338])
           (Node
            (Node
             (Node
              (Node
               (Node Leaf (66600, [66560]) Leaf)
               (66601, [66561])
               (Leaf))
              (66602, [66562])
              (Node
               (Node Leaf (66603, [66563]) Leaf)
               (66604, [66564])
               (Leaf)))
             (66605, [66565])
             (Node
              (Node
               (Node Leaf (66606, [66566]) Leaf)
               (66607, [66567])
               (Leaf))
              (66608, [66568])
              (Node
               (Node Leaf (66609, [66569]) Leaf)
               (66610, [66570])
               (Leaf))))
            (66611, [66571])
            (Node
             (Node
              (Node
               (Node Leaf (66612, [66572]) Leaf)
               (66613, [66573])
               (Leaf))
              (66614, [66574])
              (Node
               (Node Leaf (66615, [66575]) Leaf)
               (66616, [66576])
               (Leaf)))
             (66617, [66577])
             (Node
              (Node
               (Node Leaf (66618, [66578]) Leaf)
               (66619, [66579])
               (Leaf))
              (66620, [66580])
              (Node
               (Node Leaf (66621, [66581]) Leaf)
               (66622, [66582])
               (Leaf))))))
          (66623, [66583])
          (Node
           (Node
            (Node
             (Node
              (Node
               (Node Leaf (66624, [66584]) Leaf)
               (66625, [66585])
               (Leaf))
              (66626, [66586])
              (Node
               (Node Leaf (66627, [66587]) Leaf)
               (66628, [66588])
               (Leaf)))
             (66629, [66589])
             (Node
              (Node
               (Node Leaf (66630, [66590]) Leaf)
               (66631, [66591])
               (Leaf))
              (66632, [66592])
              (Node
               (Node Leaf (66633, [66593]) Leaf)
               (66634, [66594])
               (Leaf))))
            (66635, [66595])
            (Node
             (Node
              (Node
               (Node Leaf (66636, [66596]) Leaf)
               (66637, [66597])
               (Leaf))
              (66638, [66598])
              (Node
               (Node Leaf (66639, [66599]) Leaf)
               (66776, [66736])
               (Leaf)))
             (66777, [66737])
             (Node
              (Node
               (Node Leaf (66778, [66738]) Leaf)
               (66779, [66739])
               (Leaf))
              (66780, [66740])
              (Node
               (Node Leaf (66781, [66741]) Leaf)
               (66782, [66742])
               (Leaf)))))
           (66783, [66743])
           (Node
            (Node
             (Node
              (Node
               (Node Leaf (66784, [66744]) Leaf)
               (66785, [66745])
               (Leaf))
              (66786, [66746])
              (Node
               (Node Leaf (66787, [66747]) Leaf)
               (66788, [66748])
               (Leaf)))
             (66789, [66749])
             (Node
              (Node
               (Node Leaf (66790, [66750]) Leaf)
               (66791, [66751])
               (Leaf))
              (66792, [66752])
              (Node
               (Node Leaf (66793, [66753]) Leaf)
               (66794, [66754])
               (Leaf))))
            (66795, [66755])
            (Node
             (Node
              (Node
               (Node Leaf (66796, [66756]) Leaf)
               (66797, [66757])
               (Leaf))
              (66798, [66758])
              (Node
               (Node Leaf (66799, [66759]) Leaf)
               (66800, [66760])
               (Leaf)))
             (66801, [66761])
             (Node
              (Node
               (Node Leaf (66802, [66762]) Leaf)
               (66803, [66763])
               (Leaf))
              (66804, [66764])
              (Node Leaf (66805, [66765]) Leaf)))))))
        (66806, [66766])
        (Node
         (Node
          (Node
           (Node
            (Node
             (Node
              (Node
               (Node Leaf (66807, [66767]) Leaf)
               (66808, [66768])
               (Leaf))
              (66809, [66769])
              (Node
               (Node Leaf (66810, [66770]) Leaf)
               (66811, [66771])
               (Leaf)))
             (66967, [66928])
             (Node
              (Node
               (Node Leaf (66968, [66929]) Leaf)
               (66969, [66930])
               (Leaf))
              (66970, [66931])
              (Node
               (Node Leaf (66971, [66932]) Leaf)
               (66972, [66933])
               (Leaf))))
            (66973, [66934])
            (Node
             (Node
              (Node
               (Node Leaf (66974, [66935]) Leaf)
               (66975, [66936])
               (Leaf))
              (66976, [66937])
              (Node
               (Node Leaf (66977, [66938]) Leaf)
               (66979, [66940])
               (Leaf)))
             (66980, [66941])
             (Node
              (Node
               (Node Leaf (66981, [66942]) Leaf)
               (66982, [66943])
               (Leaf))
              (66983, [66944])
              (Node
               (Node Leaf (66984, [66945]) Leaf)
               (66985, [66946])
               (Leaf)))))
           (66986, [66947])
           (Node
            (Node
             (Node
              (Node
               (Node Leaf (66987, [66948]) Leaf)
               (66988, [66949])
               (Leaf))
              (66989, [66950])
              (Node
               (Node Leaf (66990, [66951]) Leaf)
               (66991, [66952])
               (Leaf)))
             (66992, [66953])
             (Node
              (Node
               (Node Leaf (66993, [66954]) Leaf)
               (66995, [66956])
               (Leaf))
              (66996, [66957])
              (Node
               (Node Leaf (66997, [66958]) Leaf)
               (66998, [66959])
               (Leaf))))
            (66999, [66960])
            (Node
             (Node
              (Node
               (Node Leaf (67000, [66961]) Leaf)
               (67001, [66962])
               (Leaf))
              (67003, [66964])
              (Node
               (Node Leaf (67004, [66965]) Leaf)
               (68800, [68736])
               (Leaf)))
             (68801, [68737])
             (Node
              (Node
               (Node Leaf (68802, [68738]) Leaf)
               (68803, [68739])
               (Leaf))
              (68804, [68740])
              (Node
               (Node Leaf (68805, [68741]) Leaf)
               (68806, [68742])
               (Leaf))))))
          (68807, [68743])
          (Node
           (Node
            (Node
             (Node
              (Node
               (Node Leaf (68808, [68744]) Leaf)
               (68809, [68745])
               (Leaf))
              (68810, [68746])
              (Node
               (Node Leaf (68811, [68747]) Leaf)
               (68812, [68748])
               (Leaf)))
             (68813, [68749])
             (Node
              (Node
               (Node Leaf (68814, [68750]) Leaf)
               (68815, [68751])
               (Leaf))
              (68816, [68752])
              (Node
               (Node Leaf (68817, [68753]) Leaf)
               (68818, [68754])
               (Leaf))))
            (68819, [68755])
            (Node
             (Node
              (Node
               (Node Leaf (68820, [68756]) Leaf)
               (68821, [68757])
               (Leaf))
              (68822, [68758])
              (Node
               (Node Leaf (68823, [68759]) Leaf)
               (68824, [68760])
               (Leaf)))
             (68825, [68761])
             (Node
              (Node
               (Node Leaf (68826, [68762]) Leaf)
               (68827, [68763])
               (Leaf))
              (68828, [68764])
              (Node
               (Node Leaf (68829, [68765]) Leaf)
               (68830, [68766])
               (Leaf)))))
           (68831, [68767])
           (Node
            (Node
             (Node
              (Node
               (Node Leaf (68832, [68768]) Leaf)
               (68833, [68769])
               (Leaf))
              (68834, [68770])
              (Node
               (Node Leaf (68835, [68771]) Leaf)
               (68836, [68772])
               (Leaf)))
             (68837, [68773])
             (Node
              (Node
               (Node Leaf (68838, [68774]) Leaf)
               (68839, [68775])
               (Leaf))
              (68840, [68776])
              (Node
               (Node Leaf (68841, [68777]) Leaf)
               (68842, [68778])
               (Leaf))))
            (68843, [68779])
            (Node
             (Node
              (Node
               (Node Leaf (68844, [68780]) Leaf)
               (68845, [68781])
               (Leaf))
              (68846, [68782])
              (Node
               (Node Leaf (68847, [68783]) Leaf)
               (68848, [68784])
               (Leaf)))
             (68849, [68785])
             (Node
              (Node
               (Node Leaf (68850, [68786]) Leaf)
               (71872, [71840])
               (Leaf))
              (71873, [71841])
              (Node Leaf (71874, [71842]) Leaf))))))
         (71875, [71843])
         (Node
          (Node
           (Node
            (Node
             (Node
              (Node
               (Node Leaf (71876, [71844]) Leaf)
               (71877, [71845])
               (Leaf))
              (71878, [71846])
              (Node
               (Node Leaf (71879, [71847]) Leaf)
               (71880, [71848])
               (Leaf)))
             (71881, [71849])
             (Node
              (Node
               (Node Leaf (71882, [71850]) Leaf)
               (71883, [71851])
               (Leaf))
              (71884, [71852])
              (Node
               (Node Leaf (71885, [71853]) Leaf)
               (71886, [71854])
               (Leaf))))
            (71887, [71855])
            (Node
             (Node
              (Node
               (Node Leaf (71888, [71856]) Leaf)
               (71889, [71857])
               (Leaf))
              (71890, [71858])
              (Node
               (Node Leaf (71891, [71859]) Leaf)
               (71892, [71860])
               (Leaf)))
             (71893, [71861])
             (Node
              (Node
               (Node Leaf (71894, [71862]) Leaf)
               (71895, [71863])
               (Leaf))
              (71896, [71864])
              (Node
               (Node Leaf (71897, [71865]) Leaf)
               (71898, [71866])
               (Leaf)))))
           (71899, [71867])
           (Node
            (Node
             (Node
              (Node
               (Node Leaf (71900, [71868]) Leaf)
               (71901, [71869])
               (Leaf))
              (71902, [71870])
              (Node
               (Node Leaf (71903, [71871]) Leaf)
               (93792, [93760])
               (Leaf)))
             (93793, [93761])
             (Node
              (Node
               (Node Leaf (93794, [93762]) Leaf)
               (93795, [93763])
               (Leaf))
              (93796, [93764])
              (Node
               (Node Leaf (93797, [93765]) Leaf)
               (93798, [93766])
               (Leaf))))
            (93799, [93767])
            (Node
             (Node
              (Node
               (Node Leaf (93800, [93768]) Leaf)
               (93801, [93769])
               (Leaf))
              (93802, [93770])
              (Node
               (Node Leaf (93803, [93771]) Leaf)
               (93804, [93772])
               (Leaf)))
             (93805, [93773])
             (Node
              (Node
               (Node Leaf (93806, [93774]) Leaf)
               (93807, [93775])
               (Leaf))
              (93808, [93776])
              (Node
               (Node Leaf (93809, [93777]) Leaf)
               (93810, [93778])
               (Leaf))))))
          (93811, [93779])
          (Node
           (Node
            (Node
             (Node
              (Node
               (Node Leaf (93812, [93780]) Leaf)
               (93813, [93781])
               (Leaf))
              (93814, [93782])
              (Node
               (Node Leaf (93815, [93783]) Leaf)
               (93816, [93784])
               (Leaf)))
             (93817, [93785])
             (Node
              (Node
               (Node Leaf (93818, [93786]) Leaf)
               (93819, [93787])
               (Leaf))
              (93820, [93788])
              (Node
               (Node Leaf (93821, [93789]) Leaf)
               (93822, [93790])
               (Leaf))))
            (93823, [93791])
            (Node
             (Node
              (Node
               (Node Leaf (125218, [125184]) Leaf)
               (125219, [125185])
               (Leaf))
              (125220, [125186])
              (Node
               (Node Leaf (125221, [125187]) Leaf)
               (125222, [125188])
               (Leaf)))
             (125223, [125189])
             (Node
              (Node
               (Node Leaf (125224, [125190]) Leaf)
               (125225, [125191])
               (Leaf))
              (125226, [125192])
              (Node
               (Node Leaf (125227, [125193]) Leaf)
               (125228, [125194])
               (Leaf)))))
           (125229, [125195])
           (Node
            (Node
             (Node
              (Node
               (Node Leaf (125230, [125196]) Leaf)
               (125231, [125197])
               (Leaf))
              (125232, [125198])
              (Node
               (Node Leaf (125233, [125199]) Leaf)
               (125234, [125200])
               (Leaf)))
             (125235, [125201])
             (Node
              (Node
               (Node Leaf (125236, [125202]) Leaf)
               (125237, [125203])
               (Leaf))
              (125238, [125204])
              (Node
               (Node Leaf (125239, [125205]) Leaf)
               (125240, [125206])
               (Leaf))))
            (125241, [125207])
            (Node
             (Node
              (Node
               (Node Leaf (125242, [125208]) Leaf)
               (125243, [125209])
               (Leaf))
              (125244, [125210])
              (Node
               (Node Leaf (125245, [125211]) Leaf)
               (125246, [125212])
               (Leaf)))
             (125247, [125213])
             (Node
              (Node
               (Node Leaf (125248, [125214]) Leaf)
               (125249, [125215])
               (Leaf))
              (125250, [125216])
              (Node Leaf (125251, [125217]) Leaf)))))))))"

fun lookup :: "int \<Rightarrow> (int \<times> 'a) tree \<Rightarrow> 'a option" where
  "lookup c Leaf = None"
| "lookup c (Node l (k, v) r) =
     (if c < k then lookup c l else if c = k then Some v else lookup c r)"

definition upper_char :: "int \<Rightarrow> str" where
  "upper_char c = (case lookup c UPPER_TABLE of None \<Rightarrow> [c] | Some u \<Rightarrow> u)"

definition upper :: "str \<Rightarrow> str" where
  "upper s = concat (map upper_char s)"

definition startswith :: "str \<Rightarrow> str \<Rightarrow> bool" where
  "startswith s p = (take (length p) s = p)"

definition strip :: "str \<Rightarrow> str" where
  "strip s = rev (dropWhile is_space (rev (dropWhile is_space s)))"

text \<open>The slice \<open>s[i:j]\<close> for offsets \<open>0 \<le> i\<close> and \<open>0 \<le> j\<close>.\<close>

definition slice :: "str \<Rightarrow> nat \<Rightarrow> nat \<Rightarrow> str" where
  "slice s i j = take (j - i) (drop i s)"


section \<open>The pattern\<close>

text \<open>
  The named groups of \<open>ARITH_RE\<close>, the two character classes it uses, and the pattern
  constructs it is built from. \<open>Bol\<close> is \<open>^\<close> under \<open>re.MULTILINE\<close>, \<open>Lit\<close> a
  literal under \<open>re.IGNORECASE\<close>, \<open>Star\<close> and \<open>Plus\<close> the greedy repetitions of a
  class. Under \<open>re.VERBOSE\<close> the white space of the pattern text means nothing.
\<close>

datatype group =
  stmt | add_val | add_target | sub_val | sub_target | mul_val | mul_target | div_val | div_target

datatype cclass = Space | Word

datatype regex =
  Eps
  | Bol
  | Lit char
  | Star cclass
  | Plus cclass
  | Seq regex regex
  | Alt regex regex
  | Grp group regex

fun in_class :: "cclass \<Rightarrow> int \<Rightarrow> bool" where
  "in_class Space c = is_space c"
| "in_class Word c = is_word c"

text \<open>A run of literals, and a sequence of several parts.\<close>

fun lits :: "string \<Rightarrow> regex" where
  "lits [] = Eps"
| "lits (c # cs) = Seq (Lit c) (lits cs)"

fun seqs :: "regex list \<Rightarrow> regex" where
  "seqs [] = Eps"
| "seqs (r # rs) = Seq r (seqs rs)"

definition ARITH_RE :: regex where
  "ARITH_RE = seqs [
     Bol, Star Space,
     Grp stmt (
       Alt (seqs [lits ''ADD'', Plus Space, Grp add_val (Plus Word), Plus Space,
                  lits ''TO'', Plus Space, Grp add_target (Plus Word)])
      (Alt (seqs [lits ''SUBTRACT'', Plus Space, Grp sub_val (Plus Word), Plus Space,
                  lits ''FROM'', Plus Space, Grp sub_target (Plus Word)])
      (Alt (seqs [lits ''MULTIPLY'', Plus Space, Grp mul_val (Plus Word), Plus Space,
                  lits ''BY'', Plus Space, Grp mul_target (Plus Word)])
           (seqs [lits ''DIVIDE'', Plus Space, Grp div_val (Plus Word), Plus Space,
                  lits ''BY'', Plus Space, Grp div_target (Plus Word)])))),
     Lit (CHR ''.'')]"


section \<open>The matching engine\<close>

text \<open>
  A backtracking matcher as a list of successes: \<open>rmatch r s (i, g)\<close> lists, in the
  order in which the engine tries them, the ways \<open>r\<close> matches \<open>s\<close> from offset \<open>i\<close>
  with the groups \<open>g\<close> set so far; each way is the offset reached and the groups then
  set (the spans by name, the latest first). A greedy repetition tries the longest run first, an alternation its left branch
  first, and the first success of the whole pattern is the match.
\<close>

type_synonym groups = "(group \<times> nat \<times> nat) list"

definition run :: "cclass \<Rightarrow> str \<Rightarrow> nat \<Rightarrow> nat" where
  "run k s i = length (takeWhile (in_class k) (drop i s))"

fun rmatch :: "regex \<Rightarrow> str \<Rightarrow> nat \<times> groups \<Rightarrow> (nat \<times> groups) list" where
  "rmatch Eps s (i, g) = [(i, g)]"
| "rmatch Bol s (i, g) = (if i = 0 \<or> (i \<le> length s \<and> s ! (i - 1) = NL) then [(i, g)] else [])"
| "rmatch (Lit c) s (i, g) =
     (if i < length s \<and> s ! i \<in> set (accepts c) then [(Suc i, g)] else [])"
| "rmatch (Star k) s (i, g) = map (\<lambda>n. (i + n, g)) (rev [0 ..< Suc (run k s i)])"
| "rmatch (Plus k) s (i, g) = map (\<lambda>n. (i + n, g)) (rev [1 ..< Suc (run k s i)])"
| "rmatch (Seq a b) s st = concat (map (rmatch b s) (rmatch a s st))"
| "rmatch (Alt a b) s st = rmatch a s st @ rmatch b s st"
| "rmatch (Grp n r) s (i, g) = map (\<lambda>(j, g'). (j, (n, i, j) # g')) (rmatch r s (i, g))"

text \<open>A match object: \<open>m.start()\<close>, \<open>m.end()\<close> and the spans of the groups that took
  part; \<open>m.group(n)\<close> is \<open>None\<close> for a group that did not.\<close>

record match =
  m_start :: nat
  m_end :: nat
  m_groups :: groups

definition m_group :: "str \<Rightarrow> match \<Rightarrow> group \<Rightarrow> str option" where
  "m_group s m n = (case map_of (m_groups m) n of None \<Rightarrow> None | Some (i, j) \<Rightarrow> Some (slice s i j))"

text \<open>\<open>pattern.match(s, q)\<close>: the first success from offset \<open>q\<close>, if there is one.\<close>

definition match_at :: "regex \<Rightarrow> str \<Rightarrow> nat \<Rightarrow> match option" where
  "match_at r s q = (case rmatch r s (q, []) of
       [] \<Rightarrow> None
     | (e, g) # _ \<Rightarrow> Some \<lparr>m_start = q, m_end = e, m_groups = g\<rparr>)"

text \<open>\<open>pattern.search(s, p)\<close>: the match at the leftmost offset from \<open>p\<close> on that has
  one.\<close>

fun first_match :: "regex \<Rightarrow> str \<Rightarrow> nat list \<Rightarrow> match option" where
  "first_match r s [] = None"
| "first_match r s (q # qs) =
     (case match_at r s q of None \<Rightarrow> first_match r s qs | Some m \<Rightarrow> Some m)"

definition search :: "regex \<Rightarrow> str \<Rightarrow> nat \<Rightarrow> match option" where
  "search r s p = first_match r s [p ..< Suc (length s)]"

text \<open>
  \<open>pattern.finditer(s)\<close>, from offset \<open>p\<close>: the successive leftmost matches, each search
  starting where the match before ended. The step past an empty match (one character on)
  is never taken for \<open>ARITH_RE\<close>, whose matches hold a keyword at least.
\<close>

function finditer :: "regex \<Rightarrow> str \<Rightarrow> nat \<Rightarrow> match list" where
  "finditer r s p =
     (case search r s p of
        None \<Rightarrow> []
      | Some m \<Rightarrow> m # finditer r s (if m_start m < m_end m then m_end m else Suc (m_end m)))"
  by pat_completeness auto
termination
proof (relation "measure (\<lambda>(r, s, p). Suc (length s) - p)")
  show "wf (measure (\<lambda>(r, s, p). Suc (length s) - p))" by simp
next
  fix r s p m
  assume found: "search r s p = Some m"
  have mono: "i \<le> e" if "(e, g') \<in> set (rmatch r' s (i, g))" for r' i g e g'
    using that
  proof (induction r' arbitrary: i g e g')
    case (Seq a b)
    then obtain k h where "(k, h) \<in> set (rmatch a s (i, g))" "(e, g') \<in> set (rmatch b s (k, h))"
      by auto
    with Seq.IH show ?case by (meson le_trans)
  qed (auto split: if_splits)
  have first: "m_start m \<in> set qs \<and> m_start m \<le> m_end m" if "first_match r s qs = Some m" for qs
    using that
  proof (induction qs)
    case Nil
    then show ?case by simp
  next
    case (Cons q qs)
    show ?case
    proof (cases "match_at r s q")
      case None
      with Cons show ?thesis by simp
    next
      case (Some m')
      with Cons.prems have eq: "m' = m" by simp
      from Some obtain e g rest where res: "rmatch r s (q, []) = (e, g) # rest"
        and m': "m' = \<lparr>m_start = q, m_end = e, m_groups = g\<rparr>"
        by (auto simp: match_at_def split: list.splits)
      from res have "(e, g) \<in> set (rmatch r s (q, []))" by simp
      then have "q \<le> e" by (rule mono)
      with eq m' show ?thesis by auto
    qed
  qed
  from found have "p \<le> m_start m" "m_start m \<le> length s" "m_start m \<le> m_end m"
    using first [of "[p ..< Suc (length s)]"] by (auto simp: search_def)
  then show "((r, s, if m_start m < m_end m then m_end m else Suc (m_end m)), (r, s, p))
      \<in> measure (\<lambda>(r, s, p). Suc (length s) - p)"
    by auto
qed

declare finditer.simps [simp del]


section \<open>Models\<close>

datatype error = AttributeError | KeyError

record Finding =
  prog_name :: "str option"
  incl_name :: "str option"
  types :: "str option"
  blockname :: "str option"
  starting_line :: "int option"
  ending_line :: "int option"
  issues_type :: "str option"
  severity :: "str option"
  message :: "str option"
  suggestion :: "str option"
  snippet :: "str option"

record Unit =
  pgm_name :: str
  inc_name :: str
  type :: str
  name :: "str option"
  class_implementation :: "str option"
  start_line :: int
  end_line :: int
  code :: "str option"
  findings :: "Finding list option"


section \<open>Helper\<close>

text \<open>\<open>s.find(c, start)\<close> and \<open>s.rfind(c, 0, stop)\<close> for a one-character \<open>c\<close>; the
  result \<open>-1\<close> of Python is \<open>None\<close>.\<close>

definition str_find :: "str \<Rightarrow> int \<Rightarrow> nat \<Rightarrow> nat option" where
  "str_find s c start = List.find (\<lambda>i. s ! i = c) [start ..< length s]"

definition str_rfind :: "str \<Rightarrow> int \<Rightarrow> nat \<Rightarrow> nat option" where
  "str_rfind s c stop = List.find (\<lambda>i. s ! i = c) (rev [0 ..< min stop (length s)])"

definition str_count :: "str \<Rightarrow> int \<Rightarrow> nat" where
  "str_count s c = length (filter (\<lambda>x. x = c) s)"

definition str_replace :: "str \<Rightarrow> int \<Rightarrow> str \<Rightarrow> str" where
  "str_replace s c r = concat (map (\<lambda>x. if x = c then r else [x]) s)"

definition extract_exact_line :: "str \<Rightarrow> nat \<Rightarrow> str" where
  "extract_exact_line src start =
     (let line_start = (case str_rfind src NL start of None \<Rightarrow> 0 | Some i \<Rightarrow> i + 1);
          line_end = (case str_find src NL start of None \<Rightarrow> length src | Some j \<Rightarrow> j)
      in slice src line_start line_end)"

text \<open>How an f-str renders a value that may be \<open>None\<close>.\<close>

definition fmt :: "str option \<Rightarrow> str" where
  "fmt v = (case v of None \<Rightarrow> cps ''None'' | Some x \<Rightarrow> x)"

text \<open>The dictionary of the suggestion; a key it does not have raises \<open>KeyError\<close>.\<close>

definition OPERATORS :: "str \<rightharpoonup> str" where
  "OPERATORS = map_of [(cps ''ADD'', cps ''+=''), (cps ''SUBTRACT'', cps ''-=''), (cps ''MULTIPLY'', cps ''*=''),
     (cps ''DIVIDE'', cps ''/='')]"

definition make_finding ::
  "Unit \<Rightarrow> str \<Rightarrow> nat \<Rightarrow> nat \<Rightarrow> str \<Rightarrow> str option \<Rightarrow> str option \<Rightarrow> str
     \<Rightarrow> error + Finding" where
  "make_finding unit src start end' stmt_type val target original_stmt =
     (let abs_start = start_line unit + int (str_count (take start src) NL);
          abs_end = abs_start;
          snip = str_replace (extract_exact_line src start) NL (BACKSLASH # cps ''n'')
      in case OPERATORS stmt_type of
           None \<Rightarrow> Inl KeyError
         | Some operator \<Rightarrow>
             (let sugg = cps ''Replace '' @ [QUOTE] @ original_stmt @ [QUOTE] @ cps '' with '' @ [QUOTE]
                    @ fmt target @ cps '' '' @ operator @ cps '' '' @ fmt val @ [QUOTE] @ cps ''.''
              in Inr \<lparr>prog_name = Some (pgm_name unit),
                      incl_name = Some (inc_name unit),
                      types = Some (type unit),
                      blockname = name unit,
                      starting_line = Some abs_start,
                      ending_line = Some abs_end,
                      issues_type = Some (cps ''Obsolete'' @ stmt_type @ cps ''Usage''),
                      severity = Some (cps ''error''),
                      message = Some (cps ''Obsolete '' @ [QUOTE] @ stmt_type @ [QUOTE]
                                      @ cps '' statement detected.''),
                      suggestion = Some sugg,
                      snippet = Some snip\<rparr>))"


section \<open>Scanner\<close>

text \<open>The branches of the loop body: the statement's type, value and target, or
  \<open>None\<close> where the body goes on to the next match.\<close>

definition classify :: "str \<Rightarrow> match \<Rightarrow> str \<Rightarrow> (str \<times> str option \<times> str option) option"
  where
  "classify src m st =
     (if startswith (upper st) (cps ''ADD'') then
        Some (cps ''ADD'', m_group src m add_val, m_group src m add_target)
      else if startswith (upper st) (cps ''SUBTRACT'') then
        Some (cps ''SUBTRACT'', m_group src m sub_val, m_group src m sub_target)
      else if startswith (upper st) (cps ''MULTIPLY'') then
        Some (cps ''MULTIPLY'', m_group src m mul_val, m_group src m mul_target)
      else if startswith (upper st) (cps ''DIVIDE'') then
        Some (cps ''DIVIDE'', m_group src m div_val, m_group src m div_target)
      else None)"

text \<open>One turn of the loop: the finding to append, if any. \<open>strip\<close> called on
  \<open>None\<close> raises \<open>AttributeError\<close>.\<close>

definition scan_match :: "Unit \<Rightarrow> str \<Rightarrow> match \<Rightarrow> error + Finding option" where
  "scan_match unit src m =
     (case m_group src m stmt of
        None \<Rightarrow> Inl AttributeError
      | Some text \<Rightarrow>
          (let st = strip text; start = m_start m; end' = m_end m
           in case classify src m st of
                None \<Rightarrow> Inr None
              | Some (stmt_type, val, target) \<Rightarrow>
                  (case make_finding unit src start end' stmt_type val target st of
                     Inl e \<Rightarrow> Inl e
                   | Inr f \<Rightarrow> Inr (Some f))))"

fun scan_loop :: "Unit \<Rightarrow> str \<Rightarrow> match list \<Rightarrow> Finding list \<Rightarrow> error + Finding list" where
  "scan_loop unit src [] fs = Inr fs"
| "scan_loop unit src (m # ms) fs =
     (case scan_match unit src m of
        Inl e \<Rightarrow> Inl e
      | Inr None \<Rightarrow> scan_loop unit src ms fs
      | Inr (Some f) \<Rightarrow> scan_loop unit src ms (fs @ [f]))"

text \<open>\<open>unit.code or ""\<close>.\<close>

definition code_or_empty :: "Unit \<Rightarrow> str" where
  "code_or_empty unit = (case code unit of None \<Rightarrow> [] | Some c \<Rightarrow> if c = [] then [] else c)"

text \<open>The scan returns a new unit: the fields of the one given, and the findings, or
  \<open>None\<close> when the list is empty.\<close>

definition scan_unit :: "Unit \<Rightarrow> error + Unit" where
  "scan_unit unit =
     (let src = code_or_empty unit
      in case scan_loop unit src (finditer ARITH_RE src 0) [] of
           Inl e \<Rightarrow> Inl e
         | Inr fs \<Rightarrow> Inr (unit\<lparr>findings := (if fs \<noteq> [] then Some fs else None)\<rparr>))"


section \<open>Endpoints\<close>

text \<open>The truth value of \<open>res.findings\<close>: \<open>None\<close> and the empty list are false.\<close>

definition truthy :: "'a list option \<Rightarrow> bool" where
  "truthy v = (case v of None \<Rightarrow> False | Some xs \<Rightarrow> xs \<noteq> [])"

fun array_loop :: "Unit list \<Rightarrow> Unit list \<Rightarrow> error + Unit list" where
  "array_loop [] results = Inr results"
| "array_loop (u # us) results =
     (case scan_unit u of
        Inl e \<Rightarrow> Inl e
      | Inr res \<Rightarrow> array_loop us (if truthy (findings res) then results @ [res] else results))"

definition arithmetic_array :: "Unit list \<Rightarrow> error + Unit list" where
  "arithmetic_array units = array_loop units []"

definition arithmetic_single :: "Unit \<Rightarrow> error + Unit" where
  "arithmetic_single unit = scan_unit unit"


section \<open>The shape of a match\<close>

text \<open>
  Notions for stating what the pattern matches. \<open>span P s i j\<close>: the characters of
  \<open>s\<close> from offset \<open>i\<close> up to \<open>j\<close> are all in \<open>P\<close>. \<open>ci_at s i w\<close>: at offset
  \<open>i\<close> stand code points that the literals of the word \<open>w\<close> accept, one by one. \<open>bol s i\<close>: a line
  of \<open>s\<close> begins at offset \<open>i\<close>.
\<close>

definition span :: "(int \<Rightarrow> bool) \<Rightarrow> str \<Rightarrow> nat \<Rightarrow> nat \<Rightarrow> bool" where
  "span P s i j = (i \<le> j \<and> j \<le> length s \<and> list_all P (slice s i j))"

definition ci_at :: "str \<Rightarrow> nat \<Rightarrow> string \<Rightarrow> bool" where
  "ci_at s i w =
     (i + length w \<le> length s \<and>
      list_all2 (\<lambda>c p. c \<in> set (accepts p)) (slice s i (i + length w)) w)"

definition bol :: "str \<Rightarrow> nat \<Rightarrow> bool" where
  "bol s i = (i = 0 \<or> (i \<le> length s \<and> s ! (i - 1) = NL))"

text \<open>One alternative of the pattern, for a keyword, a connective and the names of its
  two groups; and the four alternatives \<open>ARITH_RE\<close> has.\<close>

type_synonym form = "string \<times> string \<times> group \<times> group"

definition branch :: "form \<Rightarrow> regex" where
  "branch K = (case K of (kw, conn, gv, gt) \<Rightarrow>
     seqs [lits kw, Plus Space, Grp gv (Plus Word), Plus Space,
           lits conn, Plus Space, Grp gt (Plus Word)])"

definition FORMS :: "form list" where
  "FORMS = [(''ADD'', ''TO'', add_val, add_target), (''SUBTRACT'', ''FROM'', sub_val, sub_target),
     (''MULTIPLY'', ''BY'', mul_val, mul_target), (''DIVIDE'', ''BY'', div_val, div_target)]"

text \<open>The letters of the keywords and connectives.\<close>

definition KEY_LETTERS :: string where
  "KEY_LETTERS = ''ADDTOSUBTRACTFROMMULTIPLYBYDIVIDEBY''"

text \<open>\<open>shaped s K a b0 b1 c d0 d1\<close>: a statement of the form \<open>K\<close> stands in \<open>s\<close> with
  its keyword at offset \<open>a\<close>, its value from \<open>b0\<close> to \<open>b1\<close>, its connective at \<open>c\<close>
  and its target from \<open>d0\<close> to \<open>d1\<close>, with white space between them.\<close>

definition shaped :: "str \<Rightarrow> form \<Rightarrow> nat \<Rightarrow> nat \<Rightarrow> nat \<Rightarrow> nat \<Rightarrow> nat \<Rightarrow> nat \<Rightarrow> bool" where
  "shaped s K a b0 b1 c d0 d1 = (case K of (kw, conn, gv, gt) \<Rightarrow>
     ci_at s a kw \<and> a + length kw < b0 \<and> span is_space s (a + length kw) b0 \<and>
     b0 < b1 \<and> span is_word s b0 b1 \<and>
     b1 < c \<and> span is_space s b1 c \<and>
     ci_at s c conn \<and> c + length conn < d0 \<and> span is_space s (c + length conn) d0 \<and>
     d0 < d1 \<and> span is_word s d0 d1)"


text \<open>The same with the ends of the keyword and of the connective, and only the classes of
  the characters: the letters of a keyword are word characters.\<close>

definition skel :: "str \<Rightarrow> nat \<Rightarrow> nat \<Rightarrow> nat \<Rightarrow> nat \<Rightarrow> nat \<Rightarrow> nat \<Rightarrow> nat \<Rightarrow> nat \<Rightarrow> bool" where
  "skel s a a1 b0 b1 c c1 d0 d1 =
     (a < a1 \<and> span is_word s a a1 \<and> a1 < b0 \<and> span is_space s a1 b0 \<and>
      b0 < b1 \<and> span is_word s b0 b1 \<and> b1 < c \<and> span is_space s b1 c \<and>
      c < c1 \<and> span is_word s c c1 \<and> c1 < d0 \<and> span is_space s c1 d0 \<and>
      d0 < d1 \<and> span is_word s d0 d1)"

text \<open>\<open>fits s q r\<close>: \<open>r\<close> is the end offset and the groups of a match of the pattern
  that starts at offset \<open>q\<close>: a line begins at \<open>q\<close>, white space may follow, then a
  statement of one of the four forms, then a period.\<close>

definition fits :: "str \<Rightarrow> nat \<Rightarrow> nat \<times> groups \<Rightarrow> bool" where
  "fits s q r = (\<exists>kw conn gv gt a b0 b1 c d0 d1.
     (kw, conn, gv, gt) \<in> set FORMS \<and> bol s q \<and> (a = q \<or> (q < a \<and> span is_space s q a))
     \<and> shaped s (kw, conn, gv, gt) a b0 b1 c d0 d1 \<and> d1 < length s \<and> s ! d1 = FULL_STOP
     \<and> r = (Suc d1, [(stmt, a, d1), (gt, d0, d1), (gv, b0, b1)]))"


section \<open>Notions of the statements\<close>

text \<open>The findings a unit carries, as a list: none when the field is \<open>None\<close>.\<close>

definition found :: "Unit \<Rightarrow> Finding list" where
  "found v = (case findings v of None \<Rightarrow> [] | Some fs \<Rightarrow> fs)"

text \<open>The loop body reads a kind from the match: it does not go on to the next match
  without a finding.\<close>

definition reads_kind :: "str \<Rightarrow> match \<Rightarrow> bool" where
  "reads_kind src m =
     (case m_group src m stmt of None \<Rightarrow> False | Some tx \<Rightarrow> classify src m (strip tx) \<noteq> None)"

text \<open>The finding that \<open>make_finding\<close> builds from the kind of a statement, its operator,
  its value, its target and its text, for a match that starts at offset \<open>start\<close>.\<close>

definition finding_of ::
  "Unit \<Rightarrow> str \<Rightarrow> nat \<Rightarrow> str \<Rightarrow> str \<Rightarrow> str \<Rightarrow> str \<Rightarrow> str \<Rightarrow> Finding" where
  "finding_of u s start kind operator val target txt =
     \<lparr>prog_name = Some (pgm_name u), incl_name = Some (inc_name u), types = Some (type u),
      blockname = name u,
      starting_line = Some (start_line u + int (str_count (take start s) NL)),
      ending_line = Some (start_line u + int (str_count (take start s) NL)),
      issues_type = Some (cps ''Obsolete'' @ kind @ cps ''Usage''),
      severity = Some (cps ''error''),
      message = Some (cps ''Obsolete '' @ [QUOTE] @ kind @ [QUOTE] @ cps '' statement detected.''),
      suggestion = Some (cps ''Replace '' @ [QUOTE] @ txt @ [QUOTE] @ cps '' with '' @ [QUOTE]
                 @ target @ cps '' '' @ operator @ cps '' '' @ val @ [QUOTE] @ cps ''.''),
      snippet = Some (str_replace (extract_exact_line s start) NL (BACKSLASH # cps ''n''))\<rparr>"


text \<open>
  Units as objects, for what the scan does to the object it is given: a heap is the list
  of the objects allocated so far, an address is an index into it. The scan reads the
  unit at address \<open>a\<close>; \<open>Unit(**unit.model_dump())\<close> allocates a new object with the
  same fields, and the assignment to \<open>out.findings\<close> writes to that new object. The
  result is the address of the new object and the heap after the call.
\<close>

type_synonym heap = "Unit list"

definition scan_unit_obj :: "heap \<Rightarrow> nat \<Rightarrow> error + nat \<times> heap" where
  "scan_unit_obj h a =
     (let unit = h ! a; src = code_or_empty unit
      in case scan_loop unit src (finditer ARITH_RE src 0) [] of
           Inl e \<Rightarrow> Inl e
         | Inr fs \<Rightarrow>
             (let out = length h;
                  h1 = h @ [unit];
                  h2 = h1[out := (h1 ! out)\<lparr>findings := (if fs \<noteq> [] then Some fs else None)\<rparr>]
              in Inr (out, h2)))"


section \<open>Characters\<close>

lemma space_not_word: "is_space c \<Longrightarrow> \<not> is_word c"
proof -
  have "list_all (\<lambda>c. \<not> is_word c) WHITESPACE" by code_simp
  then show "is_space c \<Longrightarrow> \<not> is_word c" by (simp add: is_space_def list_all_iff)
qed

lemma dot_class: "\<not> is_space FULL_STOP" "\<not> is_word FULL_STOP"
  by code_simp+

lemma NL_space: "is_space NL"
  by code_simp

lemma accepts_dot: "accepts (CHR ''.'') = [FULL_STOP]"
  by code_simp

text \<open>The code points that the letters of the keywords accept are word characters, and
  their upper case is the letter itself, but for U+0130, which is its own upper case.\<close>

lemma accepted_letter:
  assumes "p \<in> set KEY_LETTERS" "c \<in> set (accepts p)"
  shows "is_word c" and "\<not> is_space c" and "c \<noteq> FULL_STOP"
    and "upper_char c = [if c = 304 then 304 else of_char p]"
proof -
  have "list_all (\<lambda>p. list_all (\<lambda>c. is_word c \<and> \<not> is_space c \<and> c \<noteq> FULL_STOP
      \<and> upper_char c = [if c = 304 then 304 else of_char p]) (accepts p)) KEY_LETTERS"
    by code_simp
  with assms have "is_word c \<and> \<not> is_space c \<and> c \<noteq> FULL_STOP
      \<and> upper_char c = [if c = 304 then 304 else of_char p]"
    by (simp add: list_all_iff)
  then show "is_word c" and "\<not> is_space c" and "c \<noteq> FULL_STOP"
    and "upper_char c = [if c = 304 then 304 else of_char p]" by simp_all
qed

lemma accepted_304: "304 \<in> set (accepts p) \<Longrightarrow> p \<in> set KEY_LETTERS \<Longrightarrow> p = CHR ''I''"
proof -
  have "list_all (\<lambda>p. 304 \<in> set (accepts p) \<longrightarrow> p = CHR ''I'') KEY_LETTERS" by code_simp
  then show "304 \<in> set (accepts p) \<Longrightarrow> p \<in> set KEY_LETTERS \<Longrightarrow> p = CHR ''I''"
    by (simp add: list_all_iff)
qed


section \<open>The engine, construct by construct\<close>

lemma span_iff:
  "span P s i j \<longleftrightarrow> i \<le> j \<and> j \<le> length s \<and> (\<forall>k. i \<le> k \<and> k < j \<longrightarrow> P (s ! k))"
proof (cases "i \<le> j \<and> j \<le> length s")
  case True
  then have "list_all P (slice s i j) \<longleftrightarrow> (\<forall>n < j - i. P (s ! (i + n)))"
    by (auto simp add: slice_def list_all_length)
  also have "\<dots> \<longleftrightarrow> (\<forall>k. i \<le> k \<and> k < j \<longrightarrow> P (s ! k))"
  proof safe
    fix k assume a: "\<forall>n<j - i. P (s ! (i + n))" and "i \<le> k" "k < j"
    then have "k - i < j - i" by simp
    with a have "P (s ! (i + (k - i)))" by blast
    with \<open>i \<le> k\<close> show "P (s ! k)" by simp
  qed simp
  finally show ?thesis using True by (simp add: span_def)
qed (auto simp: span_def)

lemma ci_at_iff:
  "ci_at s i w \<longleftrightarrow>
     i + length w \<le> length s \<and> (\<forall>k < length w. s ! (i + k) \<in> set (accepts (w ! k)))"
  by (auto simp: ci_at_def slice_def list_all2_conv_all_nth)

lemma takeWhile_length_iff:
  "n \<le> length (takeWhile P xs) \<longleftrightarrow> n \<le> length xs \<and> (\<forall>k<n. P (xs ! k))"
proof (induction xs arbitrary: n)
  case Nil
  then show ?case by auto
next
  case (Cons x xs)
  show ?case
  proof (cases n)
    case 0
    then show ?thesis by simp
  next
    case (Suc m)
    show ?thesis
    proof (cases "P x")
      case True
      with Suc Cons [of m] show ?thesis by (auto simp: less_Suc_eq_0_disj)
    next
      case False
      with Suc show ?thesis by auto
    qed
  qed
qed

lemma run_iff: "n \<le> run k s i \<longleftrightarrow> (n = 0 \<or> span (in_class k) s i (i + n))"
proof (cases "i \<le> length s")
  case True
  have "n \<le> run k s i \<longleftrightarrow> n \<le> length s - i \<and> (\<forall>m<n. in_class k (drop i s ! m))"
    by (simp add: run_def takeWhile_length_iff)
  also have "\<dots> \<longleftrightarrow> i + n \<le> length s \<and> (\<forall>m<n. in_class k (s ! (i + m)))"
    using True by auto
  also have "\<dots> \<longleftrightarrow> span (in_class k) s i (i + n)"
    unfolding span_iff
  proof safe
    fix j assume a: "\<forall>m<n. in_class k (s ! (i + m))" and "i \<le> j" "j < i + n"
    then have "j - i < n" by simp
    with a have "in_class k (s ! (i + (j - i)))" by blast
    with \<open>i \<le> j\<close> show "in_class k (s ! j)" by simp
  qed auto
  finally show ?thesis using True by (auto simp: span_iff)
next
  case False
  then show ?thesis by (auto simp: run_def span_iff)
qed

lemma rmatch_Plus_iff:
  "(j, g') \<in> set (rmatch (Plus k) s (i, g)) \<longleftrightarrow> g' = g \<and> i < j \<and> span (in_class k) s i j"
proof -
  have "(j, g') \<in> set (rmatch (Plus k) s (i, g)) \<longleftrightarrow> g' = g \<and> (\<exists>n. 1 \<le> n \<and> n \<le> run k s i \<and> j = i + n)"
    by (auto simp: image_iff)
  also have "\<dots> \<longleftrightarrow> g' = g \<and> i < j \<and> span (in_class k) s i j"
  proof safe
    fix n assume "1 \<le> n" "n \<le> run k s i"
    then show "span (in_class k) s i (i + n)" by (auto simp: run_iff)
  next
    assume a: "i < j" "span (in_class k) s i j"
    then have "1 \<le> j - i \<and> j - i \<le> run k s i \<and> j = i + (j - i)" by (auto simp: run_iff)
    then show "\<exists>n\<ge>1. n \<le> run k s i \<and> j = i + n" by blast
  qed auto
  finally show ?thesis .
qed

lemma rmatch_Star_iff:
  "(j, g') \<in> set (rmatch (Star k) s (i, g)) \<longleftrightarrow>
     g' = g \<and> (j = i \<or> (i < j \<and> span (in_class k) s i j))"
proof -
  have "(j, g') \<in> set (rmatch (Star k) s (i, g)) \<longleftrightarrow> g' = g \<and> (\<exists>n. n \<le> run k s i \<and> j = i + n)"
    by (auto simp: image_iff)
  also have "\<dots> \<longleftrightarrow> g' = g \<and> (j = i \<or> (i < j \<and> span (in_class k) s i j))"
  proof safe
    fix n assume "n \<le> run k s i" "i + n \<noteq> i"
    then show "span (in_class k) s i (i + n)" by (auto simp: run_iff)
  next
    assume a: "i < j" "span (in_class k) s i j"
    then have "j - i \<le> run k s i \<and> j = i + (j - i)" by (auto simp: run_iff)
    then show "\<exists>n. n \<le> run k s i \<and> j = i + n" by blast
  qed auto
  finally show ?thesis .
qed

lemma ci_at_Cons:
  "ci_at s i (c # cs) \<longleftrightarrow> i < length s \<and> s ! i \<in> set (accepts c) \<and> ci_at s (Suc i) cs"
  unfolding ci_at_iff by (auto simp: less_Suc_eq_0_disj)

lemma ci_at_Nil: "ci_at s i [] \<longleftrightarrow> i \<le> length s"
  by (simp add: ci_at_iff)

lemma rmatch_Seq_iff:
  "(e, g') \<in> set (rmatch (Seq a b) s st) \<longleftrightarrow>
     (\<exists>k h. (k, h) \<in> set (rmatch a s st) \<and> (e, g') \<in> set (rmatch b s (k, h)))"
  by auto

lemma rmatch_Eps_iff: "(e, g') \<in> set (rmatch Eps s (i, g)) \<longleftrightarrow> e = i \<and> g' = g"
  by auto

lemma rmatch_Grp_iff:
  "(e, g') \<in> set (rmatch (Grp n r) s (i, g)) \<longleftrightarrow>
     (\<exists>h. (e, h) \<in> set (rmatch r s (i, g)) \<and> g' = (n, i, e) # h)"
  by auto

lemma rmatch_lits_iff:
  "(e, g') \<in> set (rmatch (lits w) s (i, g)) \<longleftrightarrow>
     e = i + length w \<and> g' = g \<and> (w = [] \<or> ci_at s i w)"
proof (induction w arbitrary: i)
  case Nil
  then show ?case by auto
next
  case (Cons c cs)
  have "(e, g') \<in> set (rmatch (lits (c # cs)) s (i, g)) \<longleftrightarrow>
      i < length s \<and> s ! i \<in> set (accepts c) \<and> (e, g') \<in> set (rmatch (lits cs) s (Suc i, g))"
    by auto
  also have "\<dots> \<longleftrightarrow> i < length s \<and> s ! i \<in> set (accepts c) \<and>
      e = Suc i + length cs \<and> g' = g \<and> (cs = [] \<or> ci_at s (Suc i) cs)"
    by (simp only: Cons.IH)
  also have "\<dots> \<longleftrightarrow> e = i + length (c # cs) \<and> g' = g \<and> ci_at s i (c # cs)"
    by (auto simp: ci_at_Cons ci_at_Nil)
  finally show ?case by simp
qed

lemma in_class_eq: "in_class Space = is_space" "in_class Word = is_word"
  by (rule ext, simp)+

lemma branch_iff:
  assumes "kw \<noteq> []" "conn \<noteq> []"
  shows "(e, g') \<in> set (rmatch (branch (kw, conn, gv, gt)) s (a, g)) \<longleftrightarrow>
     (\<exists>b0 b1 c d0. shaped s (kw, conn, gv, gt) a b0 b1 c d0 e \<and> g' = (gt, d0, e) # (gv, b0, b1) # g)"
  using assms
  by (simp add: branch_def shaped_def rmatch_Seq_iff rmatch_Eps_iff rmatch_Grp_iff rmatch_lits_iff
      rmatch_Plus_iff in_class_eq del: rmatch.simps lits.simps)

lemma ARITH_RE_forms:
  "ARITH_RE = seqs [Bol, Star Space,
     Grp stmt (Alt (branch (''ADD'', ''TO'', add_val, add_target))
       (Alt (branch (''SUBTRACT'', ''FROM'', sub_val, sub_target))
       (Alt (branch (''MULTIPLY'', ''BY'', mul_val, mul_target))
            (branch (''DIVIDE'', ''BY'', div_val, div_target))))), Lit (CHR ''.'')]"
  by (simp add: ARITH_RE_def branch_def)

lemma rmatch_Bol_iff: "(e, g') \<in> set (rmatch Bol s (i, g)) \<longleftrightarrow> e = i \<and> g' = g \<and> bol s i"
  by (auto simp: bol_def)

lemma rmatch_Lit_iff:
  "(e, g') \<in> set (rmatch (Lit c) s (i, g)) \<longleftrightarrow>
     e = Suc i \<and> g' = g \<and> i < length s \<and> s ! i \<in> set (accepts c)"
  by auto

lemma rmatch_Alt_iff:
  "(e, g') \<in> set (rmatch (Alt a b) s st) \<longleftrightarrow>
     (e, g') \<in> set (rmatch a s st) \<or> (e, g') \<in> set (rmatch b s st)"
  by auto

lemma alt_forms:
  "(e, h) \<in> set (rmatch (Alt (branch (''ADD'', ''TO'', add_val, add_target))
       (Alt (branch (''SUBTRACT'', ''FROM'', sub_val, sub_target))
       (Alt (branch (''MULTIPLY'', ''BY'', mul_val, mul_target))
            (branch (''DIVIDE'', ''BY'', div_val, div_target))))) s st) \<longleftrightarrow>
   (\<exists>K \<in> set FORMS. (e, h) \<in> set (rmatch (branch K) s st))"
  by (simp add: rmatch_Alt_iff FORMS_def del: rmatch.simps)

lemma branch_forms_iff:
  assumes "(kw, conn, gv, gt) \<in> set FORMS"
  shows "(e, g') \<in> set (rmatch (branch (kw, conn, gv, gt)) s (a, g)) \<longleftrightarrow>
     (\<exists>b0 b1 c d0. shaped s (kw, conn, gv, gt) a b0 b1 c d0 e \<and> g' = (gt, d0, e) # (gv, b0, b1) # g)"
proof -
  from assms have "kw \<noteq> []" "conn \<noteq> []" by (auto simp: FORMS_def)
  then show ?thesis by (rule branch_iff)
qed

lemma arith_iff: "r \<in> set (rmatch ARITH_RE s (q, [])) \<longleftrightarrow> fits s q r"
proof -
  obtain e g' where r: "r = (e, g')" by (cases r)
  have "(e, g') \<in> set (rmatch ARITH_RE s (q, [])) \<longleftrightarrow>
    (bol s q \<and> (\<exists>a. (a = q \<or> q < a \<and> span is_space s q a) \<and>
       (\<exists>d1. (\<exists>h. (\<exists>K \<in> set FORMS. (d1, h) \<in> set (rmatch (branch K) s (a, []))) \<and> g' = (stmt, a, d1) # h)
          \<and> d1 < length s \<and> s ! d1 = FULL_STOP \<and> e = Suc d1)))"
    unfolding ARITH_RE_forms
    by (simp add: rmatch_Seq_iff rmatch_Eps_iff rmatch_Grp_iff rmatch_Bol_iff rmatch_Star_iff
        rmatch_Lit_iff alt_forms accepts_dot in_class_eq del: rmatch.simps)
  also have "\<dots> \<longleftrightarrow> fits s q (e, g')"
    unfolding fits_def
  proof (intro iffI; elim conjE exE bexE)
    fix a d1 h K
    assume 1: "bol s q" "a = q \<or> q < a \<and> span is_space s q a" "g' = (stmt, a, d1) # h"
      "d1 < length s" "s ! d1 = FULL_STOP" "e = Suc d1" "K \<in> set FORMS"
      and 2: "(d1, h) \<in> set (rmatch (branch K) s (a, []))"
    obtain kw conn gv gt where K: "K = (kw, conn, gv, gt)" by (cases K)
    from 2 1(7) obtain b0 b1 c d0 where "shaped s (kw, conn, gv, gt) a b0 b1 c d0 d1"
      "h = [(gt, d0, d1), (gv, b0, b1)]"
      unfolding K using branch_forms_iff by blast
    with 1 K show "\<exists>kw conn gv gt a b0 b1 c d0 d1.
       (kw, conn, gv, gt) \<in> set FORMS \<and> bol s q \<and> (a = q \<or> q < a \<and> span is_space s q a) \<and>
       shaped s (kw, conn, gv, gt) a b0 b1 c d0 d1 \<and> d1 < length s \<and> s ! d1 = FULL_STOP \<and>
       (e, g') = (Suc d1, [(stmt, a, d1), (gt, d0, d1), (gv, b0, b1)])"
      by blast
  next
    fix kw conn gv gt a b0 b1 c d0 d1
    assume 1: "(kw, conn, gv, gt) \<in> set FORMS" "bol s q" "a = q \<or> q < a \<and> span is_space s q a"
      "shaped s (kw, conn, gv, gt) a b0 b1 c d0 d1" "d1 < length s" "s ! d1 = FULL_STOP"
      "(e, g') = (Suc d1, [(stmt, a, d1), (gt, d0, d1), (gv, b0, b1)])"
    then have "(d1, [(gt, d0, d1), (gv, b0, b1)]) \<in> set (rmatch (branch (kw, conn, gv, gt)) s (a, []))"
      using branch_forms_iff by blast
    with 1 show "bol s q \<and> (\<exists>a. (a = q \<or> q < a \<and> span is_space s q a) \<and>
       (\<exists>d1. (\<exists>h. (\<exists>K \<in> set FORMS. (d1, h) \<in> set (rmatch (branch K) s (a, []))) \<and> g' = (stmt, a, d1) # h)
          \<and> d1 < length s \<and> s ! d1 = FULL_STOP \<and> e = Suc d1))"
      by blast
  qed
  finally show ?thesis unfolding r .
qed


section \<open>Two matches that share a character are one\<close>

lemma forms_letters:
  assumes "(kw, conn, gv, gt) \<in> set FORMS"
  shows "kw \<noteq> []" "conn \<noteq> []" "set kw \<subseteq> set KEY_LETTERS" "set conn \<subseteq> set KEY_LETTERS"
  using assms by (auto simp: FORMS_def KEY_LETTERS_def)

lemma ci_at_word:
  assumes "ci_at s i w" and up: "set w \<subseteq> set KEY_LETTERS"
  shows "span is_word s i (i + length w)"
  unfolding span_iff
proof (intro conjI allI impI)
  from assms(1) show "i + length w \<le> length s" by (simp add: ci_at_iff)
next
  fix k assume k: "i \<le> k \<and> k < i + length w"
  then have lt: "k - i < length w" by auto
  with assms(1) have "s ! (i + (k - i)) \<in> set (accepts (w ! (k - i)))"
    unfolding ci_at_iff by blast
  with k have eq: "s ! k \<in> set (accepts (w ! (k - i)))" by simp
  from lt up have "w ! (k - i) \<in> set KEY_LETTERS" by auto
  from accepted_letter(1) [OF this eq] show "is_word (s ! k)" .
qed simp

lemma shaped_skel:
  assumes "(kw, conn, gv, gt) \<in> set FORMS" "shaped s (kw, conn, gv, gt) a b0 b1 c d0 d1"
  shows "skel s a (a + length kw) b0 b1 c (c + length conn) d0 d1"
  using assms forms_letters [OF assms(1)] ci_at_word
  by (simp add: shaped_def skel_def)

lemma run_start_unique:
  assumes "span P s i j" "span P s i' j"
    and "i = 0 \<or> \<not> P (s ! (i - 1))" and "i' = 0 \<or> \<not> P (s ! (i' - 1))"
  shows "i = i'"
proof (rule ccontr)
  assume ne: "i \<noteq> i'"
  show False
  proof (cases "i < i'")
    case True
    with assms(2) have "i \<le> i' - 1 \<and> i' - 1 < j" by (auto simp: span_iff)
    with assms(1) have "P (s ! (i' - 1))" unfolding span_iff by blast
    with assms(4) True show False by auto
  next
    case False
    with ne have lt: "i' < i" by simp
    with assms(1) have "i' \<le> i - 1 \<and> i - 1 < j" by (auto simp: span_iff)
    with assms(2) have "P (s ! (i - 1))" unfolding span_iff by blast
    with assms(3) lt show False by auto
  qed
qed

lemma span_last: "span P s i j \<Longrightarrow> i < j \<Longrightarrow> P (s ! (j - 1))"
  unfolding span_iff by auto

lemma skel_unique:
  assumes 1: "skel s a a1 b0 b1 c c1 d0 d1" and 2: "skel s a' a1' b0' b1' c' c1' d0' d1"
    and p: "a = 0 \<or> is_space (s ! (a - 1))" and p': "a' = 0 \<or> is_space (s ! (a' - 1))"
  shows "a = a' \<and> a1 = a1' \<and> b0 = b0' \<and> b1 = b1' \<and> c = c' \<and> c1 = c1' \<and> d0 = d0'"
proof -
  have sw: "\<And>x. is_space x \<Longrightarrow> \<not> is_word x" by (rule space_not_word)
  have ws: "\<And>x. is_word x \<Longrightarrow> \<not> is_space x" using space_not_word by blast
  from 1 2 have d0: "d0 = d0'"
    by (intro run_start_unique [of is_word s d0 d1 d0']) (auto simp: skel_def dest!: span_last sw)
  from 1 2 have c1: "c1 = c1'" unfolding d0 [symmetric]
    by (intro run_start_unique [of is_space s c1 d0 c1']) (auto simp: skel_def dest!: span_last ws)
  from 1 2 have c: "c = c'" unfolding c1 [symmetric]
    by (intro run_start_unique [of is_word s c c1 c']) (auto simp: skel_def dest!: span_last sw)
  from 1 2 have b1: "b1 = b1'" unfolding c [symmetric]
    by (intro run_start_unique [of is_space s b1 c b1']) (auto simp: skel_def dest!: span_last ws)
  from 1 2 have b0: "b0 = b0'" unfolding b1 [symmetric]
    by (intro run_start_unique [of is_word s b0 b1 b0']) (auto simp: skel_def dest!: span_last sw)
  from 1 2 have a1: "a1 = a1'" unfolding b0 [symmetric]
    by (intro run_start_unique [of is_space s a1 b0 a1']) (auto simp: skel_def dest!: span_last ws)
  from 1 2 p p' have a: "a = a'" unfolding a1 [symmetric]
    by (intro run_start_unique [of is_word s a a1 a']) (auto simp: skel_def dest!: sw)
  from d0 c1 c b1 b0 a1 a show ?thesis by simp
qed

lemma skel_cover:
  assumes "skel s a a1 b0 b1 c c1 d0 d1" "a \<le> k" "k < d1"
  shows "is_space (s ! k) \<or> is_word (s ! k)"
proof -
  from assms(2,3) consider "a \<le> k \<and> k < a1" | "a1 \<le> k \<and> k < b0" | "b0 \<le> k \<and> k < b1"
    | "b1 \<le> k \<and> k < c" | "c \<le> k \<and> k < c1" | "c1 \<le> k \<and> k < d0" | "d0 \<le> k \<and> k < d1"
    by linarith
  then show ?thesis
    using assms(1) unfolding skel_def span_iff by cases blast+
qed

lemma accepts_S_M: "c \<in> set (accepts (CHR ''S'')) \<Longrightarrow> c \<in> set (accepts (CHR ''M'')) \<Longrightarrow> False"
proof -
  have "list_all (\<lambda>c. c \<notin> set (accepts (CHR ''M''))) (accepts (CHR ''S''))" by code_simp
  then show "c \<in> set (accepts (CHR ''S'')) \<Longrightarrow> c \<in> set (accepts (CHR ''M'')) \<Longrightarrow> False"
    by (simp add: list_all_iff)
qed

text \<open>The text at an offset fits the keyword of one form only.\<close>

lemma forms_unique:
  assumes K: "(kw, conn, gv, gt) \<in> set FORMS" and K': "(kw', conn', gv', gt') \<in> set FORMS"
    and len: "length kw = length kw'" and ci: "ci_at s a kw" "ci_at s a kw'"
  shows "kw = kw' \<and> conn = conn' \<and> gv = gv' \<and> gt = gt'"
proof -
  from K consider "kw = ''ADD''" | "kw = ''SUBTRACT''" | "kw = ''MULTIPLY''" | "kw = ''DIVIDE''"
    by (auto simp: FORMS_def)
  then show ?thesis
  proof cases
    case 1
    with K K' len show ?thesis by (auto simp: FORMS_def)
  next
    case 2
    with K' len consider "kw' = ''SUBTRACT''" | "kw' = ''MULTIPLY''" by (auto simp: FORMS_def)
    then show ?thesis
    proof cases
      case 1
      with 2 K K' show ?thesis by (auto simp: FORMS_def)
    next
      case m: 2
      from ci 2 m have "s ! a \<in> set (accepts (CHR ''S''))" "s ! a \<in> set (accepts (CHR ''M''))"
        by (simp_all add: ci_at_Cons)
      then show ?thesis using accepts_S_M by blast
    qed
  next
    case 3
    with K' len consider "kw' = ''SUBTRACT''" | "kw' = ''MULTIPLY''" by (auto simp: FORMS_def)
    then show ?thesis
    proof cases
      case 1
      from ci 3 1 have "s ! a \<in> set (accepts (CHR ''S''))" "s ! a \<in> set (accepts (CHR ''M''))"
        by (simp_all add: ci_at_Cons)
      then show ?thesis using accepts_S_M by blast
    next
      case 2
      with 3 K K' show ?thesis by (auto simp: FORMS_def)
    qed
  next
    case 4
    with K K' len show ?thesis by (auto simp: FORMS_def)
  qed
qed

lemma fits_before:
  assumes "bol s q" "a = q \<or> (q < a \<and> span is_space s q a)"
  shows "a = 0 \<or> is_space (s ! (a - 1))"
  using assms NL_space by (auto simp: bol_def dest: span_last)

lemma fits_overlap:
  assumes f: "fits s q r" and f': "fits s q' r'" and le: "q \<le> q'" and lt: "q' < fst r"
  shows "r = r'"
proof -
  from f obtain kw conn gv gt a b0 b1 c d0 d1 where
    K: "(kw, conn, gv, gt) \<in> set FORMS" and b: "bol s q" and a: "a = q \<or> (q < a \<and> span is_space s q a)"
    and sh: "shaped s (kw, conn, gv, gt) a b0 b1 c d0 d1" and d: "d1 < length s" "s ! d1 = FULL_STOP"
    and r: "r = (Suc d1, [(stmt, a, d1), (gt, d0, d1), (gv, b0, b1)])"
    unfolding fits_def by blast
  from f' obtain kw' conn' gv' gt' a' b0' b1' c' d0' d1' where
    K': "(kw', conn', gv', gt') \<in> set FORMS" and b': "bol s q'"
    and a': "a' = q' \<or> (q' < a' \<and> span is_space s q' a')"
    and sh': "shaped s (kw', conn', gv', gt') a' b0' b1' c' d0' d1'"
    and d': "d1' < length s" "s ! d1' = FULL_STOP"
    and r': "r' = (Suc d1', [(stmt, a', d1'), (gt', d0', d1'), (gv', b0', b1')])"
    unfolding fits_def by blast
  note sk = shaped_skel [OF K sh] and sk' = shaped_skel [OF K' sh']
  have cover: "is_space (s ! k) \<or> is_word (s ! k)" if "q \<le> k" "k < d1" for k
  proof (cases "k < a")
    case True
    with a that show ?thesis by (auto simp: span_iff)
  next
    case False
    with that skel_cover [OF sk] show ?thesis by simp
  qed
  have cover': "is_space (s ! k) \<or> is_word (s ! k)" if "q' \<le> k" "k < d1'" for k
  proof (cases "k < a'")
    case True
    with a' that show ?thesis by (auto simp: span_iff)
  next
    case False
    with that skel_cover [OF sk'] show ?thesis by simp
  qed
  have qa: "q \<le> a" "q' \<le> a'" using a a' by auto
  have ad: "a < d1" "a' < d1'" using sk sk' by (auto simp: skel_def)
  from lt r have q'd: "q' \<le> d1" by simp
  have "d1 = d1'"
  proof (rule ccontr)
    assume "d1 \<noteq> d1'"
    then consider "d1 < d1'" | "d1' < d1" by linarith
    then show False
    proof cases
      case 1
      with q'd cover' [of d1] d(2) dot_class show False by auto
    next
      case 2
      moreover from le qa ad have "q \<le> d1'" by linarith
      ultimately show False using cover [of d1'] d'(2) dot_class by auto
    qed
  qed
  with sk' have sk'': "skel s a' (a' + length kw') b0' b1' c' (c' + length conn') d0' d1" by simp
  from skel_unique [OF sk sk'' fits_before [OF b a] fits_before [OF b' a']]
  have eqs: "a = a'" "a + length kw = a' + length kw'" "b0 = b0'" "b1 = b1'" "d0 = d0'"
    by simp_all
  then have len: "length kw = length kw'" by simp
  from sh sh' eqs(1) have ci: "ci_at s a kw" "ci_at s a kw'" by (simp_all add: shaped_def)
  from forms_unique [OF K K' len ci] eqs \<open>d1 = d1'\<close> r r' show ?thesis by simp
qed

lemma fits_nonempty: "fits s q r \<Longrightarrow> q < fst r \<and> fst r \<le> length s"
  unfolding fits_def shaped_def by auto


section \<open>Search and iteration\<close>

lemma match_at_Some:
  "match_at ARITH_RE s q = Some m \<Longrightarrow> m_start m = q \<and> fits s q (m_end m, m_groups m)"
  unfolding arith_iff [symmetric] by (auto simp: match_at_def split: list.splits)

lemma match_at_None: "match_at ARITH_RE s q = None \<longleftrightarrow> (\<forall>r. \<not> fits s q r)"
  unfolding arith_iff [symmetric] by (auto simp: match_at_def split: list.splits)

lemma first_match_None:
  "first_match r s qs = None \<longleftrightarrow> (\<forall>q \<in> set qs. match_at r s q = None)"
  by (induction qs) (auto split: option.splits)

lemma first_match_Some:
  "first_match r s qs = Some m \<Longrightarrow>
     \<exists>xs q ys. qs = xs @ q # ys \<and> (\<forall>x \<in> set xs. match_at r s x = None) \<and> match_at r s q = Some m"
proof (induction qs)
  case Nil
  then show ?case by simp
next
  case (Cons q qs)
  show ?case
  proof (cases "match_at r s q")
    case None
    with Cons obtain xs q' ys where "qs = xs @ q' # ys" "\<forall>x \<in> set xs. match_at r s x = None"
      "match_at r s q' = Some m" by auto
    with None have "q # qs = (q # xs) @ q' # ys \<and> (\<forall>x \<in> set (q # xs). match_at r s x = None)
      \<and> match_at r s q' = Some m" by simp
    then show ?thesis by blast
  next
    case (Some m')
    with Cons.prems have "q # qs = [] @ q # qs \<and> (\<forall>x \<in> set []. match_at r s x = None)
      \<and> match_at r s q = Some m" by simp
    then show ?thesis by blast
  qed
qed

lemma upt_split:
  assumes "[p ..< n] = xs @ q # ys"
  shows "p \<le> q \<and> q < n \<and> set xs = {p ..< q}"
proof -
  have len: "length xs < n - p" using arg_cong [OF assms, of length] by simp
  have "q = [p ..< n] ! length xs" unfolding assms by simp
  with len have q: "q = p + length xs" by simp
  have "xs = take (length xs) [p ..< n]" unfolding assms by simp
  also have "\<dots> = [p ..< p + length xs]" using len by (simp add: take_upt)
  finally have "set xs = {p ..< q}" using q by (metis atLeastLessThan_upt)
  with q len show ?thesis by simp
qed

lemma search_Some:
  assumes "search r s p = Some m"
  shows "\<exists>q. p \<le> q \<and> q \<le> length s \<and> match_at r s q = Some m
           \<and> (\<forall>x. p \<le> x \<and> x < q \<longrightarrow> match_at r s x = None)"
proof -
  from assms obtain xs q ys where qs: "[p ..< Suc (length s)] = xs @ q # ys"
    and none: "\<forall>x \<in> set xs. match_at r s x = None" and some: "match_at r s q = Some m"
    unfolding search_def using first_match_Some by blast
  from upt_split [OF qs] none some show ?thesis by auto
qed

lemma search_None: "search r s p = None \<longleftrightarrow> (\<forall>q. p \<le> q \<and> q \<le> length s \<longrightarrow> match_at r s q = None)"
  by (auto simp: search_def first_match_None)

lemma match_at_start: "match_at r s q = Some m \<Longrightarrow> m_start m = q"
  by (auto simp: match_at_def split: list.splits)

lemma rmatch_mono: "(e, g') \<in> set (rmatch r s (i, g)) \<Longrightarrow> i \<le> e"
proof (induction r arbitrary: i g e g')
  case (Seq a b)
  then obtain k h where "(k, h) \<in> set (rmatch a s (i, g))" "(e, g') \<in> set (rmatch b s (k, h))"
    by auto
  with Seq.IH show ?case by (meson le_trans)
qed (auto split: if_splits)

lemma match_at_le: "match_at r s q = Some m \<Longrightarrow> m_start m \<le> m_end m"
proof -
  assume a: "match_at r s q = Some m"
  then obtain e g rest where "rmatch r s (q, []) = (e, g) # rest" "m = \<lparr>m_start = q, m_end = e, m_groups = g\<rparr>"
    by (auto simp: match_at_def split: list.splits)
  moreover from this have "(e, g) \<in> set (rmatch r s (q, []))" by simp
  ultimately show ?thesis using rmatch_mono by fastforce
qed

text \<open>The matches of finditer lie from the starting offset on, left to right, without overlap.\<close>

lemma finditer_from: "m \<in> set (finditer r s p) \<Longrightarrow> p \<le> m_start m \<and> m_start m \<le> m_end m"
proof (induction r s p rule: finditer.induct)
  case (1 r s p)
  show ?case
  proof (cases "search r s p")
    case None
    with "1.prems" show ?thesis by (simp add: finditer.simps)
  next
    case (Some m')
    from search_Some [OF Some] obtain q where q: "p \<le> q" "match_at r s q = Some m'" by blast
    then have m': "p \<le> m_start m'" "m_start m' \<le> m_end m'"
      using match_at_start match_at_le by fastforce+
    from "1.prems" Some have "m = m' \<or>
        m \<in> set (finditer r s (if m_start m' < m_end m' then m_end m' else Suc (m_end m')))"
      by (simp add: finditer.simps [of r s p])
    then show ?thesis
    proof
      assume "m = m'" with m' show ?thesis by simp
    next
      assume "m \<in> set (finditer r s (if m_start m' < m_end m' then m_end m' else Suc (m_end m')))"
      from "1.IH" [OF Some this] m' show ?thesis by (auto split: if_splits)
    qed
  qed
qed

lemma finditer_sorted: "sorted_wrt (\<lambda>x y. m_end x \<le> m_start y) (finditer r s p)"
proof (induction r s p rule: finditer.induct)
  case (1 r s p)
  show ?case
  proof (cases "search r s p")
    case None
    then show ?thesis by (simp add: finditer.simps)
  next
    case (Some m')
    let ?p = "if m_start m' < m_end m' then m_end m' else Suc (m_end m')"
    have "\<forall>y \<in> set (finditer r s ?p). m_end m' \<le> m_start y"
    proof
      fix y assume "y \<in> set (finditer r s ?p)"
      from finditer_from [OF this] show "m_end m' \<le> m_start y" by (simp split: if_splits)
    qed
    with "1.IH" [OF Some] Some show ?thesis by (simp add: finditer.simps [of r s p])
  qed
qed

lemma finditer_fits:
  "m \<in> set (finditer ARITH_RE s p) \<Longrightarrow> fits s (m_start m) (m_end m, m_groups m)"
proof (induction ARITH_RE s p rule: finditer.induct)
  case (1 s p)
  show ?case
  proof (cases "search ARITH_RE s p")
    case None
    with "1.prems" show ?thesis by (simp add: finditer.simps)
  next
    case (Some m')
    from search_Some [OF Some] obtain q where "match_at ARITH_RE s q = Some m'" by blast
    then have m': "fits s (m_start m') (m_end m', m_groups m')" using match_at_Some by blast
    from "1.prems" Some have "m = m' \<or>
        m \<in> set (finditer ARITH_RE s (if m_start m' < m_end m' then m_end m' else Suc (m_end m')))"
      by (simp add: finditer.simps [of ARITH_RE s p])
    then show ?thesis using m' "1.hyps" [OF Some] by blast
  qed
qed

text \<open>A statement that fits at a line start is found by finditer, from any offset up to that
  line start.\<close>

lemma finditer_finds:
  assumes "fits s q' r'" "p \<le> q'"
  shows "\<exists>m \<in> set (finditer ARITH_RE s p). (m_end m, m_groups m) = r'"
  using assms
proof (induction ARITH_RE s p rule: finditer.induct)
  case (1 s p)
  from fits_nonempty [OF "1.prems"(1)] have q's: "q' \<le> length s" by simp
  show ?case
  proof (cases "search ARITH_RE s p")
    case None
    with "1.prems" q's have "match_at ARITH_RE s q' = None" by (simp add: search_None)
    with "1.prems"(1) show ?thesis by (cases r') (simp add: match_at_None)
  next
    case (Some m)
    let ?p = "if m_start m < m_end m then m_end m else Suc (m_end m)"
    from search_Some [OF Some] obtain q where q: "p \<le> q" "match_at ARITH_RE s q = Some m"
      and first: "\<forall>x. p \<le> x \<and> x < q \<longrightarrow> match_at ARITH_RE s x = None" by blast
    from match_at_Some [OF q(2)] have m: "m_start m = q" "fits s q (m_end m, m_groups m)" by simp_all
    have qq': "q \<le> q'"
    proof (rule ccontr)
      assume "\<not> q \<le> q'"
      with first "1.prems"(2) have "match_at ARITH_RE s q' = None" by simp
      with "1.prems"(1) show False by (cases r') (simp add: match_at_None)
    qed
    from fits_nonempty [OF m(2)] m(1) have ne: "m_start m < m_end m" by simp
    have fi: "finditer ARITH_RE s p = m # finditer ARITH_RE s ?p"
      using Some by (simp add: finditer.simps [of ARITH_RE s p])
    show ?thesis
    proof (cases "q' < m_end m")
      case True
      with fits_overlap [OF m(2) "1.prems"(1) qq'] have "(m_end m, m_groups m) = r'" by simp
      with fi show ?thesis by simp
    next
      case False
      with ne have "?p \<le> q'" by simp
      from "1.hyps" [OF Some "1.prems"(1) this] fi show ?thesis by simp
    qed
  qed
qed


section \<open>The loop body on a match\<close>

lemma strip_id:
  assumes "xs \<noteq> []" "\<not> is_space (hd xs)" "\<not> is_space (last xs)"
  shows "strip xs = xs"
proof -
  from assms(1,2) have 1: "dropWhile is_space xs = xs" by (cases xs) auto
  from assms(1,3) have 2: "dropWhile is_space (rev xs) = rev xs"
    by (cases "rev xs") (auto simp: last_rev [symmetric] simp del: last_rev)
  show ?thesis by (simp add: strip_def 1 2)
qed

lemma slice_length: "j \<le> length s \<Longrightarrow> length (slice s i j) = j - i"
  by (simp add: slice_def)

lemma slice_nth: "j \<le> length s \<Longrightarrow> k < j - i \<Longrightarrow> slice s i j ! k = s ! (i + k)"
  by (simp add: slice_def)

lemma slice_append: "i \<le> k \<Longrightarrow> k \<le> j \<Longrightarrow> slice s i j = slice s i k @ slice s k j"
proof -
  assume a: "i \<le> k" "k \<le> j"
  then have "j - i = (k - i) + (j - k)" by simp
  then have "take (j - i) (drop i s) = take (k - i) (drop i s) @ take (j - k) (drop (k - i) (drop i s))"
    by (simp only: take_add)
  with a show ?thesis by (simp add: slice_def)
qed

lemma slice_hd_last:
  assumes "i < j" "j \<le> length s"
  shows "slice s i j \<noteq> []" "hd (slice s i j) = s ! i" "last (slice s i j) = s ! (j - 1)"
proof -
  from assms have len: "length (slice s i j) = j - i" by (simp add: slice_length)
  with assms show ne: "slice s i j \<noteq> []" by auto
  from ne have "hd (slice s i j) = slice s i j ! 0" by (simp add: hd_conv_nth)
  with assms show "hd (slice s i j) = s ! i" by (simp add: slice_nth)
  from ne have "last (slice s i j) = slice s i j ! (j - i - 1)" by (simp add: last_conv_nth len)
  with assms show "last (slice s i j) = s ! (j - 1)" by (simp add: slice_nth)
qed

lemma of_char_int_lt: "(of_char (p :: char) :: int) < 256"
  by (cases p) simp

lemma upper_singles:
  assumes "list_all2 (\<lambda>c p. upper_char c = [g c p]) ks w"
  shows "upper ks = map (\<lambda>(c, p). g c p) (zip ks w)"
  using assms unfolding upper_def by (induction rule: list_all2_induct) simp_all

text \<open>The upper case of a text that the literals of a keyword accept: the keyword, but
  for U+0130 where it stands in the text.\<close>

lemma upper_keyword:
  assumes ci: "ci_at s a kw" and up: "set kw \<subseteq> set KEY_LETTERS"
  shows "upper (slice s a (a + length kw)) =
     map (\<lambda>(c, p). if c = 304 then 304 else of_char p) (zip (slice s a (a + length kw)) kw)"
proof (rule upper_singles)
  from ci have "list_all2 (\<lambda>c p. c \<in> set (accepts p)) (slice s a (a + length kw)) kw"
    by (simp add: ci_at_def)
  then show "list_all2 (\<lambda>c p. upper_char c = [if c = 304 then 304 else of_char p])
      (slice s a (a + length kw)) kw"
  proof (rule list.rel_mono_strong)
    fix c p assume "p \<in> set kw" "c \<in> set (accepts p)"
    with up show "upper_char c = [if c = 304 then 304 else of_char p]"
      using accepted_letter(4) by blast
  qed
qed

lemma upper_keyword_eq:
  assumes ci: "ci_at s a kw" and up: "set kw \<subseteq> set KEY_LETTERS"
  shows "upper (slice s a (a + length kw)) = cps kw \<longleftrightarrow> 304 \<notin> set (slice s a (a + length kw))"
proof -
  let ?ks = "slice s a (a + length kw)"
  from ci have len: "length ?ks = length kw" by (simp add: ci_at_iff slice_length)
  have "upper ?ks = cps kw \<longleftrightarrow>
      (\<forall>k < length kw. (if ?ks ! k = 304 then 304 else of_char (kw ! k)) = (of_char (kw ! k) :: int))"
    unfolding upper_keyword [OF ci up] cps_def using len by (simp add: list_eq_iff_nth_eq)
  also have "\<dots> \<longleftrightarrow> (\<forall>k < length kw. ?ks ! k \<noteq> 304)"
  proof -
    have ne: "(304 :: int) \<noteq> of_char p" for p :: char using of_char_int_lt [of p] by simp
    show ?thesis by (auto simp add: ne)
  qed
  also have "\<dots> \<longleftrightarrow> 304 \<notin> set ?ks"
    using len by (auto simp: in_set_conv_nth)
  finally show ?thesis .
qed


lemma startswith_same_length: "length U = length p \<Longrightarrow> startswith (U @ rest) p \<longleftrightarrow> U = p"
  by (simp add: startswith_def)

lemma startswith_hd:
  assumes "startswith (U @ rest) p" "U \<noteq> []" "p \<noteq> []"
  shows "hd U = hd p"
proof -
  from assms(2,3) obtain x xs y ys where "U = x # xs" "p = y # ys"
    by (cases U; cases p) auto
  with assms(1) show ?thesis by (simp add: startswith_def)
qed

lemma forms_keyword:
  assumes "(kw, conn, gv, gt) \<in> set FORMS"
  shows "kw = ''ADD'' \<or> kw = ''SUBTRACT'' \<or> kw = ''MULTIPLY'' \<or> kw = ''DIVIDE''"
  using assms by (auto simp: FORMS_def)

lemma forms_first_letter:
  assumes "(kw, conn, gv, gt) \<in> set FORMS" "(kw', conn', gv', gt') \<in> set FORMS"
    and "(of_char (hd kw) :: int) = hd (cps kw')"
  shows "kw' = kw"
  using forms_keyword [OF assms(1)] forms_keyword [OF assms(2)] assms(3)
  by (elim disjE) (simp_all add: cps_def)


lemma forms_not_I:
  assumes "(kw, conn, gv, gt) \<in> set FORMS"
  shows "hd kw \<noteq> CHR ''I''" "hd kw \<in> set KEY_LETTERS"
  using assms by (auto simp: FORMS_def KEY_LETTERS_def)

text \<open>The tests of the loop body on a text whose upper case begins like a keyword.\<close>

lemma startswith_form:
  assumes K: "(kw, conn, gv, gt) \<in> set FORMS" and K': "(kw', conn', gv', gt') \<in> set FORMS"
    and U: "length U = length kw" "U \<noteq> []" "hd U = of_char (hd kw)"
  shows "startswith (U @ rest) (cps kw') \<longleftrightarrow> kw' = kw \<and> U = cps kw"
proof (cases "kw' = kw")
  case True
  with U(1) show ?thesis by (simp add: startswith_same_length cps_def)
next
  case False
  from K' have "cps kw' \<noteq> []" by (auto simp: FORMS_def cps_def)
  with startswith_hd [of U rest "cps kw'"] U forms_first_letter [OF K K'] False
  show ?thesis by auto
qed

lemma FORMS_mem:
  "(''ADD'', ''TO'', add_val, add_target) \<in> set FORMS"
  "(''SUBTRACT'', ''FROM'', sub_val, sub_target) \<in> set FORMS"
  "(''MULTIPLY'', ''BY'', mul_val, mul_target) \<in> set FORMS"
  "(''DIVIDE'', ''BY'', div_val, div_target) \<in> set FORMS"
  by (simp_all add: FORMS_def)

lemma classify_form:
  assumes K: "(kw, conn, gv, gt) \<in> set FORMS"
    and st: "upper st = U @ rest"
    and U: "length U = length kw" "U \<noteq> []" "hd U = of_char (hd kw)"
  shows "classify s m st =
     (if U = cps kw then Some (cps kw, m_group s m gv, m_group s m gt) else None)"
proof -
  note sw = startswith_form [OF K _ U, of _ _ _ _ rest, folded st]
  have a: "startswith (upper st) (cps ''ADD'') \<longleftrightarrow> ''ADD'' = kw \<and> U = cps kw"
    by (rule sw [OF FORMS_mem(1)])
  have b: "startswith (upper st) (cps ''SUBTRACT'') \<longleftrightarrow> ''SUBTRACT'' = kw \<and> U = cps kw"
    by (rule sw [OF FORMS_mem(2)])
  have c: "startswith (upper st) (cps ''MULTIPLY'') \<longleftrightarrow> ''MULTIPLY'' = kw \<and> U = cps kw"
    by (rule sw [OF FORMS_mem(3)])
  have d: "startswith (upper st) (cps ''DIVIDE'') \<longleftrightarrow> ''DIVIDE'' = kw \<and> U = cps kw"
    by (rule sw [OF FORMS_mem(4)])
  from K consider "kw = ''ADD'' \<and> gv = add_val \<and> gt = add_target"
    | "kw = ''SUBTRACT'' \<and> gv = sub_val \<and> gt = sub_target"
    | "kw = ''MULTIPLY'' \<and> gv = mul_val \<and> gt = mul_target"
    | "kw = ''DIVIDE'' \<and> gv = div_val \<and> gt = div_target"
    by (auto simp: FORMS_def)
  then show ?thesis
    unfolding classify_def a b c d by cases simp_all
qed

lemma operators_form:
  assumes "(kw, conn, gv, gt) \<in> set FORMS"
  shows "\<exists>op. OPERATORS (cps kw) = Some op \<and>
     (cps kw, op) \<in> set [(cps ''ADD'', cps ''+=''), (cps ''SUBTRACT'', cps ''-=''),
        (cps ''MULTIPLY'', cps ''*=''), (cps ''DIVIDE'', cps ''/='')]"
proof -
  from assms consider "kw = ''ADD''" | "kw = ''SUBTRACT''" | "kw = ''MULTIPLY''" | "kw = ''DIVIDE''"
    by (auto simp: FORMS_def)
  then show ?thesis by cases (simp_all add: OPERATORS_def cps_def)
qed

lemma forms_groups:
  assumes "(kw, conn, gv, gt) \<in> set FORMS"
  shows "gv \<noteq> stmt" "gt \<noteq> stmt" "gv \<noteq> gt"
  using assms by (auto simp: FORMS_def)

lemma make_finding_eq:
  "OPERATORS ty = Some op \<Longrightarrow>
     make_finding u s st en ty val tgt tx = Inr (finding_of u s st ty op (fmt val) (fmt tgt) tx)"
  by (simp add: make_finding_def finding_of_def Let_def)

text \<open>What one turn of the loop does with a match of the pattern.\<close>

lemma scan_match_shaped:
  assumes K: "(kw, conn, gv, gt) \<in> set FORMS"
    and sh: "shaped s (kw, conn, gv, gt) a b0 b1 c d0 d1" and d: "d1 < length s"
    and g: "m_groups m = [(stmt, a, d1), (gt, d0, d1), (gv, b0, b1)]"
  shows "m_group s m stmt = Some (slice s a d1)"
    and "m_group s m gv = Some (slice s b0 b1)"
    and "m_group s m gt = Some (slice s d0 d1)"
    and "strip (slice s a d1) = slice s a d1"
    and "classify s m (slice s a d1) =
      (if 304 \<in> set (slice s a (a + length kw)) then None
       else Some (cps kw, Some (slice s b0 b1), Some (slice s d0 d1)))"
    and "\<exists>op. (cps kw, op) \<in> set [(cps ''ADD'', cps ''+=''), (cps ''SUBTRACT'', cps ''-=''),
            (cps ''MULTIPLY'', cps ''*=''), (cps ''DIVIDE'', cps ''/='')]
          \<and> scan_match u s m =
            (if 304 \<in> set (slice s a (a + length kw)) then Inr None
             else Inr (Some (finding_of u s (m_start m) (cps kw) op (slice s b0 b1)
                    (slice s d0 d1) (slice s a d1))))"
proof -
  note sk = shaped_skel [OF K sh]
  note L = forms_letters [OF K]
  let ?ks = "slice s a (a + length kw)"
  from sh have ci: "ci_at s a kw" by (simp add: shaped_def)
  from sk have ord: "a < a + length kw" "a + length kw < d1" "a < d1" "d0 < d1"
    by (auto simp: skel_def)
  from g forms_groups [OF K] show grp: "m_group s m stmt = Some (slice s a d1)"
    and grp': "m_group s m gv = Some (slice s b0 b1)" "m_group s m gt = Some (slice s d0 d1)"
    by (simp_all add: m_group_def)
  from sk ord have "is_word (s ! a)" "is_word (s ! (d1 - 1))"
    by (auto simp: skel_def span_iff)
  then have "\<not> is_space (s ! a)" "\<not> is_space (s ! (d1 - 1))" using space_not_word by blast+
  with slice_hd_last [OF ord(3)] d show st: "strip (slice s a d1) = slice s a d1"
    by (intro strip_id) simp_all
  from ord have "slice s a d1 = ?ks @ slice s (a + length kw) d1"
    by (intro slice_append) simp_all
  then have up: "upper (slice s a d1) = upper ?ks @ upper (slice s (a + length kw) d1)"
    by (simp add: upper_def)
  from ci have len: "length ?ks = length kw" by (simp add: ci_at_iff slice_length)
  have ulen: "length (upper ?ks) = length kw"
    unfolding upper_keyword [OF ci L(3)] using len by simp
  with L(1) have une: "upper ?ks \<noteq> []" by auto
  from ci L(1) have first: "s ! a \<in> set (accepts (hd kw))"
    by (cases kw) (simp_all add: ci_at_Cons)
  have "s ! a \<noteq> 304" using first accepted_304 forms_not_I [OF K] by metis
  moreover from L(1) len ord d have "?ks ! 0 = s ! a" by (simp add: slice_nth)
  moreover from L(1) len have "hd (upper ?ks) = upper ?ks ! 0" "hd kw = kw ! 0"
    using une by (simp_all add: hd_conv_nth)
  ultimately have uhd: "hd (upper ?ks) = of_char (hd kw)"
    unfolding upper_keyword [OF ci L(3)] using L(1) len by simp
  from classify_form [OF K up ulen une uhd] grp' upper_keyword_eq [OF ci L(3)]
  show cl: "classify s m (slice s a d1) =
      (if 304 \<in> set ?ks then None
       else Some (cps kw, Some (slice s b0 b1), Some (slice s d0 d1)))"
    by simp
  from operators_form [OF K] obtain op where op: "OPERATORS (cps kw) = Some op"
    and tab: "(cps kw, op) \<in> set [(cps ''ADD'', cps ''+=''), (cps ''SUBTRACT'', cps ''-=''),
            (cps ''MULTIPLY'', cps ''*=''), (cps ''DIVIDE'', cps ''/='')]" by blast
  have "scan_match u s m =
            (if 304 \<in> set ?ks then Inr None
             else Inr (Some (finding_of u s (m_start m) (cps kw) op (slice s b0 b1)
                    (slice s d0 d1) (slice s a d1))))"
    by (simp add: scan_match_def grp st cl Let_def make_finding_eq [OF op] fmt_def)
  with tab show "\<exists>op. (cps kw, op) \<in> set [(cps ''ADD'', cps ''+=''), (cps ''SUBTRACT'', cps ''-=''),
            (cps ''MULTIPLY'', cps ''*=''), (cps ''DIVIDE'', cps ''/='')]
          \<and> scan_match u s m =
            (if 304 \<in> set ?ks then Inr None
             else Inr (Some (finding_of u s (m_start m) (cps kw) op (slice s b0 b1)
                    (slice s d0 d1) (slice s a d1))))"
    by blast
qed


section \<open>The scan, match by match\<close>

text \<open>A match of the pattern either gives a finding, or the loop goes on without one.\<close>

lemma scan_match_fits:
  assumes "fits s (m_start m) (m_end m, m_groups m)"
  shows "(reads_kind s m \<and> (\<exists>f. scan_match u s m = Inr (Some f)))
       \<or> (\<not> reads_kind s m \<and> scan_match u s m = Inr None)"
proof -
  from assms obtain kw conn gv gt a b0 b1 c d0 d1 where
    K: "(kw, conn, gv, gt) \<in> set FORMS"
    and sh: "shaped s (kw, conn, gv, gt) a b0 b1 c d0 d1" and d: "d1 < length s"
    and g: "m_groups m = [(stmt, a, d1), (gt, d0, d1), (gv, b0, b1)]"
    unfolding fits_def by auto
  note sm = scan_match_shaped [OF K sh d g]
  from sm(1) sm(4) sm(5) have rk: "reads_kind s m \<longleftrightarrow> 304 \<notin> set (slice s a (a + length kw))"
    by (simp add: reads_kind_def)
  from sm(6) [of u] rk show ?thesis by auto
qed

lemma scan_loop_filter:
  assumes "\<forall>m \<in> set ms. (reads_kind s m \<and> (\<exists>f. scan_match u s m = Inr (Some f)))
       \<or> (\<not> reads_kind s m \<and> scan_match u s m = Inr None)"
  shows "\<exists>fs. scan_loop u s ms acc = Inr (acc @ fs)
            \<and> list_all2 (\<lambda>m f. scan_match u s m = Inr (Some f)) (filter (reads_kind s) ms) fs"
  using assms
proof (induction ms arbitrary: acc)
  case Nil
  then show ?case by simp
next
  case (Cons m ms)
  from Cons.prems have rest: "\<forall>m \<in> set ms. (reads_kind s m \<and> (\<exists>f. scan_match u s m = Inr (Some f)))
       \<or> (\<not> reads_kind s m \<and> scan_match u s m = Inr None)" by simp
  from Cons.prems consider f where "reads_kind s m" "scan_match u s m = Inr (Some f)"
    | "\<not> reads_kind s m" "scan_match u s m = Inr None" by auto
  then show ?case
  proof cases
    case 1
    from Cons.IH [OF rest, of "acc @ [f]"] obtain fs where
      "scan_loop u s ms (acc @ [f]) = Inr ((acc @ [f]) @ fs)"
      "list_all2 (\<lambda>m f. scan_match u s m = Inr (Some f)) (filter (reads_kind s) ms) fs" by blast
    with 1 have "scan_loop u s (m # ms) acc = Inr (acc @ f # fs)
      \<and> list_all2 (\<lambda>m f. scan_match u s m = Inr (Some f)) (filter (reads_kind s) (m # ms)) (f # fs)"
      by simp
    then show ?thesis by blast
  next
    case 2
    from Cons.IH [OF rest, of acc] obtain fs where
      "scan_loop u s ms acc = Inr (acc @ fs)"
      "list_all2 (\<lambda>m f. scan_match u s m = Inr (Some f)) (filter (reads_kind s) ms) fs" by blast
    with 2 have "scan_loop u s (m # ms) acc = Inr (acc @ fs)
      \<and> list_all2 (\<lambda>m f. scan_match u s m = Inr (Some f)) (filter (reads_kind s) (m # ms)) fs"
      by simp
    then show ?thesis by blast
  qed
qed

text \<open>The scan never fails, and its findings are those of the loop body, one for each
  match the loop body reads a kind from, in order.\<close>

lemma scan_unit_findings:
  "\<exists>fs. list_all2 (\<lambda>m f. scan_match u (code_or_empty u) m = Inr (Some f))
            (filter (reads_kind (code_or_empty u)) (finditer ARITH_RE (code_or_empty u) 0)) fs
        \<and> scan_loop u (code_or_empty u) (finditer ARITH_RE (code_or_empty u) 0) [] = Inr fs
        \<and> scan_unit u = Inr (u\<lparr>findings := (if fs \<noteq> [] then Some fs else None)\<rparr>)"
proof -
  let ?s = "code_or_empty u"
  have "\<forall>m \<in> set (finditer ARITH_RE ?s 0).
       (reads_kind ?s m \<and> (\<exists>f. scan_match u ?s m = Inr (Some f)))
       \<or> (\<not> reads_kind ?s m \<and> scan_match u ?s m = Inr None)"
    using finditer_fits scan_match_fits by blast
  from scan_loop_filter [OF this, of "[]"] obtain fs where
    1: "scan_loop u ?s (finditer ARITH_RE ?s 0) [] = Inr fs"
    and 2: "list_all2 (\<lambda>m f. scan_match u ?s m = Inr (Some f))
       (filter (reads_kind ?s) (finditer ARITH_RE ?s 0)) fs"
    by auto
  from 1 have "scan_unit u = Inr (u\<lparr>findings := (if fs \<noteq> [] then Some fs else None)\<rparr>)"
    by (simp add: scan_unit_def Let_def)
  with 1 2 show ?thesis by blast
qed

lemma finding_of_match:
  assumes m: "m \<in> set (finditer ARITH_RE s p)" and f: "scan_match u s m = Inr (Some f)"
  shows "\<exists>tx kind val tgt op.
     m_group s m stmt = Some tx \<and> strip tx = tx
     \<and> classify s m tx = Some (kind, Some val, Some tgt)
     \<and> (kind, op) \<in> set [(cps ''ADD'', cps ''+=''), (cps ''SUBTRACT'', cps ''-=''),
            (cps ''MULTIPLY'', cps ''*=''), (cps ''DIVIDE'', cps ''/='')]
     \<and> f = finding_of u s (m_start m) kind op val tgt tx"
proof -
  from finditer_fits [OF m] obtain kw conn gv gt a b0 b1 c d0 d1 where
    K: "(kw, conn, gv, gt) \<in> set FORMS"
    and sh: "shaped s (kw, conn, gv, gt) a b0 b1 c d0 d1" and d: "d1 < length s"
    and g: "m_groups m = [(stmt, a, d1), (gt, d0, d1), (gv, b0, b1)]"
    unfolding fits_def by auto
  note sm = scan_match_shaped [OF K sh d g]
  from sm(6) [of u] obtain op where
    tab: "(cps kw, op) \<in> set [(cps ''ADD'', cps ''+=''), (cps ''SUBTRACT'', cps ''-=''),
            (cps ''MULTIPLY'', cps ''*=''), (cps ''DIVIDE'', cps ''/='')]"
    and sc: "scan_match u s m =
            (if 304 \<in> set (slice s a (a + length kw)) then Inr None
             else Inr (Some (finding_of u s (m_start m) (cps kw) op (slice s b0 b1)
                    (slice s d0 d1) (slice s a d1))))"
    by (elim exE conjE)
  from sc f have no: "304 \<notin> set (slice s a (a + length kw))"
    and ff: "f = finding_of u s (m_start m) (cps kw) op (slice s b0 b1) (slice s d0 d1) (slice s a d1)"
    by (simp_all split: if_splits)
  from sm(5) no have cl: "classify s m (slice s a d1)
      = Some (cps kw, Some (slice s b0 b1), Some (slice s d0 d1))" by simp
  show ?thesis
    apply (rule exI [of _ "slice s a d1"], rule exI [of _ "cps kw"], rule exI [of _ "slice s b0 b1"])
    apply (rule exI [of _ "slice s d0 d1"], rule exI [of _ op])
    apply (intro conjI)
        apply (rule sm(1))
       apply (rule sm(4))
      apply (rule cl)
     apply (rule tab)
    apply (rule ff)
    done
qed


section \<open>Statements at the start of a line\<close>

lemma strict_sorted_filter:
  assumes "sorted_wrt (\<lambda>x y. f x < (f y :: nat)) xs" "x \<in> set xs"
  shows "filter (\<lambda>y. f y = f x) xs = [x]"
  using assms
proof (induction xs)
  case Nil
  then show ?case by simp
next
  case (Cons z zs)
  show ?case
  proof (cases "x = z")
    case True
    with Cons.prems(1) have "\<forall>y \<in> set zs. f y \<noteq> f x" by auto
    then have "filter (\<lambda>y. f y = f x) zs = []" by (simp add: filter_empty_conv)
    with True show ?thesis by simp
  next
    case False
    with Cons.prems have in_zs: "x \<in> set zs" and "f z < f x" by auto
    with Cons show ?thesis by auto
  qed
qed

lemma finditer_ends: "sorted_wrt (\<lambda>x y. m_end x < m_end y) (finditer ARITH_RE s p)"
proof (rule sorted_wrt_mono_rel [OF _ finditer_sorted])
  fix x y assume "y \<in> set (finditer ARITH_RE s p)" "m_end x \<le> m_start y"
  with fits_nonempty [OF finditer_fits, of y s p] show "m_end x < m_end y" by simp
qed

lemma slice_mid:
  assumes "s = X @ w @ Y" "i = length X" "j = i + length w"
  shows "slice s i j = w"
  using assms by (simp add: slice_def)

lemma span_mid:
  assumes "s = X @ w @ Y" "i = length X" "j = i + length w" "list_all P w"
  shows "span P s i j"
  using assms by (simp add: span_def slice_def)

lemma ci_mid:
  assumes "s = X @ w @ Y" "i = length X" "list_all2 (\<lambda>c p. c \<in> set (accepts p)) w k"
  shows "ci_at s i k"
proof -
  from assms(3) have len: "length w = length k" by (rule list_all2_lengthD)
  with assms show ?thesis by (simp add: ci_at_def slice_def)
qed

text \<open>
  C1, as amended. Take a statement of one of the four forms: a keyword and its
  connective, each letter spelt with a code point the pattern accepts for it (the letter
  in either case, or one of the few other letters the engine folds onto it), a value and
  a target that are runs of word characters, white space (line breaks included) between
  the four, and a period right after the target. If it stands at the start of a line of
  the text, with nothing but white space (blank lines included) between the start of that
  line and its keyword, then the iteration over the matches yields exactly one match whose
  statement group is the span of this statement; the match ends after the period, and its
  statement text is the statement verbatim. The loop body reads from it the kind, the
  value and the target of the statement, unless the keyword is spelt with the capital
  \<open>I\<close> with a dot above (code point 304): then it reads no kind. What stands before
  the line and after the period does not matter.
\<close>

theorem statement_at_line_start_detected:
  assumes K: "(kind, conn, gv, gt) \<in> set FORMS"
    and kw: "list_all2 (\<lambda>c p. c \<in> set (accepts p)) kw kind"
    and cn: "list_all2 (\<lambda>c p. c \<in> set (accepts p)) cn conn"
    and w1: "w1 \<noteq> []" "list_all is_space w1"
    and w2: "w2 \<noteq> []" "list_all is_space w2"
    and w3: "w3 \<noteq> []" "list_all is_space w3"
    and v: "v \<noteq> []" "list_all is_word v"
    and t: "t \<noteq> []" "list_all is_word t"
    and ind: "list_all is_space ind"
    and pre: "pre = [] \<or> last pre = NL"
    and body: "stm = kw @ w1 @ v @ w2 @ cn @ w3 @ t"
    and src: "src = pre @ ind @ stm @ [FULL_STOP] @ post"
  shows "\<exists>m. filter (\<lambda>m. map_of (m_groups m) stmt
                 = Some (length (pre @ ind), length (pre @ ind @ stm)))
               (finditer ARITH_RE src 0) = [m]
           \<and> m_end m = length (pre @ ind @ stm) + 1
           \<and> m_group src m stmt = Some stm
           \<and> classify src m (strip stm)
               = (if 304 \<in> set kw then None else Some (cps kind, Some v, Some t))"
proof -
  define S where "S = length pre"
  define a where "a = S + length ind"
  define a1 where "a1 = a + length kw"
  define b0 where "b0 = a1 + length w1"
  define b1 where "b1 = b0 + length v"
  define c where "c = b1 + length w2"
  define c1 where "c1 = c + length cn"
  define d0 where "d0 = c1 + length w3"
  define d1 where "d1 = d0 + length t"
  note defs = S_def a_def a1_def b0_def b1_def c_def c1_def d0_def d1_def
  from kw have lk: "length kw = length kind" by (rule list_all2_lengthD)
  from cn have lc: "length cn = length conn" by (rule list_all2_lengthD)
  have s: "src = pre @ ind @ kw @ w1 @ v @ w2 @ cn @ w3 @ t @ [FULL_STOP] @ post"
    using src body by simp
  have d1_len: "d1 < length src" and d1_dot: "src ! d1 = FULL_STOP"
    unfolding s defs by (simp_all add: nth_append)
  have bol: "bol src S"
  proof (cases "pre = []")
    case True
    then show ?thesis by (simp add: bol_def S_def)
  next
    case False
    with pre have "last pre = NL" by simp
    moreover from False have "src ! (S - 1) = last pre"
      unfolding s S_def by (simp add: nth_append last_conv_nth)
    ultimately show ?thesis by (simp add: bol_def S_def s)
  qed
  have sp0: "a = S \<or> (S < a \<and> span is_space src S a)"
  proof (cases "ind = []")
    case True
    then show ?thesis by (simp add: a_def)
  next
    case False
    have "span is_space src S a"
      by (rule span_mid [of src pre ind _ S a is_space]) (simp_all add: s defs ind)
    with False show ?thesis by (simp add: a_def)
  qed
  have ci1: "ci_at src a kind"
    by (rule ci_mid [of src "pre @ ind" kw _ a kind]) (simp_all add: s defs kw)
  have ci2: "ci_at src c conn"
    by (rule ci_mid [of src "pre @ ind @ kw @ w1 @ v @ w2" cn _ c conn]) (simp_all add: s defs cn)
  have sp1: "span is_space src a1 b0"
    by (rule span_mid [of src "pre @ ind @ kw" w1 _ a1 b0 is_space]) (simp_all add: s defs w1)
  have sp2: "span is_word src b0 b1"
    by (rule span_mid [of src "pre @ ind @ kw @ w1" v _ b0 b1 is_word]) (simp_all add: s defs v)
  have sp3: "span is_space src b1 c"
    by (rule span_mid [of src "pre @ ind @ kw @ w1 @ v" w2 _ b1 c is_space]) (simp_all add: s defs w2)
  have sp4: "span is_space src c1 d0"
    by (rule span_mid [of src "pre @ ind @ kw @ w1 @ v @ w2 @ cn" w3 _ c1 d0 is_space])
      (simp_all add: s defs w3)
  have sp5: "span is_word src d0 d1"
    by (rule span_mid [of src "pre @ ind @ kw @ w1 @ v @ w2 @ cn @ w3" t _ d0 d1 is_word])
      (simp_all add: s defs t)
  have sh: "shaped src (kind, conn, gv, gt) a b0 b1 c d0 d1"
    using ci1 ci2 sp1 sp2 sp3 sp4 sp5 w1 w2 w3 v t lk lc
    by (simp add: shaped_def a1_def [symmetric] c1_def [symmetric]) (simp add: defs)
  let ?r = "(Suc d1, [(stmt, a, d1), (gt, d0, d1), (gv, b0, b1)])"
  have fit: "fits src S ?r"
    unfolding fits_def using K bol sp0 sh d1_len d1_dot by blast
  from finditer_finds [OF fit, of 0] obtain m where m: "m \<in> set (finditer ARITH_RE src 0)"
    and mr: "m_end m = Suc d1" "m_groups m = [(stmt, a, d1), (gt, d0, d1), (gv, b0, b1)]"
    by auto
  have same: "(map_of (m_groups y) stmt = Some (a, d1)) = (m_end y = m_end m)"
    if y: "y \<in> set (finditer ARITH_RE src 0)" for y
  proof
    assume "map_of (m_groups y) stmt = Some (a, d1)"
    with finditer_fits [OF y] mr show "m_end y = m_end m" by (auto simp: fits_def)
  next
    assume "m_end y = m_end m"
    with y have "y \<in> set (filter (\<lambda>y. m_end y = m_end m) (finditer ARITH_RE src 0))" by simp
    then have "y = m" unfolding strict_sorted_filter [OF finditer_ends m] by simp
    with mr show "map_of (m_groups y) stmt = Some (a, d1)" by simp
  qed
  have "filter (\<lambda>y. map_of (m_groups y) stmt = Some (a, d1)) (finditer ARITH_RE src 0)
      = filter (\<lambda>y. m_end y = m_end m) (finditer ARITH_RE src 0)"
    by (rule filter_cong) (simp_all add: same)
  also have "\<dots> = [m]" by (rule strict_sorted_filter [OF finditer_ends m])
  finally have one: "filter (\<lambda>y. map_of (m_groups y) stmt = Some (a, d1)) (finditer ARITH_RE src 0) = [m]" .
  have tx: "slice src a d1 = stm"
    by (rule slice_mid [of src "pre @ ind" stm "[FULL_STOP] @ post"]) (simp_all add: src body defs)
  have kx: "slice src a (a + length kind) = kw"
    by (rule slice_mid [of src "pre @ ind" kw]) (simp_all add: s defs lk)
  have vx: "slice src b0 b1 = v"
    by (rule slice_mid [of src "pre @ ind @ kw @ w1" v]) (simp_all add: s defs)
  have ty: "slice src d0 d1 = t"
    by (rule slice_mid [of src "pre @ ind @ kw @ w1 @ v @ w2 @ cn @ w3" t]) (simp_all add: s defs)
  note sm = scan_match_shaped [OF K sh d1_len mr(2)]
  have la: "length (pre @ ind) = a" "length (pre @ ind @ stm) = d1"
    by (simp_all add: defs body)
  from sm(5) have cl: "classify src m (slice src a d1)
      = (if 304 \<in> set kw then None
         else Some (cps kind, Some (slice src b0 b1), Some (slice src d0 d1)))"
    unfolding kx .
  from one mr(1) sm(1) sm(4) cl show ?thesis
    unfolding la tx vx ty by auto
qed

theorem statement_at_line_start_detected_witness:
  "\<exists>m. filter (\<lambda>m. map_of (m_groups m) stmt = Some (10, 28))
           (finditer ARITH_RE
              (cps ''MOVE A.'' @ [10, 32, 32, 100, 305, 118, 305, 100, 101, 32] @ cps ''X1''
                 @ [10, 8195] @ cps ''By  y_2. ADD'') 0) = [m]
       \<and> m_end m = 29
       \<and> m_group (cps ''MOVE A.'' @ [10, 32, 32, 100, 305, 118, 305, 100, 101, 32] @ cps ''X1''
                 @ [10, 8195] @ cps ''By  y_2. ADD'') m stmt
           = Some ([100, 305, 118, 305, 100, 101, 32] @ cps ''X1'' @ [10, 8195] @ cps ''By  y_2'')
       \<and> classify (cps ''MOVE A.'' @ [10, 32, 32, 100, 305, 118, 305, 100, 101, 32] @ cps ''X1''
                 @ [10, 8195] @ cps ''By  y_2. ADD'') m
            (strip ([100, 305, 118, 305, 100, 101, 32] @ cps ''X1'' @ [10, 8195] @ cps ''By  y_2''))
           = Some (cps ''DIVIDE'', Some (cps ''X1''), Some (cps ''y_2''))"
proof -
  have h1: "(''DIVIDE'', ''BY'', div_val, div_target) \<in> set FORMS" by (simp add: FORMS_def)
  have h2a: "list_all2 (\<lambda>c p. c \<in> set (accepts p)) [100, 305, 118, 305, 100, 101] ''DIVIDE''"
    by code_simp
  have h2b: "list_all2 (\<lambda>c p. c \<in> set (accepts p)) (cps ''By'') ''BY''" by code_simp
  have h3: "[32 :: int] \<noteq> []" "list_all is_space [32]" "[10, 8195 :: int] \<noteq> []"
    "list_all is_space [10, 8195]" "cps ''  '' \<noteq> []" "list_all is_space (cps ''  '')"
    by code_simp+
  have h4: "cps ''X1'' \<noteq> []" "list_all is_word (cps ''X1'')" "cps ''y_2'' \<noteq> []"
    "list_all is_word (cps ''y_2'')"
    by code_simp+
  have h5: "cps ''MOVE A.'' @ [10] = [] \<or> last (cps ''MOVE A.'' @ [10]) = NL" by (simp add: NL_def)
  show ?thesis
    using statement_at_line_start_detected [OF h1 h2a h2b h3(1,2) h3(3,4) h3(5,6) h4 h3(6) h5
      refl refl, of "cps '' ADD''"]
    by (simp add: eval_nat_numeral cps_def FULL_STOP_def)
qed

text \<open>A statement that follows other text on its line is not matched: the pattern
  starts at the start of a line.\<close>

theorem statement_inside_line_counterexample:
  "finditer ARITH_RE (cps ''MOVE 1 TO Y. ADD 1 TO X.'') 0 = []"
  by code_simp


section \<open>The end-to-end scenario\<close>

text \<open>The loop body on a match whose groups and kind are known.\<close>

lemma scan_match_eval:
  assumes "m_group s m stmt = Some tx" "classify s m (strip tx) = Some (ty, val, tgt)"
    and "OPERATORS ty = Some op"
  shows "scan_match u s m
     = Inr (Some (finding_of u s (m_start m) ty op (fmt val) (fmt tgt) (strip tx)))"
  using assms by (simp add: scan_match_def Let_def make_finding_eq)

lemma finditer_scenario:
  "finditer ARITH_RE (cps ''ADD 1 TO X.\<newline>SUBTRACT 2 FROM Y.'') 0 =
     [\<lparr>m_start = 0, m_end = 11,
        m_groups = [(stmt, 0, 10), (add_target, 9, 10), (add_val, 4, 5)]\<rparr>,
      \<lparr>m_start = 12, m_end = 30,
        m_groups = [(stmt, 12, 29), (sub_target, 28, 29), (sub_val, 21, 22)]\<rparr>]"
  by code_simp

lemma scenario_first:
  "m_group (cps ''ADD 1 TO X.\<newline>SUBTRACT 2 FROM Y.'')
      \<lparr>m_start = 0, m_end = 11,
        m_groups = [(stmt, 0, 10), (add_target, 9, 10), (add_val, 4, 5)]\<rparr> stmt
     = Some (cps ''ADD 1 TO X'')"
  "classify (cps ''ADD 1 TO X.\<newline>SUBTRACT 2 FROM Y.'')
      \<lparr>m_start = 0, m_end = 11,
        m_groups = [(stmt, 0, 10), (add_target, 9, 10), (add_val, 4, 5)]\<rparr>
      (strip (cps ''ADD 1 TO X''))
     = Some (cps ''ADD'', Some (cps ''1''), Some (cps ''X''))"
  "OPERATORS (cps ''ADD'') = Some (cps ''+='')"
  "str_count (take 0 (cps ''ADD 1 TO X.\<newline>SUBTRACT 2 FROM Y.'')) NL = 0"
  by code_simp+

lemma scenario_second:
  "m_group (cps ''ADD 1 TO X.\<newline>SUBTRACT 2 FROM Y.'')
      \<lparr>m_start = 12, m_end = 30,
        m_groups = [(stmt, 12, 29), (sub_target, 28, 29), (sub_val, 21, 22)]\<rparr> stmt
     = Some (cps ''SUBTRACT 2 FROM Y'')"
  "classify (cps ''ADD 1 TO X.\<newline>SUBTRACT 2 FROM Y.'')
      \<lparr>m_start = 12, m_end = 30,
        m_groups = [(stmt, 12, 29), (sub_target, 28, 29), (sub_val, 21, 22)]\<rparr>
      (strip (cps ''SUBTRACT 2 FROM Y''))
     = Some (cps ''SUBTRACT'', Some (cps ''2''), Some (cps ''Y''))"
  "OPERATORS (cps ''SUBTRACT'') = Some (cps ''-='')"
  "str_count (take 12 (cps ''ADD 1 TO X.\<newline>SUBTRACT 2 FROM Y.'')) NL = 1"
  by code_simp+

text \<open>
  C4. Scanning the unit with program name \<open>P1\<close>, start line 100 and the code
  \<open>ADD 1 TO X.\<close>, line break, \<open>SUBTRACT 2 FROM Y.\<close> (whatever its other fields are)
  returns exactly two findings, in this order: one on line 100 of type
  \<open>ObsoleteADDUsage\<close>, one on line 101 of type \<open>ObsoleteSUBTRACTUsage\<close>.
\<close>

theorem scenario_two_findings:
  "\<exists>v f1 f2.
     scan_unit (u\<lparr>pgm_name := cps ''P1'', start_line := 100,
                  code := Some (cps ''ADD 1 TO X.\<newline>SUBTRACT 2 FROM Y.'')\<rparr>) = Inr v
     \<and> findings v = Some [f1, f2]
     \<and> starting_line f1 = Some 100 \<and> issues_type f1 = Some (cps ''ObsoleteADDUsage'')
     \<and> starting_line f2 = Some 101 \<and> issues_type f2 = Some (cps ''ObsoleteSUBTRACTUsage'')"
proof -
  let ?u = "u\<lparr>pgm_name := cps ''P1'', start_line := 100,
                  code := Some (cps ''ADD 1 TO X.\<newline>SUBTRACT 2 FROM Y.'')\<rparr>"
  let ?s = "cps ''ADD 1 TO X.\<newline>SUBTRACT 2 FROM Y.''"
  have s: "code_or_empty ?u = ?s" by (simp add: code_or_empty_def)
  let ?f1 = "finding_of ?u ?s 0 (cps ''ADD'') (cps ''+='') (cps ''1'') (cps ''X'')
      (strip (cps ''ADD 1 TO X''))"
  let ?f2 = "finding_of ?u ?s 12 (cps ''SUBTRACT'') (cps ''-='') (cps ''2'') (cps ''Y'')
      (strip (cps ''SUBTRACT 2 FROM Y''))"
  have r: "scan_unit ?u = Inr (?u\<lparr>findings := Some [?f1, ?f2]\<rparr>)"
    unfolding scan_unit_def s Let_def finditer_scenario
    by (simp add: scan_match_eval [OF scenario_first(1,2,3)] scan_match_eval [OF scenario_second(1,2,3)]
        fmt_def)
  have f: "findings (?u\<lparr>findings := Some [?f1, ?f2]\<rparr>) = Some [?f1, ?f2]" by simp
  have c0: "str_count [] NL = 0" by (simp add: str_count_def)
  have l1: "starting_line ?f1 = Some 100" "starting_line ?f2 = Some 101"
    by (simp_all add: finding_of_def c0 scenario_second(4))
  have t1: "issues_type ?f1 = Some (cps ''ObsoleteADDUsage'')"
    "issues_type ?f2 = Some (cps ''ObsoleteSUBTRACTUsage'')"
    by (simp_all add: finding_of_def cps_def)
  show ?thesis
    by (rule exI [of _ "?u\<lparr>findings := Some [?f1, ?f2]\<rparr>"], rule exI [of _ ?f1],
        rule exI [of _ ?f2]) (intro conjI r f l1 t1)
qed


section \<open>The findings of a scan\<close>

lemma found_update: "found (u\<lparr>findings := (if fs \<noteq> [] then Some fs else None)\<rparr>) = fs"
  by (simp add: found_def)

lemma scan_unit_found:
  "\<exists>v. scan_unit u = Inr v
     \<and> v = u\<lparr>findings := (if found v \<noteq> [] then Some (found v) else None)\<rparr>
     \<and> list_all2 (\<lambda>m f. scan_match u (code_or_empty u) m = Inr (Some f))
          (filter (reads_kind (code_or_empty u)) (finditer ARITH_RE (code_or_empty u) 0)) (found v)"
proof -
  from scan_unit_findings [of u] obtain fs where
    1: "list_all2 (\<lambda>m f. scan_match u (code_or_empty u) m = Inr (Some f))
            (filter (reads_kind (code_or_empty u)) (finditer ARITH_RE (code_or_empty u) 0)) fs"
    and 2: "scan_unit u = Inr (u\<lparr>findings := (if fs \<noteq> [] then Some fs else None)\<rparr>)"
    by blast
  let ?v = "u\<lparr>findings := (if fs \<noteq> [] then Some fs else None)\<rparr>"
  have "found ?v = fs" by (rule found_update)
  with 1 2 show ?thesis by (intro exI [of _ ?v]) (simp add: found_def)
qed

text \<open>The scan of a text with one match whose groups and kind are known.\<close>

lemma scan_unit_single:
  assumes "finditer ARITH_RE s 0 = [m]" "m_group s m stmt = Some tx"
    and "classify s m (strip tx) = Some (ty, val, tgt)" "OPERATORS ty = Some op"
  shows "scan_unit (u\<lparr>code := Some s\<rparr>)
     = Inr (u\<lparr>code := Some s, findings := Some [finding_of (u\<lparr>code := Some s\<rparr>) s (m_start m)
            ty op (fmt val) (fmt tgt) (strip tx)]\<rparr>)"
  by (simp add: scan_unit_def code_or_empty_def Let_def assms(1) scan_match_eval [OF assms(2,3,4)])



text \<open>
  C10. The findings of a scan correspond one to one, in order, to the matches from which
  the loop body reads a kind. For every finding, and the kind the loop body reads from its
  match: the kind is one of \<open>ADD\<close>, \<open>SUBTRACT\<close>, \<open>MULTIPLY\<close>,
  \<open>DIVIDE\<close>; the severity is \<open>error\<close>; the issue type is
  \<open>Obsolete<kind>Usage\<close>; the ending line is the starting line; the message is
  \<open>Obsolete '<kind>' statement detected.\<close>; and the program name, include name, type
  and block name are those of the unit.
\<close>

theorem finding_fields:
  "\<exists>v. scan_unit u = Inr v \<and>
      list_all2 (\<lambda>m f. \<exists>tx kind val tgt.
          m_group (code_or_empty u) m stmt = Some tx
        \<and> classify (code_or_empty u) m (strip tx) = Some (kind, val, tgt)
        \<and> kind \<in> set [cps ''ADD'', cps ''SUBTRACT'', cps ''MULTIPLY'', cps ''DIVIDE'']
        \<and> severity f = Some (cps ''error'')
        \<and> issues_type f = Some (cps ''Obsolete'' @ kind @ cps ''Usage'')
        \<and> ending_line f = starting_line f
        \<and> message f = Some (cps ''Obsolete '' @ [QUOTE] @ kind @ [QUOTE] @ cps '' statement detected.'')
        \<and> prog_name f = Some (pgm_name u) \<and> incl_name f = Some (inc_name u)
        \<and> types f = Some (type u) \<and> blockname f = name u)
        (filter (reads_kind (code_or_empty u)) (finditer ARITH_RE (code_or_empty u) 0)) (found v)"
proof -
  let ?s = "code_or_empty u"
  from scan_unit_found [of u] obtain v where v: "scan_unit u = Inr v"
    and l: "list_all2 (\<lambda>m f. scan_match u ?s m = Inr (Some f)) (filter (reads_kind ?s) (finditer ARITH_RE ?s 0)) (found v)"
    by blast
  have "list_all2 (\<lambda>m f. \<exists>tx kind val tgt.
          m_group ?s m stmt = Some tx
        \<and> classify ?s m (strip tx) = Some (kind, val, tgt)
        \<and> kind \<in> set [cps ''ADD'', cps ''SUBTRACT'', cps ''MULTIPLY'', cps ''DIVIDE'']
        \<and> severity f = Some (cps ''error'')
        \<and> issues_type f = Some (cps ''Obsolete'' @ kind @ cps ''Usage'')
        \<and> ending_line f = starting_line f
        \<and> message f = Some (cps ''Obsolete '' @ [QUOTE] @ kind @ [QUOTE] @ cps '' statement detected.'')
        \<and> prog_name f = Some (pgm_name u) \<and> incl_name f = Some (inc_name u)
        \<and> types f = Some (type u) \<and> blockname f = name u)
        (filter (reads_kind ?s) (finditer ARITH_RE ?s 0)) (found v)"
  proof (rule list.rel_mono_strong [OF l])
    fix m f assume "m \<in> set (filter (reads_kind ?s) (finditer ARITH_RE ?s 0))"
      and f: "scan_match u ?s m = Inr (Some f)"
    then have m: "m \<in> set (finditer ARITH_RE ?s 0)" by simp
    from finding_of_match [OF m f] obtain tx kind val tgt op where
      1: "m_group ?s m stmt = Some tx" "strip tx = tx"
      "classify ?s m tx = Some (kind, Some val, Some tgt)"
      and 2: "(kind, op) \<in> set [(cps ''ADD'', cps ''+=''), (cps ''SUBTRACT'', cps ''-=''), (cps ''MULTIPLY'', cps ''*=''),
          (cps ''DIVIDE'', cps ''/='')]"
      and 3: "f = finding_of u ?s (m_start m) kind op val tgt tx" by blast
    from 2 have "kind \<in> set [cps ''ADD'', cps ''SUBTRACT'', cps ''MULTIPLY'', cps ''DIVIDE'']" by auto
    with 1 3 have "m_group ?s m stmt = Some tx
        \<and> classify ?s m (strip tx) = Some (kind, Some val, Some tgt)
        \<and> kind \<in> set [cps ''ADD'', cps ''SUBTRACT'', cps ''MULTIPLY'', cps ''DIVIDE'']
        \<and> severity f = Some (cps ''error'')
        \<and> issues_type f = Some (cps ''Obsolete'' @ kind @ cps ''Usage'')
        \<and> ending_line f = starting_line f
        \<and> message f = Some (cps ''Obsolete '' @ [QUOTE] @ kind @ [QUOTE] @ cps '' statement detected.'')
        \<and> prog_name f = Some (pgm_name u) \<and> incl_name f = Some (inc_name u)
        \<and> types f = Some (type u) \<and> blockname f = name u"
      by (simp add: finding_of_def)
    then show "\<exists>tx kind val tgt.
          m_group ?s m stmt = Some tx
        \<and> classify ?s m (strip tx) = Some (kind, val, tgt)
        \<and> kind \<in> set [cps ''ADD'', cps ''SUBTRACT'', cps ''MULTIPLY'', cps ''DIVIDE'']
        \<and> severity f = Some (cps ''error'')
        \<and> issues_type f = Some (cps ''Obsolete'' @ kind @ cps ''Usage'')
        \<and> ending_line f = starting_line f
        \<and> message f = Some (cps ''Obsolete '' @ [QUOTE] @ kind @ [QUOTE] @ cps '' statement detected.'')
        \<and> prog_name f = Some (pgm_name u) \<and> incl_name f = Some (inc_name u)
        \<and> types f = Some (type u) \<and> blockname f = name u"
      by (intro exI)
  qed
  with v show ?thesis by (intro exI [of _ v] conjI)
qed


section \<open>Scanning again\<close>

lemma make_finding_findings_irrelevant:
  "make_finding (u\<lparr>findings := x\<rparr>) s st en ty val tgt tx = make_finding u s st en ty val tgt tx"
  by (cases "OPERATORS ty") (simp_all add: make_finding_def Let_def)

lemma scan_match_findings_irrelevant:
  "scan_match (u\<lparr>findings := x\<rparr>) s m = scan_match u s m"
  unfolding scan_match_def by (simp only: make_finding_findings_irrelevant)

lemma scan_loop_findings_irrelevant:
  "scan_loop (u\<lparr>findings := x\<rparr>) s ms acc = scan_loop u s ms acc"
  by (induction ms arbitrary: acc)
    (simp_all add: scan_match_findings_irrelevant split: sum.splits option.splits)

lemma scan_unit_findings_irrelevant: "scan_unit (u\<lparr>findings := x\<rparr>) = scan_unit u"
  by (simp add: scan_unit_def code_or_empty_def scan_loop_findings_irrelevant Let_def
      split: sum.splits)

text \<open>
  C9. The scan of a unit returns normally; scanning its result again returns that same
  result, and the findings the unit carried when it came in play no part: whatever they
  are, the scan returns the same unit with the same findings.
\<close>

theorem scan_again_same:
  "\<exists>v. scan_unit u = Inr v \<and> scan_unit v = Inr v \<and> (\<forall>fs. scan_unit (u\<lparr>findings := fs\<rparr>) = Inr v)"
proof -
  from scan_unit_found [of u] obtain v where v: "scan_unit u = Inr v"
    and e: "v = u\<lparr>findings := (if found v \<noteq> [] then Some (found v) else None)\<rparr>"
    by blast
  from e have "scan_unit v = scan_unit u" by (metis scan_unit_findings_irrelevant)
  with v show ?thesis by (simp add: scan_unit_findings_irrelevant)
qed


section \<open>Texts without a statement\<close>

lemma finditer_empty_text: "finditer ARITH_RE [] 0 = []"
  by code_simp

lemma finditer_no_period: "finditer ARITH_RE (cps ''ADD 1 TO X'') 0 = []"
  by code_simp

lemma finditer_compute: "finditer ARITH_RE (cps ''COMPUTE X = 1 + 2.'') 0 = []"
  by code_simp

lemma scan_unit_no_match:
  "finditer ARITH_RE (code_or_empty u) 0 = [] \<Longrightarrow> scan_unit u = Inr (u\<lparr>findings := None\<rparr>)"
  by (simp add: scan_unit_def Let_def)

text \<open>
  C8. No unit makes the scan fail: it always returns a unit. When the code of the unit is
  \<open>None\<close> or the empty text, it returns the unit with no findings (\<open>None\<close>); so it
  does for a statement that lacks its period (\<open>ADD 1 TO X\<close>) and for
  \<open>COMPUTE X = 1 + 2.\<close>, which is none of the four statements.
\<close>

theorem scan_never_fails:
  "(\<exists>v. scan_unit u = Inr v)
   \<and> (code u = None \<or> code u = Some [] \<longrightarrow> scan_unit u = Inr (u\<lparr>findings := None\<rparr>))
   \<and> scan_unit (u\<lparr>code := Some (cps ''ADD 1 TO X'')\<rparr>)
        = Inr (u\<lparr>code := Some (cps ''ADD 1 TO X''), findings := None\<rparr>)
   \<and> scan_unit (u\<lparr>code := Some (cps ''COMPUTE X = 1 + 2.'')\<rparr>)
        = Inr (u\<lparr>code := Some (cps ''COMPUTE X = 1 + 2.''), findings := None\<rparr>)"
proof (intro conjI impI)
  from scan_unit_findings [of u] show "\<exists>v. scan_unit u = Inr v" by blast
next
  assume "code u = None \<or> code u = Some []"
  then have "code_or_empty u = []" by (auto simp: code_or_empty_def)
  then show "scan_unit u = Inr (u\<lparr>findings := None\<rparr>)"
    by (intro scan_unit_no_match) (simp add: finditer_empty_text)
next
  show "scan_unit (u\<lparr>code := Some (cps ''ADD 1 TO X'')\<rparr>)
        = Inr (u\<lparr>code := Some (cps ''ADD 1 TO X''), findings := None\<rparr>)"
    by (intro scan_unit_no_match) (simp add: code_or_empty_def finditer_no_period)
next
  show "scan_unit (u\<lparr>code := Some (cps ''COMPUTE X = 1 + 2.'')\<rparr>)
        = Inr (u\<lparr>code := Some (cps ''COMPUTE X = 1 + 2.''), findings := None\<rparr>)"
    by (intro scan_unit_no_match) (simp add: code_or_empty_def finditer_compute)
qed

theorem scan_never_fails_witness:
  "code \<lparr>pgm_name = cps ''P1'', inc_name = cps ''I1'', type = cps ''FORM'', name = Some (cps ''MAIN''),
      class_implementation = None, start_line = 1, end_line = 0, code = None,
      findings = None\<rparr> = None
   \<and> scan_unit \<lparr>pgm_name = cps ''P1'', inc_name = cps ''I1'', type = cps ''FORM'', name = Some (cps ''MAIN''),
      class_implementation = None, start_line = 1, end_line = 0, code = None,
      findings = None\<rparr>
     = Inr \<lparr>pgm_name = cps ''P1'', inc_name = cps ''I1'', type = cps ''FORM'', name = Some (cps ''MAIN''),
      class_implementation = None, start_line = 1, end_line = 0, code = None,
      findings = None\<rparr>
   \<and> scan_unit \<lparr>pgm_name = cps ''P1'', inc_name = cps ''I1'', type = cps ''FORM'', name = Some (cps ''MAIN''),
      class_implementation = None, start_line = 1, end_line = 0, code = Some [],
      findings = Some []\<rparr>
     = Inr \<lparr>pgm_name = cps ''P1'', inc_name = cps ''I1'', type = cps ''FORM'', name = Some (cps ''MAIN''),
      class_implementation = None, start_line = 1, end_line = 0, code = Some [],
      findings = None\<rparr>"
  using scan_never_fails [of "\<lparr>pgm_name = cps ''P1'', inc_name = cps ''I1'', type = cps ''FORM'',
      name = Some (cps ''MAIN''), class_implementation = None, start_line = 1, end_line = 0,
      code = None, findings = None\<rparr>"]
    scan_never_fails [of "\<lparr>pgm_name = cps ''P1'', inc_name = cps ''I1'', type = cps ''FORM'',
      name = Some (cps ''MAIN''), class_implementation = None, start_line = 1, end_line = 0,
      code = Some [], findings = Some []\<rparr>"]
  by simp

section \<open>Units without findings\<close>

lemma array_loop_append:
  "array_loop (xs @ ys) acc =
     (case array_loop xs acc of Inl e \<Rightarrow> Inl e | Inr acc' \<Rightarrow> array_loop ys acc')"
  by (induction xs arbitrary: acc) (simp_all split: sum.splits)

text \<open>
  C7. Take a unit for which the loop of the scan collects no finding. The single-unit
  operation returns it with \<open>None\<close> for its findings, and the batch operation leaves it
  out: its result for a list that holds the unit is its result for the list without it.
  And for no unit at all does the scan return the empty list for the findings.
\<close>

theorem no_findings_policy:
  assumes "scan_loop u (code_or_empty u) (finditer ARITH_RE (code_or_empty u) 0) [] = Inr []"
  shows "arithmetic_single u = Inr (u\<lparr>findings := None\<rparr>)
     \<and> arithmetic_array (us1 @ u # us2) = arithmetic_array (us1 @ us2)
     \<and> (\<exists>v. scan_unit w = Inr v \<and> findings v \<noteq> Some [])"
proof (intro conjI)
  from assms have su: "scan_unit u = Inr (u\<lparr>findings := None\<rparr>)"
    by (simp add: scan_unit_def Let_def)
  then show "arithmetic_single u = Inr (u\<lparr>findings := None\<rparr>)"
    by (simp add: arithmetic_single_def)
  from su have "array_loop (u # us2) acc = array_loop us2 acc" for acc
    by (simp add: truthy_def)
  then show "arithmetic_array (us1 @ u # us2) = arithmetic_array (us1 @ us2)"
    by (simp add: arithmetic_array_def array_loop_append [of us1] split: sum.splits)
  from scan_unit_findings [of w] obtain fs where
    "scan_unit w = Inr (w\<lparr>findings := (if fs \<noteq> [] then Some fs else None)\<rparr>)" by blast
  then have "scan_unit w = Inr (w\<lparr>findings := (if fs \<noteq> [] then Some fs else None)\<rparr>)
    \<and> findings (w\<lparr>findings := (if fs \<noteq> [] then Some fs else None)\<rparr>) \<noteq> Some []" by simp
  then show "\<exists>v. scan_unit w = Inr v \<and> findings v \<noteq> Some []" by blast
qed

theorem no_findings_policy_witness:
  "scan_loop (\<lparr>pgm_name = cps ''P1'', inc_name = cps ''I1'', type = cps ''FORM'', name = Some (cps ''MAIN''),
      class_implementation = None, start_line = 100, end_line = 0,
      code = Some (cps ''COMPUTE X = 1 + 2.''), findings = None\<rparr>) (code_or_empty (\<lparr>pgm_name = cps ''P1'', inc_name = cps ''I1'', type = cps ''FORM'', name = Some (cps ''MAIN''),
      class_implementation = None, start_line = 100, end_line = 0,
      code = Some (cps ''COMPUTE X = 1 + 2.''), findings = None\<rparr>)) (finditer ARITH_RE (code_or_empty (\<lparr>pgm_name = cps ''P1'', inc_name = cps ''I1'', type = cps ''FORM'', name = Some (cps ''MAIN''),
      class_implementation = None, start_line = 100, end_line = 0,
      code = Some (cps ''COMPUTE X = 1 + 2.''), findings = None\<rparr>)) 0) [] = Inr []
   \<and> arithmetic_single (\<lparr>pgm_name = cps ''P1'', inc_name = cps ''I1'', type = cps ''FORM'', name = Some (cps ''MAIN''),
      class_implementation = None, start_line = 100, end_line = 0,
      code = Some (cps ''COMPUTE X = 1 + 2.''), findings = None\<rparr>) = Inr ((\<lparr>pgm_name = cps ''P1'', inc_name = cps ''I1'', type = cps ''FORM'', name = Some (cps ''MAIN''),
      class_implementation = None, start_line = 100, end_line = 0,
      code = Some (cps ''COMPUTE X = 1 + 2.''), findings = None\<rparr>)\<lparr>findings := None\<rparr>)
   \<and> arithmetic_array ([\<lparr>pgm_name = cps ''P1'', inc_name = cps ''I1'', type = cps ''FORM'', name = Some (cps ''MAIN''),
      class_implementation = None, start_line = 100, end_line = 0,
      code = Some (cps ''ADD 1 TO X.''), findings = None\<rparr>] @ (\<lparr>pgm_name = cps ''P1'', inc_name = cps ''I1'', type = cps ''FORM'', name = Some (cps ''MAIN''),
      class_implementation = None, start_line = 100, end_line = 0,
      code = Some (cps ''COMPUTE X = 1 + 2.''), findings = None\<rparr>) # []) = arithmetic_array ([\<lparr>pgm_name = cps ''P1'', inc_name = cps ''I1'', type = cps ''FORM'', name = Some (cps ''MAIN''),
      class_implementation = None, start_line = 100, end_line = 0,
      code = Some (cps ''ADD 1 TO X.''), findings = None\<rparr>] @ [])"
proof -
  have h: "scan_loop (\<lparr>pgm_name = cps ''P1'', inc_name = cps ''I1'', type = cps ''FORM'', name = Some (cps ''MAIN''),
      class_implementation = None, start_line = 100, end_line = 0,
      code = Some (cps ''COMPUTE X = 1 + 2.''), findings = None\<rparr>) (code_or_empty (\<lparr>pgm_name = cps ''P1'', inc_name = cps ''I1'', type = cps ''FORM'', name = Some (cps ''MAIN''),
      class_implementation = None, start_line = 100, end_line = 0,
      code = Some (cps ''COMPUTE X = 1 + 2.''), findings = None\<rparr>)) (finditer ARITH_RE (code_or_empty (\<lparr>pgm_name = cps ''P1'', inc_name = cps ''I1'', type = cps ''FORM'', name = Some (cps ''MAIN''),
      class_implementation = None, start_line = 100, end_line = 0,
      code = Some (cps ''COMPUTE X = 1 + 2.''), findings = None\<rparr>)) 0) [] = Inr []"
    by (simp add: code_or_empty_def finditer_compute)
  from no_findings_policy [OF h, of "[\<lparr>pgm_name = cps ''P1'', inc_name = cps ''I1'', type = cps ''FORM'', name = Some (cps ''MAIN''),
      class_implementation = None, start_line = 100, end_line = 0,
      code = Some (cps ''ADD 1 TO X.''), findings = None\<rparr>]" "[]"] h show ?thesis by simp
qed

section \<open>The unit given to the scan\<close>

lemma scan_loop_total:
  "\<exists>fs. scan_loop u (code_or_empty u) (finditer ARITH_RE (code_or_empty u) 0) [] = Inr fs"
  using scan_unit_findings [of u] by blast

text \<open>
  C6. With units as objects on a heap: the scan of the unit at an address returns the
  address of a new object, the one past those allocated before. Every object allocated
  before the call, the unit given among them, is after the call what it was before. The
  new object is the value the scan computes; its program name, include name, type, name,
  class implementation, start line, end line and code are those of the unit given, and
  its findings are \<open>None\<close> when the scan found nothing and the list of findings
  otherwise.
\<close>

theorem scan_unit_leaves_input:
  assumes "a < length h"
  shows "\<exists>out h' v. scan_unit_obj h a = Inr (out, h') \<and> scan_unit (h ! a) = Inr v
     \<and> out = length h \<and> length h' = Suc (length h) \<and> h' ! out = v
     \<and> (\<forall>b < length h. h' ! b = h ! b)
     \<and> pgm_name v = pgm_name (h ! a) \<and> inc_name v = inc_name (h ! a) \<and> type v = type (h ! a)
     \<and> name v = name (h ! a) \<and> class_implementation v = class_implementation (h ! a)
     \<and> start_line v = start_line (h ! a) \<and> end_line v = end_line (h ! a)
     \<and> code v = code (h ! a)
     \<and> findings v = (if found v = [] then None else Some (found v))"
proof -
  let ?u = "h ! a"
  from scan_loop_total [of ?u] obtain fs where
    fs: "scan_loop ?u (code_or_empty ?u) (finditer ARITH_RE (code_or_empty ?u) 0) [] = Inr fs"
    by blast
  let ?v = "?u\<lparr>findings := (if fs \<noteq> [] then Some fs else None)\<rparr>"
  let ?h = "h @ [?v]"
  from fs have 1: "scan_unit_obj h a = Inr (length h, ?h)"
    by (simp add: scan_unit_obj_def Let_def)
  from fs have 2: "scan_unit ?u = Inr ?v" by (simp add: scan_unit_def Let_def)
  have 3: "length ?h = Suc (length h)" "?h ! length h = ?v" "\<forall>b < length h. ?h ! b = h ! b"
    by (simp_all add: nth_append)
  have 4: "pgm_name ?v = pgm_name ?u \<and> inc_name ?v = inc_name ?u \<and> type ?v = type ?u
     \<and> name ?v = name ?u \<and> class_implementation ?v = class_implementation ?u
     \<and> start_line ?v = start_line ?u \<and> end_line ?v = end_line ?u
     \<and> code ?v = code ?u
     \<and> findings ?v = (if found ?v = [] then None else Some (found ?v))"
    by (simp add: found_def)
  from 1 2 3 4 show ?thesis by blast
qed

theorem scan_unit_leaves_input_witness:
  "0 < length [\<lparr>pgm_name = cps ''P1'', inc_name = cps ''I1'', type = cps ''FORM'', name = Some (cps ''MAIN''),
      class_implementation = None, start_line = 100, end_line = 0,
      code = Some (cps ''ADD 1 TO X.''), findings = None\<rparr>]
   \<and> (\<exists>out h' v. scan_unit_obj [\<lparr>pgm_name = cps ''P1'', inc_name = cps ''I1'', type = cps ''FORM'', name = Some (cps ''MAIN''),
      class_implementation = None, start_line = 100, end_line = 0,
      code = Some (cps ''ADD 1 TO X.''), findings = None\<rparr>] 0 = Inr (out, h') \<and> scan_unit ([\<lparr>pgm_name = cps ''P1'', inc_name = cps ''I1'', type = cps ''FORM'', name = Some (cps ''MAIN''),
      class_implementation = None, start_line = 100, end_line = 0,
      code = Some (cps ''ADD 1 TO X.''), findings = None\<rparr>] ! 0) = Inr v
     \<and> out = length [\<lparr>pgm_name = cps ''P1'', inc_name = cps ''I1'', type = cps ''FORM'', name = Some (cps ''MAIN''),
      class_implementation = None, start_line = 100, end_line = 0,
      code = Some (cps ''ADD 1 TO X.''), findings = None\<rparr>] \<and> length h' = Suc (length [\<lparr>pgm_name = cps ''P1'', inc_name = cps ''I1'', type = cps ''FORM'', name = Some (cps ''MAIN''),
      class_implementation = None, start_line = 100, end_line = 0,
      code = Some (cps ''ADD 1 TO X.''), findings = None\<rparr>]) \<and> h' ! out = v
     \<and> (\<forall>b < length [\<lparr>pgm_name = cps ''P1'', inc_name = cps ''I1'', type = cps ''FORM'', name = Some (cps ''MAIN''),
      class_implementation = None, start_line = 100, end_line = 0,
      code = Some (cps ''ADD 1 TO X.''), findings = None\<rparr>]. h' ! b = [\<lparr>pgm_name = cps ''P1'', inc_name = cps ''I1'', type = cps ''FORM'', name = Some (cps ''MAIN''),
      class_implementation = None, start_line = 100, end_line = 0,
      code = Some (cps ''ADD 1 TO X.''), findings = None\<rparr>] ! b)
     \<and> pgm_name v = pgm_name ([\<lparr>pgm_name = cps ''P1'', inc_name = cps ''I1'', type = cps ''FORM'', name = Some (cps ''MAIN''),
      class_implementation = None, start_line = 100, end_line = 0,
      code = Some (cps ''ADD 1 TO X.''), findings = None\<rparr>] ! 0) \<and> inc_name v = inc_name ([\<lparr>pgm_name = cps ''P1'', inc_name = cps ''I1'', type = cps ''FORM'', name = Some (cps ''MAIN''),
      class_implementation = None, start_line = 100, end_line = 0,
      code = Some (cps ''ADD 1 TO X.''), findings = None\<rparr>] ! 0)
     \<and> type v = type ([\<lparr>pgm_name = cps ''P1'', inc_name = cps ''I1'', type = cps ''FORM'', name = Some (cps ''MAIN''),
      class_implementation = None, start_line = 100, end_line = 0,
      code = Some (cps ''ADD 1 TO X.''), findings = None\<rparr>] ! 0)
     \<and> name v = name ([\<lparr>pgm_name = cps ''P1'', inc_name = cps ''I1'', type = cps ''FORM'', name = Some (cps ''MAIN''),
      class_implementation = None, start_line = 100, end_line = 0,
      code = Some (cps ''ADD 1 TO X.''), findings = None\<rparr>] ! 0) \<and> class_implementation v = class_implementation ([\<lparr>pgm_name = cps ''P1'', inc_name = cps ''I1'', type = cps ''FORM'', name = Some (cps ''MAIN''),
      class_implementation = None, start_line = 100, end_line = 0,
      code = Some (cps ''ADD 1 TO X.''), findings = None\<rparr>] ! 0)
     \<and> start_line v = start_line ([\<lparr>pgm_name = cps ''P1'', inc_name = cps ''I1'', type = cps ''FORM'', name = Some (cps ''MAIN''),
      class_implementation = None, start_line = 100, end_line = 0,
      code = Some (cps ''ADD 1 TO X.''), findings = None\<rparr>] ! 0) \<and> end_line v = end_line ([\<lparr>pgm_name = cps ''P1'', inc_name = cps ''I1'', type = cps ''FORM'', name = Some (cps ''MAIN''),
      class_implementation = None, start_line = 100, end_line = 0,
      code = Some (cps ''ADD 1 TO X.''), findings = None\<rparr>] ! 0)
     \<and> code v = code ([\<lparr>pgm_name = cps ''P1'', inc_name = cps ''I1'', type = cps ''FORM'', name = Some (cps ''MAIN''),
      class_implementation = None, start_line = 100, end_line = 0,
      code = Some (cps ''ADD 1 TO X.''), findings = None\<rparr>] ! 0)
     \<and> findings v = (if found v = [] then None else Some (found v)))"
proof
  show h: "0 < length [\<lparr>pgm_name = cps ''P1'', inc_name = cps ''I1'', type = cps ''FORM'', name = Some (cps ''MAIN''),
      class_implementation = None, start_line = 100, end_line = 0,
      code = Some (cps ''ADD 1 TO X.''), findings = None\<rparr>]" by simp
  show "\<exists>out h' v. scan_unit_obj [\<lparr>pgm_name = cps ''P1'', inc_name = cps ''I1'', type = cps ''FORM'', name = Some (cps ''MAIN''),
      class_implementation = None, start_line = 100, end_line = 0,
      code = Some (cps ''ADD 1 TO X.''), findings = None\<rparr>] 0 = Inr (out, h') \<and> scan_unit ([\<lparr>pgm_name = cps ''P1'', inc_name = cps ''I1'', type = cps ''FORM'', name = Some (cps ''MAIN''),
      class_implementation = None, start_line = 100, end_line = 0,
      code = Some (cps ''ADD 1 TO X.''), findings = None\<rparr>] ! 0) = Inr v
     \<and> out = length [\<lparr>pgm_name = cps ''P1'', inc_name = cps ''I1'', type = cps ''FORM'', name = Some (cps ''MAIN''),
      class_implementation = None, start_line = 100, end_line = 0,
      code = Some (cps ''ADD 1 TO X.''), findings = None\<rparr>] \<and> length h' = Suc (length [\<lparr>pgm_name = cps ''P1'', inc_name = cps ''I1'', type = cps ''FORM'', name = Some (cps ''MAIN''),
      class_implementation = None, start_line = 100, end_line = 0,
      code = Some (cps ''ADD 1 TO X.''), findings = None\<rparr>]) \<and> h' ! out = v
     \<and> (\<forall>b < length [\<lparr>pgm_name = cps ''P1'', inc_name = cps ''I1'', type = cps ''FORM'', name = Some (cps ''MAIN''),
      class_implementation = None, start_line = 100, end_line = 0,
      code = Some (cps ''ADD 1 TO X.''), findings = None\<rparr>]. h' ! b = [\<lparr>pgm_name = cps ''P1'', inc_name = cps ''I1'', type = cps ''FORM'', name = Some (cps ''MAIN''),
      class_implementation = None, start_line = 100, end_line = 0,
      code = Some (cps ''ADD 1 TO X.''), findings = None\<rparr>] ! b)
     \<and> pgm_name v = pgm_name ([\<lparr>pgm_name = cps ''P1'', inc_name = cps ''I1'', type = cps ''FORM'', name = Some (cps ''MAIN''),
      class_implementation = None, start_line = 100, end_line = 0,
      code = Some (cps ''ADD 1 TO X.''), findings = None\<rparr>] ! 0) \<and> inc_name v = inc_name ([\<lparr>pgm_name = cps ''P1'', inc_name = cps ''I1'', type = cps ''FORM'', name = Some (cps ''MAIN''),
      class_implementation = None, start_line = 100, end_line = 0,
      code = Some (cps ''ADD 1 TO X.''), findings = None\<rparr>] ! 0)
     \<and> type v = type ([\<lparr>pgm_name = cps ''P1'', inc_name = cps ''I1'', type = cps ''FORM'', name = Some (cps ''MAIN''),
      class_implementation = None, start_line = 100, end_line = 0,
      code = Some (cps ''ADD 1 TO X.''), findings = None\<rparr>] ! 0)
     \<and> name v = name ([\<lparr>pgm_name = cps ''P1'', inc_name = cps ''I1'', type = cps ''FORM'', name = Some (cps ''MAIN''),
      class_implementation = None, start_line = 100, end_line = 0,
      code = Some (cps ''ADD 1 TO X.''), findings = None\<rparr>] ! 0) \<and> class_implementation v = class_implementation ([\<lparr>pgm_name = cps ''P1'', inc_name = cps ''I1'', type = cps ''FORM'', name = Some (cps ''MAIN''),
      class_implementation = None, start_line = 100, end_line = 0,
      code = Some (cps ''ADD 1 TO X.''), findings = None\<rparr>] ! 0)
     \<and> start_line v = start_line ([\<lparr>pgm_name = cps ''P1'', inc_name = cps ''I1'', type = cps ''FORM'', name = Some (cps ''MAIN''),
      class_implementation = None, start_line = 100, end_line = 0,
      code = Some (cps ''ADD 1 TO X.''), findings = None\<rparr>] ! 0) \<and> end_line v = end_line ([\<lparr>pgm_name = cps ''P1'', inc_name = cps ''I1'', type = cps ''FORM'', name = Some (cps ''MAIN''),
      class_implementation = None, start_line = 100, end_line = 0,
      code = Some (cps ''ADD 1 TO X.''), findings = None\<rparr>] ! 0)
     \<and> code v = code ([\<lparr>pgm_name = cps ''P1'', inc_name = cps ''I1'', type = cps ''FORM'', name = Some (cps ''MAIN''),
      class_implementation = None, start_line = 100, end_line = 0,
      code = Some (cps ''ADD 1 TO X.''), findings = None\<rparr>] ! 0)
     \<and> findings v = (if found v = [] then None else Some (found v))"
    by (rule scan_unit_leaves_input [OF h])
qed

section \<open>The line of a finding\<close>

lemma blank_line_example:
  "finditer ARITH_RE (cps ''\<newline>ADD 1 TO X.'') 0 =
     [\<lparr>m_start = 0, m_end = 12,
        m_groups = [(stmt, 1, 11), (add_target, 10, 11), (add_val, 5, 6)]\<rparr>]"
  "m_group (cps ''\<newline>ADD 1 TO X.'')
      \<lparr>m_start = 0, m_end = 12,
        m_groups = [(stmt, 1, 11), (add_target, 10, 11), (add_val, 5, 6)]\<rparr> stmt
     = Some (cps ''ADD 1 TO X'')"
  "classify (cps ''\<newline>ADD 1 TO X.'')
      \<lparr>m_start = 0, m_end = 12,
        m_groups = [(stmt, 1, 11), (add_target, 10, 11), (add_val, 5, 6)]\<rparr>
      (strip (cps ''ADD 1 TO X''))
     = Some (cps ''ADD'', Some (cps ''1''), Some (cps ''X''))"
  "OPERATORS (cps ''ADD'') = Some (cps ''+='')"
  "str_replace (extract_exact_line (cps ''\<newline>ADD 1 TO X.'') 0) NL (BACKSLASH # cps ''n'') = []"
  "str_count (take 1 (cps ''\<newline>ADD 1 TO X.'')) NL = 1"
  by code_simp+

text \<open>
  C2, at an input where the code departs from it. The text is an empty line and then
  \<open>ADD 1 TO X.\<close>, in a unit that starts on line 100. The statement stands on the
  second line of the text (its keyword is at offset 1, after one line break), which is
  line 101. The match starts at offset 0, since the white space the pattern allows before
  the keyword takes the line break in; the finding's starting line, counted from the
  start of the match, is 100, and its snippet is the empty line.
\<close>

theorem blank_line_before_statement_line:
  "(\<exists>v f. scan_unit (u\<lparr>start_line := 100, code := Some (cps ''\<newline>ADD 1 TO X.'')\<rparr>) = Inr v
       \<and> found v = [f] \<and> starting_line f = Some 100 \<and> snippet f = Some [])
   \<and> map (\<lambda>m. (m_start m, map_of (m_groups m) stmt)) (finditer ARITH_RE (cps ''\<newline>ADD 1 TO X.'') 0)
       = [(0, Some (1, 11))]
   \<and> 100 + int (str_count (take 1 (cps ''\<newline>ADD 1 TO X.'')) NL) = 101"
proof (intro conjI)
  show "\<exists>v f. scan_unit (u\<lparr>start_line := 100, code := Some (cps ''\<newline>ADD 1 TO X.'')\<rparr>) = Inr v
       \<and> found v = [f] \<and> starting_line f = Some 100 \<and> snippet f = Some []"
    by (simp add: scan_unit_single [OF blank_line_example(1,2,3,4)] found_def finding_of_def
        blank_line_example(5) str_count_def)
  show "map (\<lambda>m. (m_start m, map_of (m_groups m) stmt))
          (finditer ARITH_RE (cps ''\<newline>ADD 1 TO X.'') 0) = [(0, Some (1, 11))]"
    by (simp add: blank_line_example(1))
  show "100 + int (str_count (take 1 (cps ''\<newline>ADD 1 TO X.'')) NL) = 101"
    using blank_line_example(6) by simp
qed

section \<open>The snippet of a finding\<close>






















section \<open>A keyword spelt with a dotted capital I\<close>

text \<open>
  The pattern accepts the letter \<open>I\<close> with a dot above (code point 304) for the
  \<open>I\<close> of a keyword, but the upper case of that letter is itself, so the loop body
  reads no kind from such a match and goes on: the text \<open>D\<close>, dotted \<open>I\<close>,
  \<open>VIDE 1 BY X.\<close> has one match and no finding. The dotless small \<open>i\<close> (305) and
  the long \<open>s\<close> (383) are accepted too, and their upper case is the plain letter.
\<close>

lemma dotted_I_example:
  "finditer ARITH_RE (cps ''D'' @ 304 # cps ''VIDE 1 BY X.'') 0 =
     [\<lparr>m_start = 0, m_end = 14,
        m_groups = [(stmt, 0, 13), (div_target, 12, 13), (div_val, 7, 8)]\<rparr>]"
  "m_group (cps ''D'' @ 304 # cps ''VIDE 1 BY X.'')
      \<lparr>m_start = 0, m_end = 14,
        m_groups = [(stmt, 0, 13), (div_target, 12, 13), (div_val, 7, 8)]\<rparr> stmt
     = Some (cps ''D'' @ 304 # cps ''VIDE 1 BY X'')"
  "classify (cps ''D'' @ 304 # cps ''VIDE 1 BY X.'')
      \<lparr>m_start = 0, m_end = 14,
        m_groups = [(stmt, 0, 13), (div_target, 12, 13), (div_val, 7, 8)]\<rparr>
      (strip (cps ''D'' @ 304 # cps ''VIDE 1 BY X'')) = None"
  by code_simp+

lemma dotted_I_no_finding:
  "scan_unit (u\<lparr>code := Some (cps ''D'' @ 304 # cps ''VIDE 1 BY X.'')\<rparr>)
     = Inr (u\<lparr>code := Some (cps ''D'' @ 304 # cps ''VIDE 1 BY X.''), findings := None\<rparr>)"
  by (simp add: scan_unit_def code_or_empty_def Let_def dotted_I_example scan_match_def)

lemma dotless_i_long_s_example:
  "map (\<lambda>m. classify ([383] @ cps ''ubtract 1 from x.'' @ [10, 100, 305, 118, 305] @ cps ''de 2 by y.'') m
        (strip (the (m_group ([383] @ cps ''ubtract 1 from x.'' @ [10, 100, 305, 118, 305] @ cps ''de 2 by y.'') m stmt))))
     (finditer ARITH_RE ([383] @ cps ''ubtract 1 from x.'' @ [10, 100, 305, 118, 305] @ cps ''de 2 by y.'') 0)
   = [Some (cps ''SUBTRACT'', Some (cps ''1''), Some (cps ''x'')),
      Some (cps ''DIVIDE'', Some (cps ''2''), Some (cps ''y''))]"
  by code_simp

end
